(* ===== verification/Escrow_Prelude.thy ===== *)
theory Escrow_Prelude
  imports Main "HOL-Library.Sublist"
begin

text \<open>
  Shared vocabulary of the development: the error values that stand for the Python
  exceptions the sources catch or let escape, the string operations of Python that the
  sources call (\<^verbatim>\<open>startswith\<close>, \<^verbatim>\<open>in\<close>, slicing, truthiness), and the
  generic list lemmas the component theories use.

  A Python \<^verbatim>\<open>str\<close> is modelled as a \<^typ>\<open>string\<close>: a list of code points, each
  below 256 (one \<^typ>\<open>char\<close> per code point, read as Latin-1), so that
  \<^term>\<open>length\<close> is Python's \<^verbatim>\<open>len\<close>. Strings with code points from 256 on are
  outside the model.
\<close>

section \<open>Collections of facts\<close>

named_theorems py_defs "unfolding rules of the modelled Python built-ins"
named_theorems escrow_defs "unfolding rules of the operations of the escrow sources"

section \<open>Exceptions as values\<close>

datatype py_error = ValueError | TypeError | KeyError | IndexError

type_synonym 'a result = "py_error + 'a"

definition is_ok :: "'a result \<Rightarrow> bool" where
  "is_ok r = (case r of Inl _ \<Rightarrow> False | Inr _ \<Rightarrow> True)"

lemma is_ok_simps [simp]: "is_ok (Inr x)" "\<not> is_ok (Inl e)"
  by (simp_all add: is_ok_def)

lemma is_ok_iff: "is_ok r \<longleftrightarrow> (\<exists>x. r = Inr x)"
  by (cases r) simp_all

text \<open>Sequencing of two steps of which the first may raise.\<close>

definition and_then :: "'a result \<Rightarrow> ('a \<Rightarrow> 'b result) \<Rightarrow> 'b result" where
  "and_then r f = (case r of Inl e \<Rightarrow> Inl e | Inr v \<Rightarrow> f v)"

lemma and_then_simps [simp]: "and_then (Inl e) f = Inl e" "and_then (Inr v) f = f v"
  by (simp_all add: and_then_def)

lemma and_then_ok_iff:
  "and_then r f = Inr w \<longleftrightarrow> (\<exists>v. r = Inr v \<and> f v = Inr w)"
  by (cases r) simp_all

lemma and_then_error_iff:
  "and_then r f = Inl e \<longleftrightarrow> r = Inl e \<or> (\<exists>v. r = Inr v \<and> f v = Inl e)"
  by (cases r) simp_all

section \<open>Strings\<close>

text \<open>Truthiness of a string: \<^verbatim>\<open>not s\<close> holds exactly for the empty string.\<close>

abbreviation truthy :: "'a list \<Rightarrow> bool" where
  "truthy s \<equiv> s \<noteq> []"

text \<open>\<^verbatim>\<open>s.startswith(p)\<close>.\<close>

fun startswith :: "'a list \<Rightarrow> 'a list \<Rightarrow> bool" where
  "startswith s [] = True"
| "startswith [] (p # ps) = False"
| "startswith (c # cs) (p # ps) = (c = p \<and> startswith cs ps)"

lemma startswith_prefix: "startswith s p \<longleftrightarrow> prefix p s"
  by (induction s p rule: startswith.induct) auto

lemma startswith_append [simp]: "startswith (p @ s) p"
  by (simp add: startswith_prefix)

lemma startswith_same_append [simp]: "startswith (p @ s) (p @ q) = startswith s q"
  by (simp add: startswith_prefix)

lemma startswith_take: "startswith s p \<longleftrightarrow> take (length p) s = p"
  by (induction s p rule: startswith.induct) auto

lemma startswith_length: "startswith s p \<Longrightarrow> length p \<le> length s"
  by (simp add: startswith_prefix prefix_length_le)

lemma startswith_decompose: "startswith s p \<longleftrightarrow> (\<exists>r. s = p @ r)"
  by (auto simp: startswith_prefix prefix_def)

text \<open>\<^verbatim>\<open>needle in hay\<close> on strings: \<open>needle\<close> occurs as a contiguous block.\<close>

fun py_in :: "'a list \<Rightarrow> 'a list \<Rightarrow> bool" where
  "py_in needle [] = (needle = [])"
| "py_in needle (c # cs) = (startswith (c # cs) needle \<or> py_in needle cs)"

lemma py_in_sublist: "py_in needle hay \<longleftrightarrow> sublist needle hay"
proof (induction hay)
  case Nil
  then show ?case by simp
next
  case (Cons c cs)
  then show ?case
    by (simp add: startswith_prefix sublist_Cons_right)
qed

lemma py_in_Nil [simp]: "py_in [] hay"
  by (simp add: py_in_sublist)

lemma py_in_append: "py_in needle (pre @ needle @ post)"
  by (simp add: py_in_sublist)

lemma py_in_self [simp]: "py_in s s"
  by (simp add: py_in_sublist)

lemma py_in_trans: "py_in a b \<Longrightarrow> py_in b c \<Longrightarrow> py_in a c"
  unfolding py_in_sublist by (rule sublist_order.order_trans)

lemma py_in_appendI: "py_in n pre \<or> py_in n post \<Longrightarrow> py_in n (pre @ post)"
  by (auto simp: py_in_sublist sublist_append)

lemma py_in_length: "py_in needle hay \<Longrightarrow> length needle \<le> length hay"
  by (auto simp: py_in_sublist sublist_def)

text \<open>
  \<^verbatim>\<open>s.lower()\<close> on code points below 256: the upper-case letters of ASCII and of
  Latin-1 (\<open>0xC0\<close> to \<open>0xDE\<close> without the multiplication sign \<open>0xD7\<close>) move up by
  32; every other code point stays.
\<close>

definition lower_char :: "char \<Rightarrow> char" where
  "lower_char c =
     (let n = (of_char c :: nat) in
      if (65 \<le> n \<and> n \<le> 90) \<or> (192 \<le> n \<and> n \<le> 222 \<and> n \<noteq> 215)
      then char_of (n + 32) else c)"

definition py_lower :: "string \<Rightarrow> string" where
  "py_lower s = map lower_char s"

lemmas lower_char_eval = lower_char_def Let_def char_of_def bit_0

lemma lower_char_idem [simp]: "lower_char (lower_char c) = lower_char c"
proof -
  have "of_char (char_of (of_char c + 32 :: nat)) = (of_char c + 32 :: nat)"
    if "(of_char c :: nat) \<le> 222"
    using that by simp
  then show ?thesis
    by (auto simp: lower_char_def Let_def)
qed

lemma py_lower_idem [simp]: "py_lower (py_lower s) = py_lower s"
  by (simp add: py_lower_def)

lemma py_lower_length [simp]: "length (py_lower s) = length s"
  by (simp add: py_lower_def)

lemma py_lower_append [simp]: "py_lower (s @ t) = py_lower s @ py_lower t"
  by (simp add: py_lower_def)

lemma py_lower_Nil [simp]: "py_lower [] = []"
  by (simp add: py_lower_def)

lemma py_lower_Cons [simp]: "py_lower (c # s) = lower_char c # py_lower s"
  by (simp add: py_lower_def)

text \<open>
  Slices with an integer bound, as Python reads them: a negative bound counts from the
  end, and a bound outside the string is clamped. \<open>py_slice_to s n\<close> is
  \<^verbatim>\<open>s[:n]\<close> and \<open>py_slice_from s n\<close> is \<^verbatim>\<open>s[n:]\<close>.
\<close>

definition py_slice_to :: "'a list \<Rightarrow> int \<Rightarrow> 'a list" where
  "py_slice_to s n = (if 0 \<le> n then take (nat n) s else take (nat (int (length s) + n)) s)"

definition py_slice_from :: "'a list \<Rightarrow> int \<Rightarrow> 'a list" where
  "py_slice_from s n = (if 0 \<le> n then drop (nat n) s else drop (nat (int (length s) + n)) s)"

lemma py_slice_to_nat [simp]: "py_slice_to s (int k) = take k s"
  by (simp add: py_slice_to_def)

lemma py_slice_from_nat [simp]: "py_slice_from s (int k) = drop k s"
  by (simp add: py_slice_from_def)

lemma py_slice_to_numeral [simp]: "py_slice_to s (numeral k) = take (numeral k) s"
  by (simp add: py_slice_to_def)

lemma py_slice_from_numeral [simp]: "py_slice_from s (numeral k) = drop (numeral k) s"
  by (simp add: py_slice_from_def)

lemma py_slice_zero [simp]: "py_slice_to s 0 = []" "py_slice_from s 0 = s"
  by (simp_all add: py_slice_to_def py_slice_from_def)

lemma py_slice_from_neg:
  "0 < k \<Longrightarrow> k \<le> length s \<Longrightarrow> py_slice_from s (- int k) = drop (length s - k) s"
  by (simp add: py_slice_from_def nat_diff_distrib')

lemma py_slice_split: "py_slice_to s n @ py_slice_from s n = s"
  by (simp add: py_slice_to_def py_slice_from_def)

text \<open>\<^verbatim>\<open>sep.join(parts)\<close>.\<close>

fun py_join :: "'a list \<Rightarrow> 'a list list \<Rightarrow> 'a list" where
  "py_join sep [] = []"
| "py_join sep [p] = p"
| "py_join sep (p # q # ps) = p @ sep @ py_join sep (q # ps)"

lemma py_join_length:
  "length (py_join sep ps) = sum_list (map length ps) + length sep * (length ps - 1)"
  by (induction sep ps rule: py_join.induct) simp_all

text \<open>\<^verbatim>\<open>str(n)\<close> of an integer: its decimal digits, after a minus sign if negative.\<close>

definition digit_char :: "nat \<Rightarrow> char" where
  "digit_char d = ''0123456789'' ! d"

fun show_nat :: "nat \<Rightarrow> string" where
  "show_nat n = (if n < 10 then [digit_char n] else show_nat (n div 10) @ [digit_char (n mod 10)])"

declare show_nat.simps [simp del]

definition show_int :: "int \<Rightarrow> string" where
  "show_int i = (if i < 0 then CHR ''-'' # show_nat (nat (- i)) else show_nat (nat i))"

lemma show_nat_nonempty [simp]: "show_nat n \<noteq> []"
  by (subst show_nat.simps) simp

lemma show_nat_digit: "n < 10 \<Longrightarrow> show_nat n = [digit_char n]"
  by (subst show_nat.simps) simp

lemma show_nat_step: "10 \<le> n \<Longrightarrow> show_nat n = show_nat (n div 10) @ [digit_char (n mod 10)]"
  by (subst show_nat.simps) simp

lemma show_nat_numeral [simp]:
  "show_nat (numeral k) =
     (if numeral k < (10::nat) then [digit_char (numeral k)]
      else show_nat (numeral k div 10) @ [digit_char (numeral k mod 10)])"
  by (subst show_nat.simps) simp

lemma show_nat_0 [simp]: "show_nat 0 = ''0''"
  by (simp add: show_nat_digit digit_char_def)

lemma show_nat_1 [simp]: "show_nat (Suc 0) = ''1''"
  by (simp add: show_nat_digit digit_char_def)

lemma show_int_nonempty [simp]: "show_int i \<noteq> []"
  by (simp add: show_int_def)

lemma show_int_nat [simp]: "show_int (int n) = show_nat n"
  by (simp add: show_int_def)

lemma show_int_numeral [simp]: "show_int (numeral k) = show_nat (numeral k)"
  by (simp add: show_int_def)

lemma show_int_0 [simp]: "show_int 0 = ''0''"
  by (simp add: show_int_def)

lemma show_int_1 [simp]: "show_int 1 = ''1''"
  by (simp add: show_int_def)

lemma show_int_pos: "0 < i \<Longrightarrow> show_int i = show_nat (nat i)"
  by (simp add: show_int_def)

definition is_digit :: "char \<Rightarrow> bool" where
  "is_digit c = (c \<in> set ''0123456789'')"

lemma digit_char_is_digit: "d < 10 \<Longrightarrow> is_digit (digit_char d)"
  unfolding is_digit_def digit_char_def by (rule nth_mem) simp

lemma show_nat_digits: "list_all is_digit (show_nat n)"
proof (induction n rule: show_nat.induct)
  case (1 n)
  show ?case
  proof (cases "n < 10")
    case True
    then show ?thesis by (simp add: show_nat_digit digit_char_is_digit)
  next
    case False
    with "1.IH" show ?thesis
      by (simp add: show_nat_step digit_char_is_digit)
  qed
qed

lemma show_nat_hd: "is_digit (hd (show_nat n))"
  using show_nat_digits [of n] by (cases "show_nat n") simp_all

lemma digit_char_zero_iff: "d < 10 \<Longrightarrow> digit_char d = CHR ''0'' \<longleftrightarrow> d = 0"
proof -
  assume d: "d < 10"
  have "distinct ''0123456789''" by simp
  with d have "''0123456789'' ! d = ''0123456789'' ! 0 \<longleftrightarrow> d = 0"
    by (subst nth_eq_iff_index_eq) simp_all
  then show ?thesis by (simp add: digit_char_def)
qed

lemma show_nat_no_leading_zero: "0 < n \<Longrightarrow> hd (show_nat n) \<noteq> CHR ''0''"
proof (induction n rule: show_nat.induct)
  case (1 n)
  show ?case
  proof (cases "n < 10")
    case True
    with "1.prems" show ?thesis
      by (simp add: show_nat_digit digit_char_zero_iff)
  next
    case False
    then have "0 < n div 10" by simp
    with False "1.IH" have "hd (show_nat (n div 10)) \<noteq> CHR ''0''" by simp
    with False show ?thesis by (simp add: show_nat_step)
  qed
qed

text \<open>
  Reading the digits back: \<open>read_nat\<close> is the value of a string of decimal digits. It
  undoes \<open>show_nat\<close>, so the digits of different numbers differ.
\<close>

definition digit_value :: "char \<Rightarrow> nat" where
  "digit_value c = of_char c - 48"

definition read_nat :: "string \<Rightarrow> nat" where
  "read_nat s = foldl (\<lambda>a c. 10 * a + digit_value c) 0 s"

lemma digit_value_digit_char: "d < 10 \<Longrightarrow> digit_value (digit_char d) = d"
proof -
  assume "d < 10"
  then have "d \<in> {0, 1, 2, 3, 4, 5, 6, 7, 8, 9}" by auto
  then show ?thesis
    by (auto simp: digit_char_def digit_value_def)
qed

lemma read_nat_snoc [simp]: "read_nat (s @ [c]) = 10 * read_nat s + digit_value c"
  by (simp add: read_nat_def)

lemma read_nat_single [simp]: "read_nat [c] = digit_value c"
  by (simp add: read_nat_def)

lemma read_show_nat [simp]: "read_nat (show_nat n) = n"
proof (induction n rule: show_nat.induct)
  case (1 n)
  show ?case
  proof (cases "n < 10")
    case True
    then show ?thesis by (simp add: show_nat_digit digit_value_digit_char)
  next
    case False
    with "1.IH" show ?thesis
      by (simp add: show_nat_step digit_value_digit_char)
  qed
qed

lemma show_nat_inj [simp]: "show_nat m = show_nat n \<longleftrightarrow> m = n"
proof
  assume "show_nat m = show_nat n"
  then have "read_nat (show_nat m) = read_nat (show_nat n)"
    by (rule arg_cong)
  then show "m = n"
    by (simp only: read_show_nat)
qed simp

lemma show_nat_no_minus: "hd (show_nat n) \<noteq> CHR ''-''"
  using show_nat_hd [of n] by (auto simp: is_digit_def)

lemma show_int_inj [simp]: "show_int i = show_int j \<longleftrightarrow> i = j"
proof
  assume eq: "show_int i = show_int j"
  have neg: "hd (show_int k) = CHR ''-'' \<longleftrightarrow> k < 0" for k
    using show_nat_no_minus [of "nat k"] by (simp add: show_int_def)
  from eq neg [of i] neg [of j] have sign: "i < 0 \<longleftrightarrow> j < 0" by simp
  show "i = j"
  proof (cases "i < 0")
    case True
    with sign have "j < 0" by simp
    with True eq have "nat (- i) = nat (- j)" by (simp add: show_int_def)
    with True \<open>j < 0\<close> show ?thesis by simp
  next
    case False
    with sign have "\<not> j < 0" by simp
    with False eq have "nat i = nat j" by (simp add: show_int_def)
    with False \<open>\<not> j < 0\<close> show ?thesis by simp
  qed
qed simp

lemma py_join_hd: "p \<noteq> [] \<Longrightarrow> hd (py_join sep (p # ps)) = hd p"
  by (cases ps) simp_all

lemma py_join_nonempty: "p \<noteq> [] \<Longrightarrow> py_join sep (p # ps) \<noteq> []"
  by (cases ps) simp_all

section \<open>Texts in UTF-8\<close>

text \<open>
  The strings that the program reads and tests are taken with code points below
  256, one \<open>char\<close> each. The texts that it prints or sends hold characters beyond
  that, so they are given as they are written out, in UTF-8; \<open>utf8 s\<close> is the
  encoding of a string \<open>s\<close> that is put into such a text. A string of ASCII is its
  own encoding.
\<close>

definition utf8_char :: "char \<Rightarrow> string" where
  "utf8_char c =
     (let n = (of_char c :: nat)
      in if n < 128 then [c] else [char_of (192 + n div 64), char_of (128 + n mod 64)])"

definition utf8 :: "string \<Rightarrow> string" where
  "utf8 s = concat (map utf8_char s)"

definition is_ascii :: "string \<Rightarrow> bool" where
  "is_ascii s = list_all (\<lambda>c. (of_char c :: nat) < 128) s"

lemma utf8_Nil [simp]: "utf8 [] = []"
  by (simp add: utf8_def)

lemma utf8_Cons [simp]: "utf8 (c # cs) = utf8_char c @ utf8 cs"
  by (simp add: utf8_def)

lemma utf8_append [simp]: "utf8 (s @ t) = utf8 s @ utf8 t"
  by (simp add: utf8_def)

lemma utf8_char_ascii: "(of_char c :: nat) < 128 \<Longrightarrow> utf8_char c = [c]"
  by (simp add: utf8_char_def)

lemma utf8_char_Char [simp]:
  "utf8_char (Char b0 b1 b2 b3 b4 b5 b6 False) = [Char b0 b1 b2 b3 b4 b5 b6 False]"
proof -
  have "(of_char (Char b0 b1 b2 b3 b4 b5 b6 False) :: nat)
      \<le> 1 + 2 * (1 + 2 * (1 + 2 * (1 + 2 * (1 + 2 * (1 + 2 * 1)))))"
    by (simp add: of_char_Char horner_sum_eq_sum del: of_char_of mult_2)
  then show ?thesis
    by (intro utf8_char_ascii) simp
qed

lemma utf8_ascii: "is_ascii s \<Longrightarrow> utf8 s = s"
  by (induction s) (simp_all add: is_ascii_def utf8_char_ascii)

lemma is_ascii_append [simp]: "is_ascii (s @ t) \<longleftrightarrow> is_ascii s \<and> is_ascii t"
  by (simp add: is_ascii_def)

lemma is_digit_ascii: "is_digit c \<Longrightarrow> (of_char c :: nat) < 128"
  by (auto simp: is_digit_def)

lemma is_ascii_show_nat [simp]: "is_ascii (show_nat n)"
  using show_nat_digits [of n] by (simp add: is_ascii_def list_all_iff is_digit_ascii)

lemma is_ascii_show_int [simp]: "is_ascii (show_int i)"
  using is_ascii_show_nat [of "nat (- i)"] is_ascii_show_nat [of "nat i"]
  by (simp add: show_int_def is_ascii_def)

lemma utf8_show_int [simp]: "utf8 (show_int i) = show_int i"
  by (simp add: utf8_ascii)

lemma utf8_two_bytes: "utf8 [CHR 0xE9] = [CHR 0xC3, CHR 0xA9]"
  by (simp add: utf8_char_def char_of_def bit_0)

section \<open>Lists\<close>

text \<open>
  A list built by appending one entry per violated rule, in the order of the rules, is
  the filter of the rule table; \<open>collect\<close> is that table read off.
\<close>

definition collect :: "(bool \<times> 'a) list \<Rightarrow> 'a list" where
  "collect rules = map snd (filter fst rules)"

lemma collect_Nil [simp]: "collect [] = []"
  by (simp add: collect_def)

lemma collect_Cons:
  "collect ((b, x) # rules) = (if b then x # collect rules else collect rules)"
  by (simp add: collect_def)

lemma collect_True [simp]: "collect ((True, x) # rules) = x # collect rules"
  by (simp add: collect_def)

lemma collect_False [simp]: "collect ((False, x) # rules) = collect rules"
  by (simp add: collect_def)

lemma collect_append: "collect (r1 @ r2) = collect r1 @ collect r2"
  by (simp add: collect_def)

lemma collect_Cons_append: "collect (r # rules) = collect [r] @ collect rules"
  by (simp add: collect_def)

text \<open>One step of the source's idiom \<^verbatim>\<open>if violated: errors.append(message)\<close>.\<close>

lemma append_if_collect: "(if b then xs @ [x] else xs) = xs @ collect [(b, x)]"
  by (simp add: collect_def)

lemma collect_subseq: "subseq (collect rules) (map snd rules)"
  by (induction rules) (auto simp: collect_def)

lemma collect_length: "length (collect rules) \<le> length rules"
  by (simp add: collect_def)

lemma collect_empty_iff: "collect rules = [] \<longleftrightarrow> list_all (\<lambda>r. \<not> fst r) rules"
  by (induction rules) (auto simp: collect_def)

lemma collect_member_iff: "x \<in> set (collect rules) \<longleftrightarrow> (True, x) \<in> set rules"
  by (induction rules) (auto simp: collect_def)

lemma collect_distinct: "distinct (map snd rules) \<Longrightarrow> distinct (collect rules)"
  by (simp add: collect_def distinct_map_filter)

end
