(* ===== verification/Py_Float.thy ===== *)
theory Py_Float
  imports Escrow_Prelude
begin

text \<open>
  Python's \<^verbatim>\<open>float\<close> (an IEEE 754 binary64 value) as data. A finite value is kept
  exactly, as an odd mantissa and a binary exponent: \<open>Fin m e\<close> stands for
  \<open>m * 2 ^ e\<close>, and zero is \<open>Fin 0 0\<close>; the negative zero, the two infinities and
  the not-a-number value are constructors of their own. The float literals of the
  sources are named here by the binary64 value that Python reads them as.
\<close>

datatype pyfloat = Fin int int | NegZero | PInf | NInf | NaN

text \<open>
  The canonical form of a finite value: the mantissa is odd (or the value is zero with
  exponent 0), it has at most 53 bits, and the value lies in the binary64 range: not
  below the least subnormal \<open>2 ^ - 1074\<close> in exponent, and below \<open>2 ^ 1024\<close> in size.
\<close>

fun bit_len :: "nat \<Rightarrow> nat" where
  "bit_len n = (if n = 0 then 0 else Suc (bit_len (n div 2)))"

declare bit_len.simps [simp del]

lemma bit_len_0 [simp]: "bit_len 0 = 0"
  by (simp add: bit_len.simps)

lemma bit_len_pos: "0 < n \<Longrightarrow> bit_len n = Suc (bit_len (n div 2))"
  by (subst bit_len.simps) simp

lemma bit_len_numeral [simp]:
  "bit_len (numeral k) = Suc (bit_len (numeral k div 2))"
  by (rule bit_len_pos) simp

lemma bit_len_1 [simp]: "bit_len (Suc 0) = Suc 0"
  by (simp add: bit_len_pos)

definition float_canonical :: "pyfloat \<Rightarrow> bool" where
  "float_canonical x =
     (case x of
        Fin m e \<Rightarrow>
          (if m = 0 then e = 0
           else odd m \<and> bit_len (nat \<bar>m\<bar>) \<le> 53 \<and> - 1074 \<le> e
                \<and> int (bit_len (nat \<bar>m\<bar>)) + e \<le> 1024)
      | _ \<Rightarrow> True)"

text \<open>
  The literals \<^verbatim>\<open>0.0\<close>, \<^verbatim>\<open>0.1\<close>, \<^verbatim>\<open>0.5\<close>, \<^verbatim>\<open>0.6\<close>, \<^verbatim>\<open>0.7\<close>, \<^verbatim>\<open>0.8\<close> and
  \<^verbatim>\<open>1.0\<close>.
\<close>

definition float_0_0 :: pyfloat where
  "float_0_0 = Fin 0 0"

definition float_0_1 :: pyfloat where
  "float_0_1 = Fin 3602879701896397 (- 55)"

definition float_0_5 :: pyfloat where
  "float_0_5 = Fin 1 (- 1)"

definition float_0_6 :: pyfloat where
  "float_0_6 = Fin 5404319552844595 (- 53)"

definition float_0_7 :: pyfloat where
  "float_0_7 = Fin 3152519739159347 (- 52)"

definition float_0_8 :: pyfloat where
  "float_0_8 = Fin 3602879701896397 (- 52)"

definition float_1_0 :: pyfloat where
  "float_1_0 = Fin 1 0"

lemmas float_literal_defs [py_defs] =
  float_0_0_def float_0_1_def float_0_5_def float_0_6_def float_0_7_def float_0_8_def
  float_1_0_def

lemma float_literals_canonical:
  "float_canonical float_0_0" "float_canonical float_0_1" "float_canonical float_0_5"
  "float_canonical float_0_6" "float_canonical float_0_7" "float_canonical float_0_8"
  "float_canonical float_1_0"
  by (simp_all add: float_canonical_def float_literal_defs)

lemma float_literals_distinct:
  "distinct [float_0_0, float_0_1, float_0_5, float_0_6, float_0_7, float_0_8, float_1_0]"
  by (simp add: float_literal_defs)

end
