(* ===== verification/Py_Values.thy ===== *)
theory Py_Values
  imports Py_Float "HOL-Library.AList"
begin

text \<open>
  The dynamically typed values that the sources pass around as \<^verbatim>\<open>Dict[str, Any]\<close>:
  \<^verbatim>\<open>None\<close>, booleans, integers, floats, strings, lists and dictionaries with string
  keys. A dictionary is an association list in insertion order, as Python keeps it;
  the operations below are the dictionary operations the sources use
  (\<^verbatim>\<open>d.get(k)\<close>, \<^verbatim>\<open>d.get(k, default)\<close>, \<^verbatim>\<open>k in d\<close>, \<^verbatim>\<open>d[k] = v\<close>) and
  \<^verbatim>\<open>len\<close>.
\<close>

datatype json =
    JNone
  | JBool bool
  | JInt int
  | JFloat pyfloat
  | JStr string
  | JList "json list"
  | JDict "(string \<times> json) list"

type_synonym pydict = "(string \<times> json) list"

section \<open>Dictionary operations\<close>

definition wf_dict :: "pydict \<Rightarrow> bool" where
  "wf_dict d = distinct (map fst d)"

definition dict_has :: "pydict \<Rightarrow> string \<Rightarrow> bool" where
  "dict_has d k = (map_of d k \<noteq> None)"

definition dict_get_or :: "pydict \<Rightarrow> string \<Rightarrow> json \<Rightarrow> json" where
  "dict_get_or d k dflt = (case map_of d k of None \<Rightarrow> dflt | Some v \<Rightarrow> v)"

definition dict_get :: "pydict \<Rightarrow> string \<Rightarrow> json" where
  "dict_get d k = dict_get_or d k JNone"

definition dict_set :: "pydict \<Rightarrow> string \<Rightarrow> json \<Rightarrow> pydict" where
  "dict_set d k v = AList.update k v d"

lemmas dict_defs [py_defs] = dict_has_def dict_get_or_def dict_get_def dict_set_def

lemma dict_has_keys: "dict_has d k \<longleftrightarrow> k \<in> fst ` set d"
  by (simp add: dict_has_def map_of_eq_None_iff)

lemma dict_has_Nil [simp]: "\<not> dict_has [] k"
  by (simp add: dict_has_def)

lemma dict_has_Cons [simp]: "dict_has ((k', v) # d) k \<longleftrightarrow> k = k' \<or> dict_has d k"
  by (auto simp: dict_has_def)

lemma dict_get_or_Nil [simp]: "dict_get_or [] k dflt = dflt"
  by (simp add: dict_get_or_def)

lemma dict_get_or_Cons [simp]:
  "dict_get_or ((k', v) # d) k dflt = (if k = k' then v else dict_get_or d k dflt)"
  by (simp add: dict_get_or_def)

lemma dict_get_Nil [simp]: "dict_get [] k = JNone"
  by (simp add: dict_get_def)

lemma dict_get_Cons [simp]:
  "dict_get ((k', v) # d) k = (if k = k' then v else dict_get d k)"
  by (simp add: dict_get_def)

lemma dict_get_or_absent: "\<not> dict_has d k \<Longrightarrow> dict_get_or d k dflt = dflt"
  by (simp add: dict_has_def dict_get_or_def)

lemma dict_get_or_present: "dict_has d k \<Longrightarrow> dict_get_or d k dflt = dict_get d k"
  by (auto simp: dict_has_def dict_get_or_def dict_get_def)

lemma dict_get_set [simp]:
  "dict_get_or (dict_set d k v) k' dflt = (if k' = k then v else dict_get_or d k' dflt)"
  by (simp add: dict_get_or_def dict_set_def update_conv')

lemma dict_get_dict_set [simp]:
  "dict_get (dict_set d k v) k' = (if k' = k then v else dict_get d k')"
  by (simp add: dict_get_def)

lemma dict_has_set [simp]: "dict_has (dict_set d k v) k' \<longleftrightarrow> k' = k \<or> dict_has d k'"
  by (simp add: dict_has_def dict_set_def update_conv')

lemma wf_dict_set: "wf_dict d \<Longrightarrow> wf_dict (dict_set d k v)"
  by (simp add: wf_dict_def dict_set_def distinct_update)

lemma dict_set_keys_present:
  "dict_has d k \<Longrightarrow> map fst (dict_set d k v) = map fst d"
  by (simp add: dict_set_def dict_has_keys update_keys)

lemma dict_set_keys_absent:
  "\<not> dict_has d k \<Longrightarrow> map fst (dict_set d k v) = map fst d @ [k]"
  by (simp add: dict_set_def dict_has_keys update_keys)

lemma dict_set_fresh: "\<not> dict_has d k \<Longrightarrow> dict_set d k v = d @ [(k, v)]"
  by (induction d) (auto simp: dict_set_def)

text \<open>
  A loop that stores one entry per item of a list with distinct keys, none of them in
  the dictionary yet, appends the entries in the order of the list.
\<close>

lemma fold_dict_set_fresh:
  fixes kvs :: "(string \<times> 'v) list"
  assumes "distinct (map fst kvs)" and "\<forall>k \<in> fst ` set kvs. \<not> dict_has acc k"
  shows "fold (\<lambda>(k, v) d. dict_set d k (f v)) kvs acc = acc @ map (\<lambda>(k, v). (k, f v)) kvs"
  using assms
proof (induction kvs arbitrary: acc)
  case Nil
  then show ?case by simp
next
  case (Cons kv kvs)
  obtain k v where kv: "kv = (k, v)" by (cases kv)
  with Cons.prems have set: "dict_set acc k (f v) = acc @ [(k, f v)]"
    by (simp add: dict_set_fresh)
  from Cons.prems kv have "distinct (map fst kvs)"
    and "\<forall>k' \<in> fst ` set kvs. \<not> dict_has (acc @ [(k, f v)]) k'"
    by (auto simp: dict_has_keys)
  from Cons.IH [OF this] kv set show ?case by simp
qed

section \<open>Subscripts\<close>

text \<open>
  \<^verbatim>\<open>v[k]\<close> for a string \<open>k\<close>, and \<^verbatim>\<open>v[0]\<close>, on any value, with the exception
  that Python raises where the subscript does not apply: \<^verbatim>\<open>KeyError\<close> from a
  dictionary without the key (no dictionary of the model has the key \<^verbatim>\<open>0\<close>),
  \<^verbatim>\<open>IndexError\<close> from an empty list or string, \<^verbatim>\<open>TypeError\<close> from a list or
  string subscripted with a string and from every value that has no subscripts.
\<close>

fun py_getitem :: "json \<Rightarrow> string \<Rightarrow> json result" where
  "py_getitem (JDict d) k = (if dict_has d k then Inr (dict_get d k) else Inl KeyError)"
| "py_getitem v k = Inl TypeError"

fun py_getitem0 :: "json \<Rightarrow> json result" where
  "py_getitem0 (JList xs) = (case xs of [] \<Rightarrow> Inl IndexError | x # _ \<Rightarrow> Inr x)"
| "py_getitem0 (JStr s) = (case s of [] \<Rightarrow> Inl IndexError | c # _ \<Rightarrow> Inr (JStr [c]))"
| "py_getitem0 (JDict d) = Inl KeyError"
| "py_getitem0 v = Inl TypeError"

lemma py_getitem_ok_iff:
  "py_getitem v k = Inr w \<longleftrightarrow> (\<exists>d. v = JDict d \<and> dict_has d k \<and> w = dict_get d k)"
  by (cases v) auto

lemma py_getitem0_list_iff:
  "py_getitem0 (JList xs) = Inr w \<longleftrightarrow> (\<exists>ys. xs = w # ys)"
  by (cases xs) auto

section \<open>Values in texts\<close>

text \<open>
  \<^verbatim>\<open>str(v)\<close>, which is also what a replacement field of an f-string writes for
  \<open>v\<close>: a string is itself, \<^verbatim>\<open>None\<close> and the booleans are their names, an integer
  is its decimal digits. The texts of floats, lists and dictionaries are those of
  \<^verbatim>\<open>repr\<close>, which is not modelled; they are left to the argument \<open>other\<close>.
\<close>

fun py_str :: "(json \<Rightarrow> string) \<Rightarrow> json \<Rightarrow> string" where
  "py_str other JNone = ''None''"
| "py_str other (JBool b) = (if b then ''True'' else ''False'')"
| "py_str other (JInt i) = show_int i"
| "py_str other (JStr s) = s"
| "py_str other v = other v"

section \<open>Length and truthiness\<close>

text \<open>
  \<^verbatim>\<open>len(v)\<close>: defined on strings, lists and dictionaries and a \<^verbatim>\<open>TypeError\<close> on
  every other value. (The length of a dictionary is its number of entries: the
  association lists of the model hold each key once.)
\<close>

fun py_len :: "json \<Rightarrow> nat result" where
  "py_len (JStr s) = Inr (length s)"
| "py_len (JList xs) = Inr (length xs)"
| "py_len (JDict d) = Inr (length d)"
| "py_len v = Inl TypeError"

text \<open>Truthiness of a value, as \<^verbatim>\<open>if v:\<close> reads it.\<close>

fun py_truthy :: "json \<Rightarrow> bool" where
  "py_truthy JNone = False"
| "py_truthy (JBool b) = b"
| "py_truthy (JInt i) = (i \<noteq> 0)"
| "py_truthy (JFloat x) = (x \<noteq> Fin 0 0 \<and> x \<noteq> NegZero)"
| "py_truthy (JStr s) = (s \<noteq> [])"
| "py_truthy (JList xs) = (xs \<noteq> [])"
| "py_truthy (JDict d) = (d \<noteq> [])"

lemma py_len_ok_iff:
  "is_ok (py_len v) \<longleftrightarrow> (\<exists>s. v = JStr s) \<or> (\<exists>xs. v = JList xs) \<or> (\<exists>d. v = JDict d)"
  by (cases v) simp_all

end
