(* ===== verification/Models.thy ===== *)
theory Models
  imports Py_Values
begin

text \<open>
  The data model of \<^verbatim>\<open>shared/models.py\<close>: each \<^verbatim>\<open>Enum\<close> is a datatype with the
  source's members and a function for the member's \<^verbatim>\<open>value\<close>; each dataclass is a
  record with the source's fields in the source's order, a definition of the field
  defaults that the generated constructor applies, and its \<^verbatim>\<open>__post_init__\<close>.
  A field annotated \<^verbatim>\<open>Optional[T]\<close>, or defaulting to \<^verbatim>\<open>None\<close>, has type
  \<open>T option\<close>. Field names that several dataclasses share are written with the
  record's name first (\<open>EscrowData.status\<close>, \<open>DisputeRecord.status\<close>).
\<close>

section \<open>Enumerations\<close>

datatype EscrowState =
  AWAITING_DEPOSIT | AWAITING_FULFILLMENT | DISPUTE_RAISED | COMPLETED | CANCELED

fun EscrowState_value :: "EscrowState \<Rightarrow> int" where
  "EscrowState_value AWAITING_DEPOSIT = 0"
| "EscrowState_value AWAITING_FULFILLMENT = 1"
| "EscrowState_value DISPUTE_RAISED = 2"
| "EscrowState_value COMPLETED = 3"
| "EscrowState_value CANCELED = 4"

datatype TradeType = CRYPTO | FIAT_P2P | CROSS_CHAIN

fun TradeType_value :: "TradeType \<Rightarrow> string" where
  "TradeType_value CRYPTO = ''crypto''"
| "TradeType_value FIAT_P2P = ''fiat_p2p''"
| "TradeType_value CROSS_CHAIN = ''cross_chain''"

datatype AssetType = ETH | ERC20 | ERC721 | ERC1155 | BTC | FIAT

fun AssetType_value :: "AssetType \<Rightarrow> string" where
  "AssetType_value ETH = ''ETH''"
| "AssetType_value ERC20 = ''ERC20''"
| "AssetType_value ERC721 = ''ERC721''"
| "AssetType_value ERC1155 = ''ERC1155''"
| "AssetType_value BTC = ''BTC''"
| "AssetType_value FIAT = ''FIAT''"

datatype ChainType = ETHEREUM | BASE | CELO | OPTIMISM | BSC | BITCOIN

fun ChainType_value :: "ChainType \<Rightarrow> string" where
  "ChainType_value ETHEREUM = ''ethereum''"
| "ChainType_value BASE = ''base''"
| "ChainType_value CELO = ''celo''"
| "ChainType_value OPTIMISM = ''optimism''"
| "ChainType_value BSC = ''bsc''"
| "ChainType_value BITCOIN = ''bitcoin''"

datatype UserRole = BUYER | SELLER | ARBITER | ORACLE | VIEWER

fun UserRole_value :: "UserRole \<Rightarrow> string" where
  "UserRole_value BUYER = ''Buyer''"
| "UserRole_value SELLER = ''Seller''"
| "UserRole_value ARBITER = ''Arbiter''"
| "UserRole_value ORACLE = ''Oracle''"
| "UserRole_value VIEWER = ''Viewer''"

section \<open>Dataclasses\<close>

record Asset =
  type :: AssetType
  address :: "string option"
  amount :: string
  chain :: ChainType
  symbol :: "string option"
  decimals :: int
  name :: "string option"

definition Asset_new :: "AssetType \<Rightarrow> Asset" where
  "Asset_new t =
     \<lparr>type = t, address = None, amount = ''0'', chain = ETHEREUM, symbol = None,
      decimals = 18, name = None\<rparr>"

record EscrowTerms =
  description :: string
  deadline :: int
  auto_release_hours :: "int option"
  dispute_window_hours :: int
  arbiter_fee_percentage :: pyfloat
  platform_fee_percentage :: pyfloat

definition EscrowTerms_new :: "string \<Rightarrow> int \<Rightarrow> EscrowTerms" where
  "EscrowTerms_new desc dl =
     \<lparr>description = desc, deadline = dl, auto_release_hours = None,
      dispute_window_hours = 24, arbiter_fee_percentage = float_1_0,
      platform_fee_percentage = float_0_5\<rparr>"

record EscrowData =
  escrow_id :: string
  contract_address :: "string option"
  status :: EscrowState
  trade_type :: TradeType
  buyer_address :: string
  seller_address :: string
  arbiter_address :: string
  creator_agent :: string
  asset_a :: "Asset option"
  asset_b :: "Asset option"
  terms :: "EscrowTerms option"
  created_at :: int
  updated_at :: int
  deposit_tx_hash :: "string option"
  fulfillment_tx_hash :: "string option"
  release_tx_hash :: "string option"
  refund_tx_hash :: "string option"
  dispute_id :: "string option"
  dispute_reason :: "string option"
  dispute_evidence :: "pydict list option"
  frontend_callback_url :: "string option"
  frontend_session_id :: "string option"
  metadata :: "pydict option"

definition EscrowData_defaults :: "string \<Rightarrow> EscrowData" where
  "EscrowData_defaults eid =
     \<lparr>escrow_id = eid, contract_address = None, status = AWAITING_DEPOSIT,
      trade_type = CRYPTO, buyer_address = [], seller_address = [],
      arbiter_address = [], creator_agent = [], asset_a = None, asset_b = None,
      terms = None, created_at = 0, updated_at = 0, deposit_tx_hash = None,
      fulfillment_tx_hash = None, release_tx_hash = None, refund_tx_hash = None,
      dispute_id = None, dispute_reason = None, dispute_evidence = None,
      frontend_callback_url = None, frontend_session_id = None, metadata = None\<rparr>"

definition EscrowData_post_init :: "EscrowData \<Rightarrow> EscrowData" where
  "EscrowData_post_init e =
     (let e1 = (if dispute_evidence e = None then e\<lparr>dispute_evidence := Some []\<rparr> else e)
      in if EscrowData.metadata e1 = None then e1\<lparr>EscrowData.metadata := Some []\<rparr> else e1)"

definition EscrowData_new :: "string \<Rightarrow> EscrowData" where
  "EscrowData_new eid = EscrowData_post_init (EscrowData_defaults eid)"

record DisputeEvidence =
  type :: string
  description :: string
  data :: string
  timestamp :: int
  submitted_by :: string

record DisputeRecord =
  dispute_id :: string
  escrow_id :: string
  disputing_party :: string
  reason :: string
  evidence :: "DisputeEvidence list"
  status :: string
  arbiter_address :: string
  created_at :: int
  resolved_at :: "int option"
  decision :: "string option"
  arbiter_reasoning :: "string option"

definition DisputeRecord_new ::
  "string \<Rightarrow> string \<Rightarrow> string \<Rightarrow> string \<Rightarrow> DisputeEvidence list \<Rightarrow> DisputeRecord" where
  "DisputeRecord_new did eid party why ev =
     \<lparr>dispute_id = did, escrow_id = eid, disputing_party = party, reason = why,
      evidence = ev, status = ''open'', arbiter_address = [], created_at = 0,
      resolved_at = None, decision = None, arbiter_reasoning = None\<rparr>"

record AgentMessage =
  timestamp :: string
  msg_id :: string
  content :: "pydict list"
  sender :: "string option"
  recipient :: "string option"

lemmas models_defs [escrow_defs] =
  Asset_new_def EscrowTerms_new_def EscrowData_defaults_def EscrowData_post_init_def
  EscrowData_new_def DisputeRecord_new_def

section \<open>Properties of the data model\<close>

lemma EscrowState_value_inj: "EscrowState_value s = EscrowState_value t \<longleftrightarrow> s = t"
  by (cases s; cases t) simp_all

lemma EscrowState_value_range: "0 \<le> EscrowState_value s \<and> EscrowState_value s \<le> 4"
  by (cases s) simp_all

lemma TradeType_value_inj: "TradeType_value s = TradeType_value t \<longleftrightarrow> s = t"
  by (cases s; cases t) simp_all

lemma AssetType_value_inj: "AssetType_value s = AssetType_value t \<longleftrightarrow> s = t"
  by (cases s; cases t) simp_all

lemma ChainType_value_inj: "ChainType_value s = ChainType_value t \<longleftrightarrow> s = t"
  by (cases s; cases t) simp_all

lemma UserRole_value_inj: "UserRole_value s = UserRole_value t \<longleftrightarrow> s = t"
  by (cases s; cases t) simp_all

lemma post_init_evidence [simp]:
  "dispute_evidence (EscrowData_post_init e) =
     (case dispute_evidence e of None \<Rightarrow> Some [] | Some ev \<Rightarrow> Some ev)"
  by (simp add: EscrowData_post_init_def Let_def split: option.split)

lemma post_init_metadata [simp]:
  "EscrowData.metadata (EscrowData_post_init e) =
     (case EscrowData.metadata e of None \<Rightarrow> Some [] | Some m \<Rightarrow> Some m)"
  by (simp add: EscrowData_post_init_def Let_def split: option.split)

lemma post_init_frame [simp]:
  "EscrowData.escrow_id (EscrowData_post_init e) = EscrowData.escrow_id e"
  "EscrowData.status (EscrowData_post_init e) = EscrowData.status e"
  "buyer_address (EscrowData_post_init e) = buyer_address e"
  "seller_address (EscrowData_post_init e) = seller_address e"
  "EscrowData.arbiter_address (EscrowData_post_init e) = EscrowData.arbiter_address e"
  "asset_a (EscrowData_post_init e) = asset_a e"
  "asset_b (EscrowData_post_init e) = asset_b e"
  "terms (EscrowData_post_init e) = terms e"
  by (simp_all add: EscrowData_post_init_def Let_def)

lemma post_init_idem: "EscrowData_post_init (EscrowData_post_init e) = EscrowData_post_init e"
  by (simp add: EscrowData_post_init_def Let_def)

text \<open>
  A new escrow, built from its identifier alone, awaits its deposit, keeps the
  identifier, has no parties, assets or terms yet, and holds an empty evidence list and
  an empty metadata dictionary in place of the \<^verbatim>\<open>None\<close> defaults.
\<close>

theorem EscrowData_new_initial:
  "EscrowData.status (EscrowData_new eid) = AWAITING_DEPOSIT \<and>
   EscrowData.escrow_id (EscrowData_new eid) = eid \<and>
   buyer_address (EscrowData_new eid) = [] \<and> asset_a (EscrowData_new eid) = None \<and>
   terms (EscrowData_new eid) = None \<and>
   dispute_evidence (EscrowData_new eid) = Some [] \<and>
   EscrowData.metadata (EscrowData_new eid) = Some []"
  by (simp add: EscrowData_new_def) (simp add: EscrowData_defaults_def)

text \<open>
  C37. \<^verbatim>\<open>__post_init__\<close> establishes that the evidence and the metadata of an
  escrow are present, changes nothing in an escrow where they are, and keeps
  collections that were given.
\<close>

theorem post_init_establishes:
  "dispute_evidence (EscrowData_post_init e) \<noteq> None \<and>
   EscrowData.metadata (EscrowData_post_init e) \<noteq> None \<and>
   EscrowData_post_init (EscrowData_post_init e) = EscrowData_post_init e \<and>
   EscrowData_post_init (e\<lparr>dispute_evidence := Some ev, EscrowData.metadata := Some md\<rparr>)
     = e\<lparr>dispute_evidence := Some ev, EscrowData.metadata := Some md\<rparr>"
  by (simp add: post_init_idem split: option.split) (simp add: EscrowData_post_init_def)

end
