(* ===== verification/Py_Int.thy ===== *)
theory Py_Int
  imports Escrow_Prelude
begin

text \<open>
  The built-in \<^verbatim>\<open>int(s, 16)\<close>, which the validators of \<^verbatim>\<open>shared/utils.py\<close> call to
  decide whether a string is hexadecimal. \<open>py_int16\<close> follows the scanner of the
  interpreter step by step (strip white space, an optional sign, an optional
  \<^verbatim>\<open>0x\<close> prefix that may be followed by one underscore, digits with single
  underscores between them, white space to the end); \<open>int16_literal\<close> is the grammar
  of the accepted strings, and the two are proved to agree.
\<close>

section \<open>Character classes\<close>

text \<open>
  White space as \<^verbatim>\<open>int\<close> strips it, on code points below 256: tab to carriage
  return, the space, \<open>0x85\<close> and the no-break space \<open>0xA0\<close>.
\<close>

definition py_isspace :: "char \<Rightarrow> bool" where
  "py_isspace c =
     (let n = (of_char c :: nat) in (9 \<le> n \<and> n \<le> 13) \<or> n = 32 \<or> n = 133 \<or> n = 160)"

definition hex_value :: "char \<Rightarrow> nat option" where
  "hex_value c =
     (let n = (of_char c :: nat) in
      if 48 \<le> n \<and> n \<le> 57 then Some (n - 48)
      else if 97 \<le> n \<and> n \<le> 102 then Some (n - 87)
      else if 65 \<le> n \<and> n \<le> 70 then Some (n - 55)
      else None)"

definition is_hex :: "char \<Rightarrow> bool" where
  "is_hex c = (hex_value c \<noteq> None)"

lemmas char_class_defs [py_defs] = py_isspace_def hex_value_def is_hex_def Let_def

lemma is_hex_iff:
  "is_hex c \<longleftrightarrow>
     (let n = (of_char c :: nat) in
      (48 \<le> n \<and> n \<le> 57) \<or> (97 \<le> n \<and> n \<le> 102) \<or> (65 \<le> n \<and> n \<le> 70))"
  by (simp add: char_class_defs)

lemma hex_value_less: "hex_value c = Some d \<Longrightarrow> d < 16"
  by (auto simp: char_class_defs split: if_splits)

lemma is_hex_not_space: "is_hex c \<Longrightarrow> \<not> py_isspace c"
  by (auto simp: char_class_defs split: if_splits)

lemma is_hex_not_special:
  assumes "is_hex c"
  shows "c \<noteq> CHR ''_''" "c \<noteq> CHR ''+''" "c \<noteq> CHR ''-''" "c \<noteq> CHR ''x''" "c \<noteq> CHR ''X''"
  using assms by (auto simp: char_class_defs split: if_splits)

lemma space_not_special:
  assumes "py_isspace c"
  shows "c \<noteq> CHR ''_''" "c \<noteq> CHR ''+''" "c \<noteq> CHR ''-''" "c \<noteq> CHR ''x''" "c \<noteq> CHR ''X''"
    "c \<noteq> CHR ''0''"
  using assms by (auto simp: char_class_defs)

lemma special_not_space [simp]:
  "\<not> py_isspace CHR ''_''" "\<not> py_isspace CHR ''+''" "\<not> py_isspace CHR ''-''"
  "\<not> py_isspace CHR ''0''"
  by (simp_all add: char_class_defs)

lemma special_not_hex [simp]:
  "\<not> is_hex CHR ''_''" "\<not> is_hex CHR ''+''" "\<not> is_hex CHR ''-''"
  "\<not> is_hex CHR ''x''" "\<not> is_hex CHR ''X''" "is_hex CHR ''0''"
  by (simp_all add: char_class_defs)

section \<open>The scanner\<close>

text \<open>
  The digit loop: \<open>prev\<close> says that the character before was an underscore. It fails
  on two underscores in a row and on an underscore at the end of the digits, and
  returns the digits read and the rest of the input.
\<close>

fun scan_digits :: "bool \<Rightarrow> string \<Rightarrow> (nat list \<times> string) option" where
  "scan_digits prev [] = (if prev then None else Some ([], []))"
| "scan_digits prev (c # cs) =
     (if c = CHR ''_'' then (if prev then None else scan_digits True cs)
      else (case hex_value c of
              Some d \<Rightarrow> map_option (\<lambda>(ds, r). (d # ds, r)) (scan_digits False cs)
            | None \<Rightarrow> if prev then None else Some ([], c # cs)))"

definition digits_value :: "nat list \<Rightarrow> nat" where
  "digits_value ds = foldl (\<lambda>a d. 16 * a + d) 0 ds"

text \<open>The optional sign: whether it is a minus, and the input after it.\<close>

fun skip_sign :: "string \<Rightarrow> bool \<times> string" where
  "skip_sign [] = (False, [])"
| "skip_sign (c # cs) =
     (if c = CHR ''+'' then (False, cs)
      else if c = CHR ''-'' then (True, cs)
      else (False, c # cs))"

text \<open>The optional prefix \<^verbatim>\<open>0x\<close> or \<^verbatim>\<open>0X\<close>, and one underscore after it.\<close>

fun skip_prefix16 :: "string \<Rightarrow> string" where
  "skip_prefix16 (c0 # c1 # rest) =
     (if c0 = CHR ''0'' \<and> (c1 = CHR ''x'' \<or> c1 = CHR ''X'')
      then (if startswith rest ''_'' then tl rest else rest)
      else c0 # c1 # rest)"
| "skip_prefix16 s = s"

text \<open>
  The digits and what follows them: no leading underscore, at least one digit, and
  nothing but white space after the digits.
\<close>

definition parse_unsigned16 :: "string \<Rightarrow> nat option" where
  "parse_unsigned16 s =
     (if startswith s ''_'' then None
      else (case scan_digits False s of
              None \<Rightarrow> None
            | Some (ds, rest) \<Rightarrow>
                if ds = [] then None
                else if dropWhile py_isspace rest \<noteq> [] then None
                else Some (digits_value ds)))"

definition py_int16 :: "string \<Rightarrow> int result" where
  "py_int16 s =
     (let (neg, s2) = skip_sign (dropWhile py_isspace s)
      in case parse_unsigned16 (skip_prefix16 s2) of
           None \<Rightarrow> Inl ValueError
         | Some v \<Rightarrow> Inr (if neg then - int v else int v))"

section \<open>The grammar of the accepted strings\<close>

inductive hex_body :: "string \<Rightarrow> bool" where
  hex_one: "is_hex d \<Longrightarrow> hex_body [d]"
| hex_more: "is_hex d \<Longrightarrow> hex_body b \<Longrightarrow> hex_body (d # b)"
| hex_sep: "is_hex d \<Longrightarrow> hex_body b \<Longrightarrow> hex_body (d # CHR ''_'' # b)"

inductive_cases hex_body_NilE [elim!]: "hex_body []"
inductive_cases hex_body_ConsE: "hex_body (c # cs)"

definition int16_literal :: "string \<Rightarrow> bool" where
  "int16_literal s \<longleftrightarrow>
     (\<exists>ws1 sg pre body ws2.
        s = ws1 @ sg @ pre @ body @ ws2 \<and> list_all py_isspace ws1 \<and> list_all py_isspace ws2 \<and>
        sg \<in> {[], ''+'', ''-''} \<and> pre \<in> {[], ''0x'', ''0X'', ''0x_'', ''0X_''} \<and>
        hex_body body)"

lemma hex_body_nonempty: "hex_body b \<Longrightarrow> b \<noteq> []"
  by (induction rule: hex_body.induct) simp_all

lemma hex_body_hd: "hex_body b \<Longrightarrow> is_hex (hd b)"
  by (induction rule: hex_body.induct) simp_all

lemma hex_body_all_hex: "list_all is_hex b \<Longrightarrow> b \<noteq> [] \<Longrightarrow> hex_body b"
proof (induction b)
  case Nil
  then show ?case by simp
next
  case (Cons c cs)
  show ?case
  proof (cases cs)
    case Nil
    with Cons.prems show ?thesis by (simp add: hex_one)
  next
    case (Cons c' cs')
    with Cons.prems Cons.IH show ?thesis by (simp add: hex_more)
  qed
qed

section \<open>The scanner accepts exactly the grammar\<close>

text \<open>The digit loop stops at the end of the input and at a character that is neither a
  digit nor an underscore.\<close>

definition stops :: "string \<Rightarrow> bool" where
  "stops rest = (case rest of [] \<Rightarrow> True | c # _ \<Rightarrow> \<not> is_hex c \<and> c \<noteq> CHR ''_'')"

lemma stops_simps [simp]:
  "stops []" "stops (c # cs) \<longleftrightarrow> \<not> is_hex c \<and> c \<noteq> CHR ''_''"
  by (simp_all add: stops_def)

lemma stops_spaces: "list_all py_isspace ws \<Longrightarrow> stops ws"
  by (cases ws) (auto simp: is_hex_not_space space_not_special dest: is_hex_not_space)

lemma scan_digits_hex:
  assumes "is_hex d"
  shows "scan_digits prev (d # cs) =
           map_option (\<lambda>(ds, r). (the (hex_value d) # ds, r)) (scan_digits False cs)"
proof -
  from assms have "d \<noteq> CHR ''_''" by (rule is_hex_not_special)
  moreover from assms obtain v where "hex_value d = Some v" by (auto simp: is_hex_def)
  ultimately show ?thesis by simp
qed

lemma scan_digits_underscore:
  "scan_digits prev (CHR ''_'' # cs) = (if prev then None else scan_digits True cs)"
  by simp

lemmas scan_digits_Cons = scan_digits.simps(2)
declare scan_digits.simps(2) [simp del]

lemma scan_stop: "stops rest \<Longrightarrow> scan_digits False rest = Some ([], rest)"
  by (cases rest) (auto simp: is_hex_def scan_digits_Cons)

lemma scan_digits_complete:
  "hex_body body \<Longrightarrow> stops rest \<Longrightarrow>
     \<exists>ds. scan_digits prev (body @ rest) = Some (ds, rest) \<and> ds \<noteq> []"
proof (induction arbitrary: prev rule: hex_body.induct)
  case (hex_one d)
  then show ?case
    by (simp add: scan_digits_hex scan_stop)
next
  case (hex_more d b)
  from hex_more.IH [OF hex_more.prems, of False] hex_more.hyps(1) show ?case
    by (auto simp: scan_digits_hex)
next
  case (hex_sep d b)
  from hex_sep.IH [OF hex_sep.prems, of True] hex_sep.hyps(1) show ?case
    by (auto simp: scan_digits_hex scan_digits_underscore)
qed

lemma scan_digits_sound:
  "scan_digits prev s = Some (ds, rest) \<Longrightarrow>
     (ds = [] \<and> \<not> prev \<and> rest = s) \<or>
     (\<exists>body. hex_body body \<and> (s = body @ rest \<or> (\<not> prev \<and> s = CHR ''_'' # body @ rest)))"
proof (induction s arbitrary: prev ds rest)
  case Nil
  then show ?case by (simp split: if_splits)
next
  case (Cons c cs)
  show ?case
  proof (cases "c = CHR ''_''")
    case True
    with Cons.prems have np: "\<not> prev" and sc: "scan_digits True cs = Some (ds, rest)"
      by (simp_all add: scan_digits_Cons split: if_splits)
    from Cons.IH [OF sc] obtain body where "hex_body body" "cs = body @ rest"
      by auto
    with True np show ?thesis by auto
  next
    case False
    show ?thesis
    proof (cases "hex_value c")
      case None
      with False Cons.prems show ?thesis by (simp add: scan_digits_Cons split: if_splits)
    next
      case (Some d)
      with False Cons.prems obtain ds' where
        sc: "scan_digits False cs = Some (ds', rest)" and ds: "ds = d # ds'"
        by (auto simp: scan_digits_Cons)
      from Some have hx: "is_hex c" by (simp add: is_hex_def)
      from Cons.IH [OF sc] show ?thesis
      proof (elim disjE conjE exE)
        assume "ds' = []" "rest = cs"
        with hx show ?thesis by (auto intro: hex_one [of c])
      next
        fix body assume b: "hex_body body" and "cs = body @ rest"
        with hx have "hex_body (c # body)" "c # cs = (c # body) @ rest"
          by (auto intro: hex_more)
        then show ?thesis by blast
      next
        fix body assume b: "hex_body body" and "\<not> False" "cs = CHR ''_'' # body @ rest"
        with hx have "hex_body (c # CHR ''_'' # body)" "c # cs = (c # CHR ''_'' # body) @ rest"
          by (auto intro: hex_sep)
        then show ?thesis by blast
      qed
    qed
  qed
qed


lemma spaces_dropWhile: "dropWhile py_isspace ws = [] \<longleftrightarrow> list_all py_isspace ws"
  by (simp add: list_all_iff)

lemma parse_unsigned16_iff:
  "parse_unsigned16 s \<noteq> None \<longleftrightarrow>
     (\<exists>body ws. s = body @ ws \<and> hex_body body \<and> list_all py_isspace ws)"
proof
  assume ok: "parse_unsigned16 s \<noteq> None"
  then obtain ds rest where nus: "\<not> startswith s ''_''"
    and sc: "scan_digits False s = Some (ds, rest)" and ds: "ds \<noteq> []"
    and ws: "list_all py_isspace rest"
    by (auto simp: parse_unsigned16_def list_all_iff split: if_splits option.splits)
  from scan_digits_sound [OF sc] ds nus obtain body where "hex_body body" "s = body @ rest"
    by auto
  with ws show "\<exists>body ws. s = body @ ws \<and> hex_body body \<and> list_all py_isspace ws"
    by blast
next
  assume "\<exists>body ws. s = body @ ws \<and> hex_body body \<and> list_all py_isspace ws"
  then obtain body ws where s: "s = body @ ws" and hb: "hex_body body"
    and ws: "list_all py_isspace ws"
    by blast
  from hb obtain d b where body: "body = d # b" and d: "is_hex d"
    by (cases rule: hex_body.cases) auto
  from scan_digits_complete [OF hb stops_spaces [OF ws], of False]
  obtain ds where "scan_digits False (body @ ws) = Some (ds, ws)" "ds \<noteq> []"
    by blast
  moreover from body d have "\<not> startswith (body @ ws) ''_''"
    by (auto dest: is_hex_not_special)
  ultimately show "parse_unsigned16 s \<noteq> None"
    using ws by (simp add: parse_unsigned16_def s list_all_iff)
qed


lemma skip_sign_decompose:
  "skip_sign t = (neg, s2) \<Longrightarrow> \<exists>sg \<in> {[], ''+'', ''-''}. t = sg @ s2"
  by (cases t) (auto split: if_splits)

lemma skip_sign_compose:
  assumes "sg \<in> {[], ''+'', ''-''}" and "u \<noteq> []" and "hd u \<noteq> CHR ''+''" and "hd u \<noteq> CHR ''-''"
  shows "skip_sign (sg @ u) = (sg = ''-'', u)"
  using assms by (cases u) auto

lemma skip_prefix16_decompose:
  "\<exists>pre \<in> {[], ''0x'', ''0X'', ''0x_'', ''0X_''}. s = pre @ skip_prefix16 s"
proof (cases s rule: skip_prefix16.cases)
  case (1 c0 c1 rest)
  then show ?thesis by (cases rest) auto
qed simp_all

lemma skip_prefix16_body:
  assumes "hex_body body" and "list_all py_isspace ws"
  shows "skip_prefix16 (body @ ws) = body @ ws"
  using assms(1)
proof (cases rule: hex_body.cases)
  case (hex_one d)
  with assms(2) show ?thesis
    by (cases ws) (auto dest: space_not_special)
next
  case (hex_more d b)
  from hex_more(3) have "b = hd b # tl b" "is_hex (hd b)"
    by (simp_all add: hex_body_nonempty hex_body_hd)
  then obtain d' b' where "b = d' # b'" "is_hex d'"
    by blast
  with hex_more show ?thesis by (auto dest: is_hex_not_special)
next
  case (hex_sep d b)
  then show ?thesis by simp
qed

lemma skip_prefix16_compose:
  assumes "pre \<in> {[], ''0x'', ''0X'', ''0x_'', ''0X_''}" and "hex_body body"
    and "list_all py_isspace ws"
  shows "skip_prefix16 (pre @ body @ ws) = body @ ws"
proof -
  from assms(2) obtain d b where body: "body = d # b" and d: "is_hex d"
    by (cases rule: hex_body.cases) auto
  from d have "d \<noteq> CHR ''_''" by (rule is_hex_not_special)
  with assms(1) body skip_prefix16_body [OF assms(2,3)] show ?thesis
    by auto
qed

lemma dropWhile_spaces_append:
  assumes "list_all py_isspace ws" and "t \<noteq> []" and "\<not> py_isspace (hd t)"
  shows "dropWhile py_isspace (ws @ t) = t"
  using assms by (cases t) (simp_all add: list_all_iff)

theorem py_int16_ok_iff: "is_ok (py_int16 s) \<longleftrightarrow> int16_literal s"
proof
  assume ok: "is_ok (py_int16 s)"
  obtain neg s2 where ss: "skip_sign (dropWhile py_isspace s) = (neg, s2)"
    by (cases "skip_sign (dropWhile py_isspace s)")
  with ok have "parse_unsigned16 (skip_prefix16 s2) \<noteq> None"
    by (auto simp: py_int16_def split: option.splits)
  then obtain body ws2 where b: "skip_prefix16 s2 = body @ ws2" "hex_body body"
    "list_all py_isspace ws2"
    using parse_unsigned16_iff [of "skip_prefix16 s2"] by blast
  from skip_prefix16_decompose [of s2] b(1) obtain pre where
    pre: "pre \<in> {[], ''0x'', ''0X'', ''0x_'', ''0X_''}" "s2 = pre @ body @ ws2"
    by metis
  from skip_sign_decompose [OF ss] obtain sg where
    sg: "sg \<in> {[], ''+'', ''-''}" "dropWhile py_isspace s = sg @ s2"
    by blast
  have "s = takeWhile py_isspace s @ sg @ pre @ body @ ws2"
    using sg(2) pre(2) takeWhile_dropWhile_id [of py_isspace s] by simp
  moreover have "list_all py_isspace (takeWhile py_isspace s)"
    by (simp add: list_all_iff) (meson set_takeWhileD)
  ultimately show "int16_literal s"
    using sg(1) pre(1) b(2,3) unfolding int16_literal_def by blast
next
  assume "int16_literal s"
  then obtain ws1 sg pre body ws2 where s: "s = ws1 @ sg @ pre @ body @ ws2"
    and ws: "list_all py_isspace ws1" "list_all py_isspace ws2"
    and sg: "sg \<in> {[], ''+'', ''-''}" and pre: "pre \<in> {[], ''0x'', ''0X'', ''0x_'', ''0X_''}"
    and hb: "hex_body body"
    unfolding int16_literal_def by blast
  from hb obtain d b where body: "body = d # b" and d: "is_hex d"
    by (cases rule: hex_body.cases) auto
  let ?u = "pre @ body @ ws2"
  from pre body d have u: "?u \<noteq> []" "hd ?u \<noteq> CHR ''+''" "hd ?u \<noteq> CHR ''-''"
    "\<not> py_isspace (hd ?u)"
    by (auto dest: is_hex_not_special is_hex_not_space)
  with sg have t: "sg @ ?u \<noteq> []" "\<not> py_isspace (hd (sg @ ?u))"
    by auto
  have "dropWhile py_isspace s = sg @ ?u"
    unfolding s by (rule dropWhile_spaces_append [OF ws(1) t])
  moreover have "skip_sign (sg @ ?u) = (sg = ''-'', ?u)"
    by (rule skip_sign_compose [OF sg u(1-3)])
  moreover have "skip_prefix16 ?u = body @ ws2"
    by (rule skip_prefix16_compose [OF pre hb ws(2)])
  moreover have "parse_unsigned16 (body @ ws2) \<noteq> None"
    using hb ws(2) parse_unsigned16_iff [of "body @ ws2"] by blast
  ultimately show "is_ok (py_int16 s)"
    by (auto simp: py_int16_def)
qed

section \<open>Strings of hexadecimal digits\<close>

lemma scan_digits_all_hex:
  "list_all is_hex s \<Longrightarrow> scan_digits False s = Some (map (the \<circ> hex_value) s, [])"
  by (induction s) (simp_all add: scan_digits_hex)

lemma py_int16_all_hex:
  assumes hex: "list_all is_hex s" and ne: "s \<noteq> []"
  shows "py_int16 s = Inr (int (digits_value (map (the \<circ> hex_value) s)))"
proof -
  from ne obtain d b where s: "s = d # b" by (cases s) auto
  with hex have d: "is_hex d" by simp
  from hex ne have hb: "hex_body s" by (rule hex_body_all_hex)
  from d have "dropWhile py_isspace s = s" "skip_sign s = (False, s)"
    by (auto simp: s dest: is_hex_not_space is_hex_not_special)
  moreover from skip_prefix16_body [OF hb, of "[]"] have "skip_prefix16 s = s"
    by simp
  moreover from d have "\<not> startswith s ''_''"
    by (auto simp: s dest: is_hex_not_special)
  ultimately show ?thesis
    using ne by (simp add: py_int16_def parse_unsigned16_def scan_digits_all_hex [OF hex])
qed

lemma digits_value_snoc: "digits_value (ds @ [d]) = 16 * digits_value ds + d"
  by (simp add: digits_value_def)

lemma digits_value_bound: "list_all (\<lambda>d. d < 16) ds \<Longrightarrow> digits_value ds < 16 ^ length ds"
proof (induction ds rule: rev_induct)
  case Nil
  then show ?case by (simp add: digits_value_def)
next
  case (snoc d ds)
  then have "digits_value ds < 16 ^ length ds" and "d < 16" by simp_all
  then have "16 * digits_value ds + d < 16 * 16 ^ length ds" by arith
  then show ?case by (simp add: digits_value_snoc)
qed

text \<open>The scanner on inputs whose result the interpreter was observed to give.\<close>

lemmas py_int16_eval =
  py_int16_def parse_unsigned16_def scan_digits_Cons digits_value_def char_class_defs

lemma py_int16_examples:
  "py_int16 ''1f'' = Inr 31"
  "py_int16 '' 0x1F '' = Inr 31"
  "py_int16 ''-0X_1_f'' = Inr (- 31)"
  "py_int16 ''+a'' = Inr 10"
  "py_int16 [] = Inl ValueError"
  "py_int16 ''0x'' = Inl ValueError"
  "py_int16 ''_1'' = Inl ValueError"
  "py_int16 ''1__f'' = Inl ValueError"
  "py_int16 ''1f_'' = Inl ValueError"
  "py_int16 ''0x__1'' = Inl ValueError"
  "py_int16 ''+-1'' = Inl ValueError"
  "py_int16 ''1 f'' = Inl ValueError"
  "py_int16 ''g'' = Inl ValueError"
  by (simp_all add: py_int16_eval)

end
