(* ===== verification/Validation.thy ===== *)
theory Validation
  imports Models Py_Int
begin

text \<open>
  The stateless checks of \<^verbatim>\<open>shared/utils.py\<close>: \<^verbatim>\<open>validate_address\<close>,
  \<^verbatim>\<open>validate_transaction_hash\<close>, \<^verbatim>\<open>validate_escrow_data\<close>,
  \<^verbatim>\<open>format_address\<close>, \<^verbatim>\<open>calculate_time_remaining\<close> and
  \<^verbatim>\<open>format_time_remaining\<close>. Where the source reads the clock
  (\<^verbatim>\<open>int(time.time())\<close>), the model takes the reading as its first argument
  \<open>now\<close>. A parameter whose name is also a field of the data model is shortened
  (\<open>addr\<close> for \<^verbatim>\<open>address\<close>, \<open>dl\<close> for \<^verbatim>\<open>deadline\<close>).
\<close>

section \<open>Addresses and transaction hashes\<close>

definition validate_address :: "string \<Rightarrow> bool" where
  "validate_address addr =
     (if \<not> truthy addr then False
      else if startswith addr ''0x'' \<and> length addr = 42
      then (case py_int16 (py_slice_from addr 2) of Inr v \<Rightarrow> True | Inl e \<Rightarrow> False)
      else False)"

definition validate_transaction_hash :: "string \<Rightarrow> bool" where
  "validate_transaction_hash tx_hash =
     (if \<not> truthy tx_hash then False
      else if startswith tx_hash ''0x'' \<and> length tx_hash = 66
      then (case py_int16 (py_slice_from tx_hash 2) of Inr v \<Rightarrow> True | Inl e \<Rightarrow> False)
      else False)"

text \<open>
  What the specification asks of both: the literal prefix \<^verbatim>\<open>0x\<close> and then exactly
  \<open>n\<close> hexadecimal digits.
\<close>

definition strict_hex :: "nat \<Rightarrow> string \<Rightarrow> bool" where
  "strict_hex n s \<longleftrightarrow> (\<exists>h. s = ''0x'' @ h \<and> length h = n \<and> list_all is_hex h)"

section \<open>Escrow data\<close>

definition validate_escrow_data :: "int \<Rightarrow> EscrowData \<Rightarrow> string list" where
  "validate_escrow_data now escrow_data =
     (let errors = [];
          errors = (if \<not> validate_address (buyer_address escrow_data)
                    then errors @ [''Invalid buyer address''] else errors);
          errors = (if \<not> validate_address (seller_address escrow_data)
                    then errors @ [''Invalid seller address''] else errors);
          errors = (if \<not> validate_address (EscrowData.arbiter_address escrow_data)
                    then errors @ [''Invalid arbiter address''] else errors);
          errors = (if \<not> truthy (EscrowData.escrow_id escrow_data)
                       \<or> length (EscrowData.escrow_id escrow_data) < 10
                    then errors @ [''Invalid escrow ID''] else errors);
          errors = (if (case asset_a escrow_data of None \<Rightarrow> True | Some a \<Rightarrow> \<not> truthy (amount a))
                    then errors @ [''Asset A is required''] else errors);
          errors = (if (case asset_b escrow_data of None \<Rightarrow> True | Some a \<Rightarrow> \<not> truthy (amount a))
                    then errors @ [''Asset B is required''] else errors);
          errors = (if (case terms escrow_data of None \<Rightarrow> True
                        | Some t \<Rightarrow> \<not> truthy (EscrowTerms.description t))
                    then errors @ [''Escrow description is required''] else errors);
          errors = (if (case terms escrow_data of None \<Rightarrow> False | Some t \<Rightarrow> deadline t \<le> now)
                    then errors @ [''Deadline must be in the future''] else errors)
      in errors)"

text \<open>The rules of \<open>validate_escrow_data\<close> as a table: a violation and its message.\<close>

definition escrow_rules :: "int \<Rightarrow> EscrowData \<Rightarrow> (bool \<times> string) list" where
  "escrow_rules now e =
     [(\<not> validate_address (buyer_address e), ''Invalid buyer address''),
      (\<not> validate_address (seller_address e), ''Invalid seller address''),
      (\<not> validate_address (EscrowData.arbiter_address e), ''Invalid arbiter address''),
      (length (EscrowData.escrow_id e) < 10, ''Invalid escrow ID''),
      ((case asset_a e of None \<Rightarrow> True | Some a \<Rightarrow> amount a = []), ''Asset A is required''),
      ((case asset_b e of None \<Rightarrow> True | Some a \<Rightarrow> amount a = []), ''Asset B is required''),
      ((case terms e of None \<Rightarrow> True | Some t \<Rightarrow> EscrowTerms.description t = []),
         ''Escrow description is required''),
      ((case terms e of None \<Rightarrow> False | Some t \<Rightarrow> deadline t \<le> now),
         ''Deadline must be in the future'')]"

section \<open>Display of addresses and of the time left\<close>

definition format_address :: "string \<Rightarrow> int \<Rightarrow> string" where
  "format_address addr len =
     (if \<not> truthy addr \<or> int (length addr) < len * 2 + 2 then addr
      else py_slice_to addr len @ ''...'' @ py_slice_from addr (- len))"

definition calculate_time_remaining :: "int \<Rightarrow> int \<Rightarrow> pydict" where
  "calculate_time_remaining now dl =
     (let current_time = now;
          remaining = dl - current_time
      in if remaining \<le> 0
         then [(''total_seconds'', JInt 0), (''days'', JInt 0), (''hours'', JInt 0),
               (''minutes'', JInt 0), (''seconds'', JInt 0), (''expired'', JBool True)]
         else (let days = remaining div (24 * 60 * 60);
                   hours = (remaining mod (24 * 60 * 60)) div (60 * 60);
                   minutes = (remaining mod (60 * 60)) div 60;
                   seconds = remaining mod 60
               in [(''total_seconds'', JInt remaining), (''days'', JInt days),
                   (''hours'', JInt hours), (''minutes'', JInt minutes),
                   (''seconds'', JInt seconds), (''expired'', JBool False)]))"

text \<open>The integer stored under a key (0 where the entry is not an integer).\<close>

definition int_at :: "pydict \<Rightarrow> string \<Rightarrow> int" where
  "int_at d k = (case dict_get d k of JInt i \<Rightarrow> i | _ \<Rightarrow> 0)"

definition format_time_remaining :: "int \<Rightarrow> int \<Rightarrow> string" where
  "format_time_remaining now dl =
     (let time_data = calculate_time_remaining now dl
      in if py_truthy (dict_get time_data ''expired'') then ''Expired''
         else (let parts = [];
                   parts = (if 0 < int_at time_data ''days''
                            then parts @ [show_int (int_at time_data ''days'') @ ''d'']
                            else parts);
                   parts = (if 0 < int_at time_data ''hours''
                            then parts @ [show_int (int_at time_data ''hours'') @ ''h'']
                            else parts);
                   parts = (if 0 < int_at time_data ''minutes''
                            then parts @ [show_int (int_at time_data ''minutes'') @ ''m'']
                            else parts);
                   parts = (if 0 < int_at time_data ''seconds''
                            then parts @ [show_int (int_at time_data ''seconds'') @ ''s'']
                            else parts)
               in if truthy parts then py_join '' '' parts else ''0s''))"

lemmas validation_defs [escrow_defs] =
  validate_address_def validate_transaction_hash_def validate_escrow_data_def
  format_address_def calculate_time_remaining_def format_time_remaining_def

section \<open>Properties of the address and hash validators\<close>

lemma py_int16_error: "py_int16 s = Inl e \<Longrightarrow> e = ValueError"
  by (auto simp: py_int16_def split: prod.splits option.splits)

lemma hex_check_iff:
  "(case py_int16 s of Inr v \<Rightarrow> True | Inl e \<Rightarrow> False) \<longleftrightarrow> int16_literal s"
  using py_int16_ok_iff [of s] by (simp add: is_ok_def)

lemma validate_address_literal:
  "validate_address a \<longleftrightarrow> length a = 42 \<and> startswith a ''0x'' \<and> int16_literal (drop 2 a)"
  by (auto simp: validate_address_def hex_check_iff)

lemma validate_transaction_hash_literal:
  "validate_transaction_hash h \<longleftrightarrow>
     length h = 66 \<and> startswith h ''0x'' \<and> int16_literal (drop 2 h)"
  by (auto simp: validate_transaction_hash_def hex_check_iff)

lemma all_hex_literal: "list_all is_hex h \<Longrightarrow> h \<noteq> [] \<Longrightarrow> int16_literal h"
  using py_int16_all_hex [of h] py_int16_ok_iff [of h] by simp

lemma strict_hex_literal:
  assumes "strict_hex n s" and "0 < n"
  shows "length s = n + 2 \<and> startswith s ''0x'' \<and> int16_literal (drop 2 s)"
proof -
  from assms(1) obtain h where h: "s = ''0x'' @ h" "length h = n" "list_all is_hex h"
    by (auto simp: strict_hex_def)
  with assms(2) have "h \<noteq> []" by auto
  with h show ?thesis by (simp add: all_hex_literal)
qed

lemma strict_hex_all_hex: "strict_hex n s \<Longrightarrow> list_all is_hex (drop 2 s)"
  by (auto simp: strict_hex_def)

text \<open>Sample inputs: the zero address, the zero hash, and an address with a sign.\<close>

definition zero_address :: string where
  "zero_address = ''0x'' @ replicate 40 CHR ''0''"

definition zero_hash :: string where
  "zero_hash = ''0x'' @ replicate 64 CHR ''0''"

definition signed_address :: string where
  "signed_address = ''0x+'' @ replicate 39 CHR ''a''"

lemma strict_hex_zero: "strict_hex 40 zero_address" "strict_hex 64 zero_hash"
  unfolding strict_hex_def zero_address_def zero_hash_def
  by (simp_all add: list_all_iff)

lemma zero_address_valid: "validate_address zero_address"
  using strict_hex_literal [OF strict_hex_zero(1)] by (simp add: validate_address_literal)

lemma zero_hash_valid: "validate_transaction_hash zero_hash"
  using strict_hex_literal [OF strict_hex_zero(2)]
  by (simp add: validate_transaction_hash_literal)

lemma signed_literal: "int16_literal (''+'' @ replicate 39 CHR ''a'')"
  unfolding int16_literal_def
  by (intro exI [of _ "[]"] exI [of _ "''+''"] exI [of _ "replicate 39 CHR ''a''"])
    (simp add: hex_body_all_hex list_all_iff char_class_defs)

text \<open>
  C2. The exact set of strings \<open>validate_address\<close> accepts: the prefix
  \<^verbatim>\<open>0x\<close> and then 40 characters that \<^verbatim>\<open>int(_, 16)\<close> reads as a literal, which
  admits white space around the digits, a sign, a second \<^verbatim>\<open>0x\<close> and single
  underscores between digits.
\<close>

theorem validate_address_iff:
  "validate_address a \<longleftrightarrow> (\<exists>h. a = ''0x'' @ h \<and> length h = 40 \<and> int16_literal h)"
  by (auto simp: validate_address_literal startswith_decompose)

text \<open>
  The exact set of strings \<open>validate_transaction_hash\<close> accepts: as for
  addresses, with 64 characters after the prefix.
\<close>

theorem validate_transaction_hash_iff:
  "validate_transaction_hash t \<longleftrightarrow> (\<exists>h. t = ''0x'' @ h \<and> length h = 64 \<and> int16_literal h)"
  by (auto simp: validate_transaction_hash_literal startswith_decompose)

text \<open>
  C19. Every string that the specification calls a valid address, the prefix
  \<^verbatim>\<open>0x\<close> followed by exactly 40 hexadecimal digits, is accepted by
  \<open>validate_address\<close>, and likewise every transaction hash of 64 digits by
  \<open>validate_transaction_hash\<close>.
\<close>

theorem validators_accept_strict:
  "(strict_hex 40 a \<longrightarrow> validate_address a) \<and>
   (strict_hex 64 t \<longrightarrow> validate_transaction_hash t)"
  using strict_hex_literal [of 40 a] strict_hex_literal [of 64 t]
  by (simp add: validate_address_literal validate_transaction_hash_literal)

theorem validators_accept_strict_witness:
  "strict_hex 40 zero_address \<and> validate_address zero_address \<and>
   strict_hex 64 zero_hash \<and> validate_transaction_hash zero_hash"
  using validators_accept_strict [of zero_address zero_hash] strict_hex_zero by simp

text \<open>
  An accepted address has 42 characters and begins with \<^verbatim>\<open>0x\<close>, an
  accepted hash has 66: the empty, the shorter and the longer strings, and those with
  another prefix, are rejected.
\<close>

theorem validators_shape:
  "(validate_address a \<longrightarrow> length a = 42 \<and> startswith a ''0x'') \<and>
   (validate_transaction_hash t \<longrightarrow> length t = 66 \<and> startswith t ''0x'')"
  by (simp add: validate_address_literal validate_transaction_hash_literal)

theorem validators_shape_witness:
  "validate_address zero_address \<and> length zero_address = 42 \<and>
   startswith zero_address ''0x'' \<and> validate_transaction_hash zero_hash \<and>
   length zero_hash = 66 \<and> startswith zero_hash ''0x''"
  using validators_shape [of zero_address zero_hash] zero_address_valid zero_hash_valid
  by simp

text \<open>
  C20. \<open>validate_address\<close> accepts strings that are not \<^verbatim>\<open>0x\<close> and 40
  hexadecimal digits: \<^verbatim>\<open>int\<close> takes a sign, so \<^verbatim>\<open>0x+\<close> followed by 39 digits
  passes.
\<close>

theorem validate_address_beyond_spec:
  "validate_address signed_address \<and> \<not> strict_hex 40 signed_address"
proof
  from signed_literal show "validate_address signed_address"
    by (simp add: validate_address_literal signed_address_def)
  show "\<not> strict_hex 40 signed_address"
    using strict_hex_all_hex [of 40 signed_address] by (auto simp: signed_address_def)
qed

section \<open>Properties of the escrow validation\<close>

lemma validate_escrow_data_collect:
  "validate_escrow_data now e = collect (escrow_rules now e)"
proof -
  have id: "(\<not> truthy (EscrowData.escrow_id e) \<or> length (EscrowData.escrow_id e) < 10)
      \<longleftrightarrow> length (EscrowData.escrow_id e) < 10"
    by auto
  have opt: "\<And>(x :: Asset option). (case x of None \<Rightarrow> True | Some a \<Rightarrow> \<not> truthy (amount a))
      = (case x of None \<Rightarrow> True | Some a \<Rightarrow> amount a = [])"
    by (simp split: option.split)
  have opt': "(case terms e of None \<Rightarrow> True | Some t \<Rightarrow> \<not> truthy (EscrowTerms.description t))
      = (case terms e of None \<Rightarrow> True | Some t \<Rightarrow> EscrowTerms.description t = [])"
    by (simp split: option.split)
  show ?thesis
    unfolding validate_escrow_data_def escrow_rules_def
    by (simp only: Let_def append_if_collect id opt opt' append_Nil append_assoc
        collect_Cons_append [of _ "_ # _"])
qed


text \<open>
  C3. \<open>validate_escrow_data\<close> never stops at the first violation: its result
  is the list of the messages of all violated rules, in the order of the rule table.
\<close>

theorem validate_escrow_data_rules:
  "validate_escrow_data now e = collect (escrow_rules now e)"
  by (rule validate_escrow_data_collect)

lemma escrow_rules_messages:
  "map snd (escrow_rules now e) =
     [''Invalid buyer address'', ''Invalid seller address'', ''Invalid arbiter address'',
      ''Invalid escrow ID'', ''Asset A is required'', ''Asset B is required'',
      ''Escrow description is required'', ''Deadline must be in the future'']"
  by (simp add: escrow_rules_def)

lemma escrow_rules_distinct: "distinct (map snd (escrow_rules now e))"
  unfolding escrow_rules_messages by simp

text \<open>
  C7. The escrow data are valid (the error list is empty) exactly when the three
  addresses are accepted, the id has at least 10 characters, both assets are present
  with a non-empty amount, and the terms are present with a description and a deadline
  strictly after the clock reading.
\<close>

theorem validate_escrow_data_valid_iff:
  "validate_escrow_data now e = [] \<longleftrightarrow>
     validate_address (buyer_address e) \<and> validate_address (seller_address e) \<and>
     validate_address (EscrowData.arbiter_address e) \<and>
     10 \<le> length (EscrowData.escrow_id e) \<and>
     (\<exists>a. asset_a e = Some a \<and> amount a \<noteq> []) \<and>
     (\<exists>a. asset_b e = Some a \<and> amount a \<noteq> []) \<and>
     (\<exists>t. terms e = Some t \<and> EscrowTerms.description t \<noteq> [] \<and> now < deadline t)"
  unfolding validate_escrow_data_collect collect_empty_iff escrow_rules_def
  by (auto split: option.splits)

text \<open>
  The error list is a subsequence of the eight messages, without
  repetition.
\<close>

theorem validate_escrow_data_bounded:
  "subseq (validate_escrow_data now e) (map snd (escrow_rules now e)) \<and>
   distinct (validate_escrow_data now e) \<and> length (validate_escrow_data now e) \<le> 8"
proof -
  have "length (escrow_rules now e) = 8" by (simp add: escrow_rules_def)
  with collect_length [of "escrow_rules now e"] show ?thesis
    by (simp add: validate_escrow_data_collect collect_subseq collect_distinct
        escrow_rules_distinct)
qed

text \<open>
  The deadline is reported exactly when terms are present and their deadline
  is not after the clock reading; absent terms are reported by the description rule only.
\<close>

theorem deadline_rule:
  "''Deadline must be in the future'' \<in> set (validate_escrow_data now e) \<longleftrightarrow>
     (\<exists>t. terms e = Some t \<and> deadline t \<le> now)"
  unfolding validate_escrow_data_collect collect_member_iff escrow_rules_def
  by (auto split: option.splits)

section \<open>Properties of the time computations\<close>

lemma int_at_Cons [simp]:
  "int_at ((k', v) # d) k = (if k = k' then (case v of JInt i \<Rightarrow> i | _ \<Rightarrow> 0) else int_at d k)"
  by (simp add: int_at_def)

lemma time_remaining_keys:
  "map fst (calculate_time_remaining now dl) =
     [''total_seconds'', ''days'', ''hours'', ''minutes'', ''seconds'', ''expired'']"
  by (simp add: calculate_time_remaining_def Let_def)

lemma time_parts_sum:
  fixes r :: int
  shows "r div 86400 * 86400 + r mod 86400 div 3600 * 3600 + r mod 3600 div 60 * 60 + r mod 60 = r"
proof -
  have a: "r mod 3600 = r mod 86400 mod 3600"
    by (simp add: mod_mod_cancel)
  have b: "r mod 60 = r mod 3600 mod 60"
    by (simp add: mod_mod_cancel)
  have "r mod 3600 div 60 * 60 + r mod 60 = r mod 3600"
    unfolding b by simp
  moreover have "r mod 86400 div 3600 * 3600 + r mod 3600 = r mod 86400"
    unfolding a by simp
  ultimately show ?thesis
    by (metis add.assoc div_mult_mod_eq)
qed

lemma time_parts_nonneg:
  fixes r :: int
  assumes "0 \<le> r"
  shows "0 \<le> r div 86400" "0 \<le> r mod 86400 div 3600" "0 \<le> r mod 3600 div 60" "0 \<le> r mod 60"
proof -
  show "0 \<le> r div 86400" using assms by (simp add: pos_imp_zdiv_nonneg_iff)
  show "0 \<le> r mod 86400 div 3600" by (simp add: pos_imp_zdiv_nonneg_iff)
  show "0 \<le> r mod 3600 div 60" by (simp add: pos_imp_zdiv_nonneg_iff)
  show "0 \<le> r mod 60" by simp
qed

lemma time_parts_less:
  fixes r :: int
  shows "r mod 86400 div 3600 < 24" "r mod 3600 div 60 < 60" "r mod 60 < 60"
  by (simp_all add: div_less_iff_less_mult)

lemma nonneg_parts_zero:
  fixes a b c d :: int
  assumes "0 \<le> a" "0 \<le> b" "0 \<le> c" "0 \<le> d"
    and "\<not> (0 < a \<or> 0 < b \<or> 0 < c \<or> 0 < d)"
  shows "a * 86400 + b * 3600 + c * 60 + d = 0"
  using assms by simp

lemma time_remaining_fields:
  assumes "now < dl"
  defines "d \<equiv> calculate_time_remaining now dl" and "r \<equiv> dl - now"
  shows "int_at d ''total_seconds'' = r" "int_at d ''days'' = r div 86400"
    "int_at d ''hours'' = r mod 86400 div 3600" "int_at d ''minutes'' = r mod 3600 div 60"
    "int_at d ''seconds'' = r mod 60" "dict_get d ''expired'' = JBool False"
  using assms(1) by (simp_all add: d_def r_def calculate_time_remaining_def Let_def)


lemma some_part_positive:
  assumes "now < dl"
  defines "d \<equiv> calculate_time_remaining now dl"
  shows "0 < int_at d ''days'' \<or> 0 < int_at d ''hours'' \<or> 0 < int_at d ''minutes''
    \<or> 0 < int_at d ''seconds''"
proof (rule ccontr)
  let ?r = "dl - now"
  assume "\<not> ?thesis"
  then have "\<not> (0 < ?r div 86400 \<or> 0 < ?r mod 86400 div 3600 \<or> 0 < ?r mod 3600 div 60
      \<or> 0 < ?r mod 60)"
    unfolding d_def time_remaining_fields [OF assms(1)] .
  moreover from assms(1) have "0 \<le> ?r" by simp
  ultimately have "?r div 86400 * 86400 + ?r mod 86400 div 3600 * 3600
      + ?r mod 3600 div 60 * 60 + ?r mod 60 = 0"
    by (intro nonneg_parts_zero time_parts_nonneg)
  then have "?r = 0" by (simp only: time_parts_sum)
  with assms(1) show False by simp
qed

text \<open>
  C4. Before the deadline, the parts of \<open>calculate_time_remaining\<close> add up to
  the seconds left, with hours below 24 and minutes and seconds below 60, and the
  result is not marked expired.
\<close>

theorem time_remaining_decomposition:
  assumes "now < dl"
  defines "d \<equiv> calculate_time_remaining now dl"
  shows "int_at d ''total_seconds'' = dl - now \<and>
     int_at d ''days'' * 86400 + int_at d ''hours'' * 3600 + int_at d ''minutes'' * 60
       + int_at d ''seconds'' = dl - now \<and>
     0 \<le> int_at d ''days'' \<and>
     0 \<le> int_at d ''hours'' \<and> int_at d ''hours'' < 24 \<and>
     0 \<le> int_at d ''minutes'' \<and> int_at d ''minutes'' < 60 \<and>
     0 \<le> int_at d ''seconds'' \<and> int_at d ''seconds'' < 60 \<and>
     dict_get d ''expired'' = JBool False"
proof -
  from assms(1) have "0 \<le> dl - now" by simp
  note nonneg = time_parts_nonneg [OF this]
  show ?thesis
    unfolding d_def time_remaining_fields [OF assms(1)]
    using nonneg time_parts_less [of "dl - now"] time_parts_sum [of "dl - now"] by blast
qed

theorem time_remaining_decomposition_witness:
  "(0::int) < 90061 \<and>
   int_at (calculate_time_remaining 0 90061) ''total_seconds'' = 90061 - 0 \<and>
   int_at (calculate_time_remaining 0 90061) ''hours'' < 24 \<and>
   dict_get (calculate_time_remaining 0 90061) ''expired'' = JBool False"
proof -
  have h: "(0::int) < 90061" by simp
  from time_remaining_decomposition [OF h] h show ?thesis by blast
qed

lemma expired_flag_iff:
  "py_truthy (dict_get (calculate_time_remaining now dl) ''expired'') \<longleftrightarrow> dl \<le> now"
  by (simp add: calculate_time_remaining_def Let_def)

lemma format_time_examples:
  "format_time_remaining 0 90061 = ''1d 1h 1m 1s''"
  "format_time_remaining 0 86400 = ''1d''"
  "format_time_remaining 100 3700 = ''1h''"
  "format_time_remaining 5 5 = ''Expired''"
  "format_time_remaining 0 59 = ''59s''"
  by (simp_all add: format_time_remaining_def calculate_time_remaining_def Let_def
      digit_char_def)

text \<open>The parts of the text as a rule table: a part is shown when it is positive.\<close>

lemma format_time_remaining_parts:
  "format_time_remaining now dl =
     (let d = calculate_time_remaining now dl;
          parts = collect
            [(0 < int_at d ''days'', show_int (int_at d ''days'') @ ''d''),
             (0 < int_at d ''hours'', show_int (int_at d ''hours'') @ ''h''),
             (0 < int_at d ''minutes'', show_int (int_at d ''minutes'') @ ''m''),
             (0 < int_at d ''seconds'', show_int (int_at d ''seconds'') @ ''s'')]
      in if py_truthy (dict_get d ''expired'') then ''Expired''
         else if truthy parts then py_join '' '' parts else ''0s'')"
  unfolding format_time_remaining_def
  by (simp only: Let_def append_if_collect append_Nil append_assoc
      collect_Cons_append [of _ "_ # _"])

lemma time_part_digit:
  assumes "x \<in> set (collect [(0 < a, show_int a @ sa), (0 < b, show_int b @ sb),
      (0 < c, show_int c @ sc), (0 < d, show_int d @ sd)])"
  shows "x \<noteq> [] \<and> is_digit (hd x) \<and> hd x \<noteq> CHR ''0''"
  using assms
  by (auto simp: collect_member_iff show_int_pos show_nat_hd show_nat_no_leading_zero)

lemma format_time_head_digit:
  assumes "now < dl"
  shows "is_digit (hd (format_time_remaining now dl)) \<and>
    (hd (format_time_remaining now dl) = CHR ''0'' \<longrightarrow> format_time_remaining now dl = ''0s'')"
proof -
  let ?d = "calculate_time_remaining now dl"
  let ?parts = "collect
            [(0 < int_at ?d ''days'', show_int (int_at ?d ''days'') @ ''d''),
             (0 < int_at ?d ''hours'', show_int (int_at ?d ''hours'') @ ''h''),
             (0 < int_at ?d ''minutes'', show_int (int_at ?d ''minutes'') @ ''m''),
             (0 < int_at ?d ''seconds'', show_int (int_at ?d ''seconds'') @ ''s'')]"
  from assms have ne: "\<not> py_truthy (dict_get ?d ''expired'')"
    by (simp add: expired_flag_iff)
  show ?thesis
  proof (cases ?parts)
    case Nil
    with ne show ?thesis
      by (simp add: format_time_remaining_parts Let_def is_digit_def)
  next
    case (Cons p ps)
    then have "p \<in> set ?parts" by simp
    then have "p \<noteq> [] \<and> is_digit (hd p) \<and> hd p \<noteq> CHR ''0''" by (rule time_part_digit)
    with ne Cons show ?thesis
      by (simp add: format_time_remaining_parts Let_def py_join_hd)
  qed
qed

text \<open>
  C8. \<open>format_time_remaining\<close> answers \<^verbatim>\<open>Expired\<close> exactly when the deadline
  is not after the clock reading.
\<close>

theorem format_time_expired_iff:
  "format_time_remaining now dl = ''Expired'' \<longleftrightarrow> dl \<le> now"
proof (cases "dl \<le> now")
  case True
  then show ?thesis
    by (simp add: format_time_remaining_parts expired_flag_iff Let_def)
next
  case False
  then have "is_digit (hd (format_time_remaining now dl))"
    by (simp add: format_time_head_digit)
  then have "format_time_remaining now dl \<noteq> ''Expired''"
    by (auto simp: is_digit_def)
  with False show ?thesis by simp
qed

text \<open>
  C32. The fallback text \<^verbatim>\<open>0s\<close> of \<open>format_time_remaining\<close> is never
  returned: a positive remainder has a positive part, and every part shown starts with
  a digit other than 0.
\<close>

theorem format_time_never_fallback: "format_time_remaining now dl \<noteq> ''0s''"
proof (cases "dl \<le> now")
  case True
  then show ?thesis
    by (simp add: format_time_remaining_parts expired_flag_iff Let_def)
next
  case False
  then have lt: "now < dl" by simp
  let ?d = "calculate_time_remaining now dl"
  let ?parts = "collect
            [(0 < int_at ?d ''days'', show_int (int_at ?d ''days'') @ ''d''),
             (0 < int_at ?d ''hours'', show_int (int_at ?d ''hours'') @ ''h''),
             (0 < int_at ?d ''minutes'', show_int (int_at ?d ''minutes'') @ ''m''),
             (0 < int_at ?d ''seconds'', show_int (int_at ?d ''seconds'') @ ''s'')]"
  from some_part_positive [OF lt] have ne: "?parts \<noteq> []"
    by (auto simp: collect_empty_iff)
  then obtain p ps where ps: "?parts = p # ps" by (cases ?parts) auto
  then have "p \<in> set ?parts" by simp
  then have "p \<noteq> [] \<and> is_digit (hd p) \<and> hd p \<noteq> CHR ''0''" by (rule time_part_digit)
  with ps lt have "hd (format_time_remaining now dl) \<noteq> CHR ''0''"
    by (simp add: format_time_remaining_parts expired_flag_iff Let_def py_join_hd)
  then show ?thesis by auto
qed

section \<open>Properties of the address display\<close>

lemma format_address_unchanged:
  "addr = [] \<or> int (length addr) < len * 2 + 2 \<Longrightarrow> format_address addr len = addr"
  by (auto simp: format_address_def)

lemma format_address_cut:
  assumes "0 < k" "2 * k + 2 \<le> length addr"
  shows "format_address addr (int k) = take k addr @ ''...'' @ drop (length addr - k) addr"
proof -
  from assms have "addr \<noteq> []" "\<not> int (length addr) < int k * 2 + 2" "k \<le> length addr"
    by auto
  with assms(1) show ?thesis
    by (simp add: format_address_def py_slice_from_neg)
qed

text \<open>
  C38. \<open>format_address\<close> by cases: an empty address, or one shorter than twice the
  length plus two, is returned as it is; otherwise the result is the first and the
  last \<open>k\<close> characters around three dots. For the length 0 the last 0 characters are
  the slice \<^verbatim>\<open>address[-0:]\<close>, which is the whole address, so the result is the dots
  followed by the whole address.
\<close>

theorem format_address_cases:
  "format_address addr (int k) =
     (if addr = [] \<or> length addr < 2 * k + 2 then addr
      else if k = 0 then ''...'' @ addr
      else take k addr @ ''...'' @ drop (length addr - k) addr)"
proof (cases "addr = [] \<or> length addr < 2 * k + 2")
  case True
  then have "addr = [] \<or> int (length addr) < int k * 2 + 2" by auto
  from format_address_unchanged [OF this] True show ?thesis by simp
next
  case False
  then show ?thesis
    using format_address_cut [of k addr] by (cases "k = 0") (auto simp: format_address_def)
qed

text \<open>
  With the default length 8, an address that \<open>validate_address\<close> accepts is
  displayed in 19 characters: its first eight, among them the prefix \<^verbatim>\<open>0x\<close>, three
  dots, and its last eight.
\<close>

theorem format_address_valid:
  assumes "validate_address a"
  shows "format_address a 8 = take 8 a @ ''...'' @ drop 34 a \<and>
     length (format_address a 8) = 19 \<and> startswith (format_address a 8) ''0x''"
proof -
  from assms have l: "length a = 42" and p: "startswith a ''0x''"
    by (simp_all add: validate_address_literal)
  from p obtain r where a: "a = ''0x'' @ r"
    by (auto simp: startswith_decompose)
  have "format_address a (int 8) = take 8 a @ ''...'' @ drop (length a - 8) a"
    by (rule format_address_cut) (simp_all add: l)
  with l a show ?thesis by simp
qed

theorem format_address_valid_witness:
  "validate_address zero_address \<and>
   format_address zero_address 8 = ''0x'' @ replicate 6 CHR ''0'' @ ''...'' @ replicate 8 CHR ''0''"
  using format_address_valid [OF zero_address_valid] zero_address_valid
  by (simp add: zero_address_def)

section \<open>Sample escrows\<close>

text \<open>
  An escrow as Scenario A of the specification creates it: the clock reads 1000, the
  deadline is a day later, the amount is 100 and the fees are the defaults. And an
  escrow whose amounts are no numbers and whose fees add up to 101 percent.
\<close>

definition sample_escrow :: EscrowData where
  "sample_escrow =
     (EscrowData_new ''escrow_1000_0a1b2c3d'')
       \<lparr>buyer_address := zero_address, seller_address := zero_address,
        EscrowData.arbiter_address := zero_address,
        asset_a := Some ((Asset_new ETH)\<lparr>amount := ''100''\<rparr>),
        asset_b := Some ((Asset_new ERC20)\<lparr>amount := ''250''\<rparr>),
        terms := Some (EscrowTerms_new ''Swap of ETH for tokens'' 87400)\<rparr>"

definition odd_escrow :: EscrowData where
  "odd_escrow =
     sample_escrow
       \<lparr>asset_a := Some ((Asset_new ETH)\<lparr>amount := ''abc''\<rparr>),
        asset_b := Some ((Asset_new FIAT)\<lparr>amount := ''-1''\<rparr>),
        terms := Some ((EscrowTerms_new ''x'' 1001)
                  \<lparr>arbiter_fee_percentage := Fin 25 2, platform_fee_percentage := float_1_0\<rparr>)\<rparr>"

lemma sample_escrow_fields:
  "buyer_address sample_escrow = zero_address"
  "seller_address sample_escrow = zero_address"
  "EscrowData.arbiter_address sample_escrow = zero_address"
  "EscrowData.escrow_id sample_escrow = ''escrow_1000_0a1b2c3d''"
  "asset_a sample_escrow = Some ((Asset_new ETH)\<lparr>amount := ''100''\<rparr>)"
  "asset_b sample_escrow = Some ((Asset_new ERC20)\<lparr>amount := ''250''\<rparr>)"
  "terms sample_escrow = Some (EscrowTerms_new ''Swap of ETH for tokens'' 87400)"
  "EscrowData.status sample_escrow = AWAITING_DEPOSIT"
  by (simp_all add: sample_escrow_def EscrowData_new_def EscrowData_defaults_def)

lemma odd_escrow_fields:
  "buyer_address odd_escrow = zero_address"
  "seller_address odd_escrow = zero_address"
  "EscrowData.arbiter_address odd_escrow = zero_address"
  "EscrowData.escrow_id odd_escrow = ''escrow_1000_0a1b2c3d''"
  "asset_a odd_escrow = Some ((Asset_new ETH)\<lparr>amount := ''abc''\<rparr>)"
  "asset_b odd_escrow = Some ((Asset_new FIAT)\<lparr>amount := ''-1''\<rparr>)"
  "terms odd_escrow = Some ((EscrowTerms_new ''x'' 1001)
      \<lparr>arbiter_fee_percentage := Fin 25 2, platform_fee_percentage := float_1_0\<rparr>)"
  by (simp_all add: odd_escrow_def sample_escrow_fields)

lemma sample_escrow_rules: "collect (escrow_rules 1000 sample_escrow) = []"
  by (simp add: escrow_rules_def sample_escrow_fields zero_address_valid Asset_new_def
      EscrowTerms_new_def)

lemma sample_escrow_valid: "validate_escrow_data 1000 sample_escrow = []"
  by (simp add: validate_escrow_data_collect sample_escrow_rules)

text \<open>
  The checks of \<open>validate_escrow_data\<close> are the eight of the rule table and no
  more: an escrow whose amounts are \<^verbatim>\<open>abc\<close> and \<^verbatim>\<open>-1\<close> and whose arbiter and
  platform fees are 100 and 1 percent has no error, although the specification
  requires amounts to be numbers and the fees to add up to less than 100.
\<close>

theorem validate_escrow_data_gaps:
  "validate_escrow_data 1000 odd_escrow = [] \<and>
   (\<exists>a t. asset_a odd_escrow = Some a \<and> amount a = ''abc'' \<and>
          terms odd_escrow = Some t \<and> arbiter_fee_percentage t = Fin 25 2 \<and>
          platform_fee_percentage t = float_1_0)"
  by (simp add: validate_escrow_data_collect escrow_rules_def odd_escrow_fields
      zero_address_valid Asset_new_def EscrowTerms_new_def)

end
