(* ===== verification/Arbiter.thy ===== *)
theory Arbiter
  imports Py_Values
begin

text \<open>
  The recommendation procedure of the arbiter, \<^verbatim>\<open>analyze_dispute\<close> of
  \<^verbatim>\<open>agents/arbiter_agent.py\<close>: from the dictionary that describes a dispute to the
  dictionary of the analysis. The recommendation depends on the number of evidence
  items only, as read by \<^verbatim>\<open>len\<close>; where \<^verbatim>\<open>len\<close> raises, the function raises and
  the model returns the error.
\<close>

section \<open>The analysis\<close>

definition analyze_dispute :: "pydict \<Rightarrow> pydict result" where
  "analyze_dispute dispute_data =
     (let analysis =
            [(''dispute_id'', dict_get dispute_data ''dispute_id''),
             (''parties'',
                JDict [(''buyer'', dict_get dispute_data ''buyer_address''),
                       (''seller'', dict_get dispute_data ''seller_address'')]),
             (''evidence'', dict_get_or dispute_data ''evidence'' (JList [])),
             (''recommendation'', JStr ''REQUIRES_MORE_EVIDENCE''),
             (''confidence'', JFloat float_0_5),
             (''reasoning'', JStr ''Insufficient evidence to make a decision''),
             (''required_evidence'',
                JList [JStr ''Transaction proof'', JStr ''Communication logs'',
                       JStr ''Delivery confirmation''])]
      in case py_len (dict_get_or dispute_data ''evidence'' (JList [])) of
           Inl err \<Rightarrow> Inl err
         | Inr evidence_count \<Rightarrow>
             Inr (if 3 \<le> evidence_count
                  then (let analysis = dict_set analysis ''recommendation'' (JStr ''RELEASE_FUNDS'');
                            analysis = dict_set analysis ''confidence'' (JFloat float_0_8)
                        in dict_set analysis ''reasoning''
                             (JStr ''Sufficient evidence supports seller's claim''))
                  else if 1 \<le> evidence_count
                  then (let analysis = dict_set analysis ''recommendation'' (JStr ''REFUND_FUNDS'');
                            analysis = dict_set analysis ''confidence'' (JFloat float_0_6)
                        in dict_set analysis ''reasoning''
                             (JStr ''Evidence supports buyer's claim''))
                  else analysis))"

text \<open>
  The table of the specification: the recommendation, the confidence and the reasoning
  for a number of evidence items.
\<close>

definition recommendation_for :: "nat \<Rightarrow> string" where
  "recommendation_for n =
     (if n = 0 then ''REQUIRES_MORE_EVIDENCE''
      else if n \<le> 2 then ''REFUND_FUNDS'' else ''RELEASE_FUNDS'')"

definition confidence_for :: "nat \<Rightarrow> pyfloat" where
  "confidence_for n = (if n = 0 then float_0_5 else if n \<le> 2 then float_0_6 else float_0_8)"

definition reasoning_for :: "nat \<Rightarrow> string" where
  "reasoning_for n =
     (if n = 0 then ''Insufficient evidence to make a decision''
      else if n \<le> 2 then ''Evidence supports buyer's claim''
      else ''Sufficient evidence supports seller's claim'')"

definition analysis_keys :: "string list" where
  "analysis_keys =
     [''dispute_id'', ''parties'', ''evidence'', ''recommendation'', ''confidence'',
      ''reasoning'', ''required_evidence'']"

lemmas arbiter_defs [escrow_defs] = analyze_dispute_def

section \<open>Properties\<close>

lemma analyze_dispute_counted:
  assumes "py_len (dict_get_or d ''evidence'' (JList [])) = Inr n"
  shows "analyze_dispute d =
     Inr [(''dispute_id'', dict_get d ''dispute_id''),
          (''parties'', JDict [(''buyer'', dict_get d ''buyer_address''),
                               (''seller'', dict_get d ''seller_address'')]),
          (''evidence'', dict_get_or d ''evidence'' (JList [])),
          (''recommendation'', JStr (recommendation_for n)),
          (''confidence'', JFloat (confidence_for n)),
          (''reasoning'', JStr (reasoning_for n)),
          (''required_evidence'',
             JList [JStr ''Transaction proof'', JStr ''Communication logs'',
                    JStr ''Delivery confirmation''])]"
  using assms
  by (simp add: analyze_dispute_def dict_set_def recommendation_for_def confidence_for_def
      reasoning_for_def Let_def)

lemma analyze_dispute_error:
  "py_len (dict_get_or d ''evidence'' (JList [])) = Inl err \<Longrightarrow> analyze_dispute d = Inl err"
  by (simp add: analyze_dispute_def)

text \<open>
  C1. The decision table. When the evidence of a dispute is a list, the analysis
  succeeds and recommends \<^verbatim>\<open>REQUIRES_MORE_EVIDENCE\<close> with confidence 0.5 for no item,
  \<^verbatim>\<open>REFUND_FUNDS\<close> with 0.6 for one or two items and \<^verbatim>\<open>RELEASE_FUNDS\<close> with 0.8
  for three or more.
\<close>

theorem analyze_dispute_table:
  assumes "dict_get_or d ''evidence'' (JList []) = JList ev"
  shows "\<exists>a. analyze_dispute d = Inr a \<and>
     dict_get a ''recommendation'' = JStr (recommendation_for (length ev)) \<and>
     dict_get a ''confidence'' = JFloat (confidence_for (length ev)) \<and>
     dict_get a ''reasoning'' = JStr (reasoning_for (length ev)) \<and>
     dict_get a ''evidence'' = JList ev"
proof -
  from assms have "py_len (dict_get_or d ''evidence'' (JList [])) = Inr (length ev)"
    by simp
  from analyze_dispute_counted [OF this] assms show ?thesis
    by simp
qed

text \<open>Scenario B of the specification: two evidence items.\<close>

theorem analyze_dispute_table_witness:
  "dict_get_or [(''dispute_id'', JStr ''d1''), (''evidence'', JList [JStr ''e1'', JStr ''e2''])]
      ''evidence'' (JList []) = JList [JStr ''e1'', JStr ''e2''] \<and>
   (\<exists>a. analyze_dispute
           [(''dispute_id'', JStr ''d1''), (''evidence'', JList [JStr ''e1'', JStr ''e2''])]
         = Inr a \<and>
        dict_get a ''recommendation'' = JStr ''REFUND_FUNDS'' \<and>
        dict_get a ''confidence'' = JFloat float_0_6)"
proof -
  let ?d = "[(''dispute_id'', JStr ''d1''), (''evidence'', JList [JStr ''e1'', JStr ''e2''])]"
  have h: "dict_get_or ?d ''evidence'' (JList []) = JList [JStr ''e1'', JStr ''e2'']"
    by simp
  from analyze_dispute_table [OF h] h show ?thesis
    by (auto simp: recommendation_for_def confidence_for_def)
qed

text \<open>
  C22. The analysis raises exactly when \<^verbatim>\<open>len\<close> of the evidence raises: the
  evidence entry is present and is \<^verbatim>\<open>None\<close>, a boolean or a number. A dispute without
  an evidence entry is analysed as one with no evidence.
\<close>

theorem analyze_dispute_ok_iff:
  "is_ok (analyze_dispute d) \<longleftrightarrow> is_ok (py_len (dict_get_or d ''evidence'' (JList [])))"
  by (cases "py_len (dict_get_or d ''evidence'' (JList []))")
    (simp_all add: analyze_dispute_error analyze_dispute_counted)

text \<open>
  Every analysis has the same seven entries in the same order, and the list
  of required evidence is part of it for every recommendation, not only for
  \<^verbatim>\<open>REQUIRES_MORE_EVIDENCE\<close>.
\<close>

theorem analyze_dispute_shape:
  assumes "analyze_dispute d = Inr a"
  shows "map fst a = analysis_keys \<and> wf_dict a \<and>
     dict_get a ''required_evidence'' =
       JList [JStr ''Transaction proof'', JStr ''Communication logs'',
              JStr ''Delivery confirmation'']"
proof -
  from assms obtain n where "py_len (dict_get_or d ''evidence'' (JList [])) = Inr n"
    by (cases "py_len (dict_get_or d ''evidence'' (JList []))")
      (simp_all add: analyze_dispute_error)
  from analyze_dispute_counted [OF this] assms show ?thesis
    by (auto simp: analysis_keys_def wf_dict_def)
qed

theorem analyze_dispute_shape_witness:
  "analyze_dispute [] =
     Inr [(''dispute_id'', JNone),
          (''parties'', JDict [(''buyer'', JNone), (''seller'', JNone)]),
          (''evidence'', JList []),
          (''recommendation'', JStr ''REQUIRES_MORE_EVIDENCE''),
          (''confidence'', JFloat float_0_5),
          (''reasoning'', JStr ''Insufficient evidence to make a decision''),
          (''required_evidence'',
             JList [JStr ''Transaction proof'', JStr ''Communication logs'',
                    JStr ''Delivery confirmation''])] \<and>
   wf_dict [(''dispute_id'', JNone),
          (''parties'', JDict [(''buyer'', JNone), (''seller'', JNone)]),
          (''evidence'', JList []),
          (''recommendation'', JStr ''REQUIRES_MORE_EVIDENCE''),
          (''confidence'', JFloat float_0_5),
          (''reasoning'', JStr ''Insufficient evidence to make a decision''),
          (''required_evidence'',
             JList [JStr ''Transaction proof'', JStr ''Communication logs'',
                    JStr ''Delivery confirmation''])]"
proof -
  have e: "analyze_dispute [] =
     Inr [(''dispute_id'', JNone),
          (''parties'', JDict [(''buyer'', JNone), (''seller'', JNone)]),
          (''evidence'', JList []),
          (''recommendation'', JStr ''REQUIRES_MORE_EVIDENCE''),
          (''confidence'', JFloat float_0_5),
          (''reasoning'', JStr ''Insufficient evidence to make a decision''),
          (''required_evidence'',
             JList [JStr ''Transaction proof'', JStr ''Communication logs'',
                    JStr ''Delivery confirmation''])]"
    by (simp add: analyze_dispute_def Let_def)
  from analyze_dispute_shape [OF e] e show ?thesis by simp
qed

text \<open>
  The count is the length of whatever sized value is stored as evidence: a string of
  three characters counts as three items, and \<^verbatim>\<open>None\<close> is a type error.
\<close>

lemma analyze_dispute_examples:
  "\<exists>a. analyze_dispute [(''evidence'', JStr ''abc'')] = Inr a \<and>
       dict_get a ''recommendation'' = JStr ''RELEASE_FUNDS''"
  "analyze_dispute [(''evidence'', JNone)] = Inl TypeError"
  by (simp_all add: analyze_dispute_def dict_set_def Let_def)

end
