(* ===== verification/Protocol.thy ===== *)
theory Protocol
  imports Py_Values
begin

text \<open>
  The message protocol of \<^verbatim>\<open>protocols/escrow_protocol.py\<close>: the catalogue of message
  types, the constructors of the envelopes, the parsing and validation helpers and the
  protocol constants. An envelope is a dictionary with the entries \<^verbatim>\<open>type\<close>,
  \<^verbatim>\<open>timestamp\<close>, \<^verbatim>\<open>msg_id\<close> and \<^verbatim>\<open>data\<close>. Where the source reads the clock
  (\<^verbatim>\<open>datetime.now(timezone.utc).isoformat()\<close>) and draws an identifier
  (\<^verbatim>\<open>str(uuid4())\<close>), the model takes both as the arguments \<open>ts\<close> and \<open>mid\<close>.
\<close>

section \<open>Message types\<close>

definition CREATE_ESCROW :: string where "CREATE_ESCROW = ''create_escrow''"
definition DEPOSIT_REQUEST :: string where "DEPOSIT_REQUEST = ''deposit_request''"
definition FULFILLMENT_REQUEST :: string where "FULFILLMENT_REQUEST = ''fulfillment_request''"
definition DISPUTE_RAISED_MSG :: string where "DISPUTE_RAISED_MSG = ''dispute_raised''"
definition STATUS_UPDATE :: string where "STATUS_UPDATE = ''status_update''"
definition ORACLE_VERIFICATION :: string where "ORACLE_VERIFICATION = ''oracle_verification''"
definition HEARTBEAT :: string where "HEARTBEAT = ''heartbeat''"
definition ERROR :: string where "ERROR = ''error''"
definition SUCCESS :: string where "SUCCESS = ''success''"


section \<open>Envelopes\<close>

text \<open>The common shape of every envelope the constructors build.\<close>

definition envelope :: "string \<Rightarrow> string \<Rightarrow> string \<Rightarrow> json \<Rightarrow> pydict" where
  "envelope ty ts mid payload =
     [(''type'', JStr ty), (''timestamp'', JStr ts), (''msg_id'', JStr mid), (''data'', payload)]"

definition create_escrow_message :: "pydict \<Rightarrow> string \<Rightarrow> string \<Rightarrow> pydict" where
  "create_escrow_message escrow_data ts mid =
     [(''type'', JStr CREATE_ESCROW), (''timestamp'', JStr ts), (''msg_id'', JStr mid),
      (''data'', JDict escrow_data)]"

definition create_deposit_message ::
  "string \<Rightarrow> pydict \<Rightarrow> string \<Rightarrow> string \<Rightarrow> string \<Rightarrow> pydict" where
  "create_deposit_message escrow_id asset_data transaction_hash ts mid =
     [(''type'', JStr DEPOSIT_REQUEST), (''timestamp'', JStr ts), (''msg_id'', JStr mid),
      (''data'', JDict [(''escrow_id'', JStr escrow_id), (''asset_data'', JDict asset_data),
                        (''transaction_hash'', JStr transaction_hash)])]"

definition create_fulfillment_message ::
  "string \<Rightarrow> pydict \<Rightarrow> string \<Rightarrow> string \<Rightarrow> pydict" where
  "create_fulfillment_message escrow_id fulfillment_data ts mid =
     [(''type'', JStr FULFILLMENT_REQUEST), (''timestamp'', JStr ts), (''msg_id'', JStr mid),
      (''data'', JDict [(''escrow_id'', JStr escrow_id),
                        (''fulfillment_data'', JDict fulfillment_data)])]"

definition create_dispute_message ::
  "string \<Rightarrow> pydict \<Rightarrow> string \<Rightarrow> string \<Rightarrow> pydict" where
  "create_dispute_message escrow_id dispute_data ts mid =
     [(''type'', JStr DISPUTE_RAISED_MSG), (''timestamp'', JStr ts), (''msg_id'', JStr mid),
      (''data'', JDict [(''escrow_id'', JStr escrow_id),
                        (''dispute_data'', JDict dispute_data)])]"

definition create_oracle_verification_message ::
  "string \<Rightarrow> pydict \<Rightarrow> string \<Rightarrow> string \<Rightarrow> pydict" where
  "create_oracle_verification_message escrow_id transaction_data ts mid =
     [(''type'', JStr ORACLE_VERIFICATION), (''timestamp'', JStr ts), (''msg_id'', JStr mid),
      (''data'', JDict [(''escrow_id'', JStr escrow_id),
                        (''transaction_data'', JDict transaction_data)])]"

definition create_status_update_message ::
  "string \<Rightarrow> string \<Rightarrow> string \<Rightarrow> string \<Rightarrow> string \<Rightarrow> string \<Rightarrow> pydict" where
  "create_status_update_message escrow_id old_status new_status reason ts mid =
     [(''type'', JStr STATUS_UPDATE), (''timestamp'', JStr ts), (''msg_id'', JStr mid),
      (''data'', JDict [(''escrow_id'', JStr escrow_id), (''old_status'', JStr old_status),
                        (''new_status'', JStr new_status), (''reason'', JStr reason)])]"

definition create_error_message ::
  "string \<Rightarrow> string option \<Rightarrow> string \<Rightarrow> string \<Rightarrow> pydict" where
  "create_error_message error details ts mid =
     [(''type'', JStr ERROR), (''timestamp'', JStr ts), (''msg_id'', JStr mid),
      (''data'', JDict [(''error'', JStr error),
                        (''details'', (case details of None \<Rightarrow> JNone | Some d \<Rightarrow> JStr d))])]"

definition create_success_message ::
  "string \<Rightarrow> pydict option \<Rightarrow> string \<Rightarrow> string \<Rightarrow> pydict" where
  "create_success_message message payload ts mid =
     [(''type'', JStr SUCCESS), (''timestamp'', JStr ts), (''msg_id'', JStr mid),
      (''data'', JDict [(''message'', JStr message),
                        (''data'', (case payload of
                                      None \<Rightarrow> JDict []
                                    | Some d \<Rightarrow> if truthy d then JDict d else JDict []))])]"

definition create_heartbeat_message ::
  "string \<Rightarrow> string \<Rightarrow> int \<Rightarrow> string \<Rightarrow> string \<Rightarrow> pydict" where
  "create_heartbeat_message agent_type status uptime ts mid =
     [(''type'', JStr HEARTBEAT), (''timestamp'', JStr ts), (''msg_id'', JStr mid),
      (''data'', JDict [(''agent_type'', JStr agent_type), (''status'', JStr status),
                        (''uptime'', JInt uptime)])]"

definition create_acknowledgement_message :: "string \<Rightarrow> string \<Rightarrow> string \<Rightarrow> pydict" where
  "create_acknowledgement_message original_msg_id ts mid =
     [(''type'', JStr ''acknowledgement''), (''timestamp'', JStr ts), (''msg_id'', JStr mid),
      (''data'', JDict [(''acknowledged_msg_id'', JStr original_msg_id)])]"

definition create_response_message ::
  "string \<Rightarrow> string \<Rightarrow> pydict \<Rightarrow> string \<Rightarrow> string \<Rightarrow> pydict" where
  "create_response_message original_msg_id response_type response_data ts mid =
     [(''type'', JStr response_type), (''timestamp'', JStr ts), (''msg_id'', JStr mid),
      (''data'', JDict [(''original_msg_id'', JStr original_msg_id),
                        (''response_data'', JDict response_data)])]"

lemmas constructor_defs [escrow_defs] =
  create_escrow_message_def create_deposit_message_def create_fulfillment_message_def
  create_dispute_message_def create_oracle_verification_message_def
  create_status_update_message_def create_error_message_def create_success_message_def
  create_heartbeat_message_def create_acknowledgement_message_def
  create_response_message_def

section \<open>Parsing and validation\<close>

definition parse_message_type :: "pydict \<Rightarrow> json" where
  "parse_message_type message = dict_get_or message ''type'' (JStr ''unknown'')"

definition parse_message_data :: "pydict \<Rightarrow> json" where
  "parse_message_data message = dict_get_or message ''data'' (JDict [])"

definition validate_message :: "pydict \<Rightarrow> bool" where
  "validate_message message =
     (let required_fields = [''type'', ''timestamp'', ''msg_id'', ''data'']
      in list_all (\<lambda>field. dict_has message field) required_fields)"

lemmas parsing_defs [escrow_defs] =
  parse_message_type_def parse_message_data_def validate_message_def

section \<open>Protocol constants\<close>

definition PROTOCOL_VERSION :: string where "PROTOCOL_VERSION = ''1.0.0''"


definition MESSAGE_TIMEOUT :: int where "MESSAGE_TIMEOUT = 30"
definition HEARTBEAT_INTERVAL :: int where "HEARTBEAT_INTERVAL = 60"
definition DISPUTE_TIMEOUT :: int where "DISPUTE_TIMEOUT = 86400"
definition MAX_RETRIES :: int where "MAX_RETRIES = 3"
definition RETRY_DELAY :: int where "RETRY_DELAY = 5"


section \<open>Every constructor builds an envelope\<close>

lemma create_escrow_envelope:
  "create_escrow_message d ts mid = envelope CREATE_ESCROW ts mid (JDict d)"
  by (simp add: create_escrow_message_def envelope_def)

lemma create_deposit_envelope:
  "create_deposit_message e a t ts mid = envelope DEPOSIT_REQUEST ts mid
     (JDict [(''escrow_id'', JStr e), (''asset_data'', JDict a), (''transaction_hash'', JStr t)])"
  by (simp add: create_deposit_message_def envelope_def)

lemma create_fulfillment_envelope:
  "create_fulfillment_message e f ts mid = envelope FULFILLMENT_REQUEST ts mid
     (JDict [(''escrow_id'', JStr e), (''fulfillment_data'', JDict f)])"
  by (simp add: create_fulfillment_message_def envelope_def)

lemma create_dispute_envelope:
  "create_dispute_message e d ts mid = envelope DISPUTE_RAISED_MSG ts mid
     (JDict [(''escrow_id'', JStr e), (''dispute_data'', JDict d)])"
  by (simp add: create_dispute_message_def envelope_def)

lemma create_oracle_verification_envelope:
  "create_oracle_verification_message e t ts mid = envelope ORACLE_VERIFICATION ts mid
     (JDict [(''escrow_id'', JStr e), (''transaction_data'', JDict t)])"
  by (simp add: create_oracle_verification_message_def envelope_def)

lemma create_status_update_envelope:
  "create_status_update_message e old new r ts mid = envelope STATUS_UPDATE ts mid
     (JDict [(''escrow_id'', JStr e), (''old_status'', JStr old), (''new_status'', JStr new),
             (''reason'', JStr r)])"
  by (simp add: create_status_update_message_def envelope_def)

lemma create_error_envelope:
  "create_error_message err det ts mid = envelope ERROR ts mid
     (JDict [(''error'', JStr err),
             (''details'', (case det of None \<Rightarrow> JNone | Some d \<Rightarrow> JStr d))])"
  by (simp add: create_error_message_def envelope_def)

lemma create_success_envelope:
  "create_success_message m payload ts mid = envelope SUCCESS ts mid
     (JDict [(''message'', JStr m), (''data'', JDict (case payload of None \<Rightarrow> [] | Some d \<Rightarrow> d))])"
  by (cases payload) (simp_all add: create_success_message_def envelope_def)

lemma create_heartbeat_envelope:
  "create_heartbeat_message a st up ts mid = envelope HEARTBEAT ts mid
     (JDict [(''agent_type'', JStr a), (''status'', JStr st), (''uptime'', JInt up)])"
  by (simp add: create_heartbeat_message_def envelope_def)

lemma create_acknowledgement_envelope:
  "create_acknowledgement_message orig ts mid = envelope ''acknowledgement'' ts mid
     (JDict [(''acknowledged_msg_id'', JStr orig)])"
  by (simp add: create_acknowledgement_message_def envelope_def)

lemma create_response_envelope:
  "create_response_message orig ty d ts mid = envelope ty ts mid
     (JDict [(''original_msg_id'', JStr orig), (''response_data'', JDict d)])"
  by (simp add: create_response_message_def envelope_def)

lemmas constructor_envelope =
  create_escrow_envelope create_deposit_envelope create_fulfillment_envelope
  create_dispute_envelope create_oracle_verification_envelope create_status_update_envelope
  create_error_envelope create_success_envelope create_heartbeat_envelope
  create_acknowledgement_envelope create_response_envelope

lemma validate_message_keys:
  "validate_message m \<longleftrightarrow>
     dict_has m ''type'' \<and> dict_has m ''timestamp'' \<and> dict_has m ''msg_id'' \<and> dict_has m ''data''"
  by (simp add: validate_message_def)

lemma validate_envelope [simp]: "validate_message (envelope ty ts mid p)"
  by (simp add: validate_message_keys envelope_def)

lemma wf_envelope [simp]: "wf_dict (envelope ty ts mid p)"
  by (simp add: wf_dict_def envelope_def)

lemma parse_type_envelope [simp]: "parse_message_type (envelope ty ts mid p) = JStr ty"
  by (simp add: parse_message_type_def envelope_def)

lemma parse_data_envelope [simp]: "parse_message_data (envelope ty ts mid p) = p"
  by (simp add: parse_message_data_def envelope_def)

lemma envelope_fields:
  "dict_get (envelope ty ts mid p) ''timestamp'' = JStr ts"
  "dict_get (envelope ty ts mid p) ''msg_id'' = JStr mid"
  by (simp_all add: envelope_def)


section \<open>Properties of the protocol\<close>

text \<open>
  C5. Every constructor of the protocol module builds a message that
  \<^verbatim>\<open>validate_message\<close> accepts and whose four keys are distinct, whatever its
  arguments, the clock reading and the identifier are.
\<close>

theorem constructors_validate:
  "validate_message (create_escrow_message d ts mid) \<and>
   validate_message (create_deposit_message e a t ts mid) \<and>
   validate_message (create_fulfillment_message e f ts mid) \<and>
   validate_message (create_dispute_message e d ts mid) \<and>
   validate_message (create_oracle_verification_message e tx ts mid) \<and>
   validate_message (create_status_update_message e old new r ts mid) \<and>
   validate_message (create_error_message err det ts mid) \<and>
   validate_message (create_success_message m payload ts mid) \<and>
   validate_message (create_heartbeat_message ag st up ts mid) \<and>
   validate_message (create_acknowledgement_message orig ts mid) \<and>
   validate_message (create_response_message orig ty d ts mid)"
  by (simp add: constructor_envelope)

text \<open>
  C9. Parsing the type of a constructed message gives back the message type the
  constructor stands for: each constructor writes its own entry of the catalogue, and
  a response carries the type it was given.
\<close>

theorem parse_type_roundtrip:
  "parse_message_type (create_escrow_message d ts mid) = JStr CREATE_ESCROW \<and>
   parse_message_type (create_deposit_message e a t ts mid) = JStr DEPOSIT_REQUEST \<and>
   parse_message_type (create_fulfillment_message e f ts mid) = JStr FULFILLMENT_REQUEST \<and>
   parse_message_type (create_dispute_message e d ts mid) = JStr DISPUTE_RAISED_MSG \<and>
   parse_message_type (create_oracle_verification_message e tx ts mid)
     = JStr ORACLE_VERIFICATION \<and>
   parse_message_type (create_status_update_message e old new r ts mid) = JStr STATUS_UPDATE \<and>
   parse_message_type (create_error_message err det ts mid) = JStr ERROR \<and>
   parse_message_type (create_success_message m payload ts mid) = JStr SUCCESS \<and>
   parse_message_type (create_heartbeat_message ag st up ts mid) = JStr HEARTBEAT \<and>
   parse_message_type (create_response_message orig ty d ts mid) = JStr ty"
  by (simp add: constructor_envelope)

text \<open>
  Parsing the data of a constructed message gives back the arguments of the
  constructor: the escrow dictionary itself for an escrow creation, and for a deposit
  request a dictionary from which the escrow identifier, the asset and the transaction
  hash are read back unchanged.
\<close>

theorem parse_data_roundtrip:
  "parse_message_data (create_escrow_message d ts mid) = JDict d \<and>
   (\<exists>p. parse_message_data (create_deposit_message e a t ts mid) = JDict p \<and>
        dict_get p ''escrow_id'' = JStr e \<and> dict_get p ''asset_data'' = JDict a \<and>
        dict_get p ''transaction_hash'' = JStr t \<and> length p = 3)"
  by (simp add: constructor_envelope)

text \<open>
  C21. \<^verbatim>\<open>validate_message\<close> accepts a message exactly when the four keys
  \<^verbatim>\<open>type\<close>, \<^verbatim>\<open>timestamp\<close>, \<^verbatim>\<open>msg_id\<close> and \<^verbatim>\<open>data\<close> are present; it reads no
  value. So a dictionary holding \<^verbatim>\<open>None\<close> under each of the four keys is accepted.
\<close>

theorem validate_message_presence_only:
  "(validate_message m \<longleftrightarrow> {''type'', ''timestamp'', ''msg_id'', ''data''} \<subseteq> fst ` set m) \<and>
   validate_message
     [(''type'', JNone), (''timestamp'', JNone), (''msg_id'', JNone), (''data'', JNone)]"
  by (simp add: validate_message_keys dict_has_keys)


text \<open>
  A message without a \<^verbatim>\<open>type\<close> entry parses to the type \<^verbatim>\<open>unknown\<close>, and
  one without a \<^verbatim>\<open>data\<close> entry to the empty dictionary; neither message is valid.
\<close>

theorem parse_defaults:
  "(\<not> dict_has m ''type'' \<longrightarrow>
      parse_message_type m = JStr ''unknown'' \<and> \<not> validate_message m) \<and>
   (\<not> dict_has m ''data'' \<longrightarrow>
      parse_message_data m = JDict [] \<and> \<not> validate_message m)"
  by (simp add: parse_message_type_def parse_message_data_def dict_get_or_absent
      validate_message_keys)

theorem parse_defaults_witness:
  "parse_message_type [] = JStr ''unknown'' \<and> parse_message_data [] = JDict [] \<and>
   \<not> validate_message []"
  using parse_defaults [of "[]"] by simp

end
