(* ===== verification/Messages.thy ===== *)
theory Messages
  imports Models
begin

text \<open>
  The message content helpers of \<^verbatim>\<open>shared/utils.py\<close>: the builders of content
  items (dictionaries tagged by a \<^verbatim>\<open>type\<close> entry), the extractors that search a
  content list for the first item of a type, and the builders of the error, success,
  status, capability and heartbeat dictionaries, and the parser of agent messages.
  Clock readings
  (\<^verbatim>\<open>int(time.time())\<close>, \<^verbatim>\<open>datetime.now(timezone.utc).isoformat()\<close>) and the
  generated session identifier are arguments of the model; an argument whose source
  name is a field of a record of the data model is renamed (\<open>content\<close> to \<open>items\<close>). The three builders whose
  names the protocol module uses as well carry the suffix \<open>_utils\<close> here.
\<close>

section \<open>Optional fields as values\<close>

definition opt_str :: "string option \<Rightarrow> json" where
  "opt_str v = (case v of None \<Rightarrow> JNone | Some s \<Rightarrow> JStr s)"

definition opt_int :: "int option \<Rightarrow> json" where
  "opt_int v = (case v of None \<Rightarrow> JNone | Some i \<Rightarrow> JInt i)"

lemma opt_str_simps [simp]: "opt_str None = JNone" "opt_str (Some s) = JStr s"
  by (simp_all add: opt_str_def)

lemma opt_int_simps [simp]: "opt_int None = JNone" "opt_int (Some i) = JInt i"
  by (simp_all add: opt_int_def)

section \<open>Content builders\<close>

definition create_agent_message ::
  "pydict list \<Rightarrow> string option \<Rightarrow> string option \<Rightarrow> string \<Rightarrow> string \<Rightarrow> AgentMessage" where
  "create_agent_message cont sndr rcpt ts sid =
     \<lparr>timestamp = ts, msg_id = sid, content = cont, sender = sndr, recipient = rcpt\<rparr>"

definition create_text_content :: "string \<Rightarrow> pydict" where
  "create_text_content text = [(''type'', JStr ''text''), (''text'', JStr text)]"

definition create_metadata_content :: "pydict \<Rightarrow> pydict" where
  "create_metadata_content md = [(''type'', JStr ''metadata''), (''metadata'', JDict md)]"

definition create_escrow_content :: "EscrowData \<Rightarrow> pydict" where
  "create_escrow_content escrow_data =
     [(''type'', JStr ''escrow_data''),
      (''escrow_data'', JDict
        [(''escrow_id'', JStr (EscrowData.escrow_id escrow_data)),
         (''contract_address'', opt_str (contract_address escrow_data)),
         (''status'', JInt (EscrowState_value (EscrowData.status escrow_data))),
         (''trade_type'', JStr (TradeType_value (trade_type escrow_data))),
         (''buyer_address'', JStr (buyer_address escrow_data)),
         (''seller_address'', JStr (seller_address escrow_data)),
         (''arbiter_address'', JStr (EscrowData.arbiter_address escrow_data)),
         (''created_at'', JInt (EscrowData.created_at escrow_data)),
         (''updated_at'', JInt (updated_at escrow_data))])]"

definition create_dispute_content :: "DisputeRecord \<Rightarrow> pydict" where
  "create_dispute_content dispute_record =
     [(''type'', JStr ''dispute_data''),
      (''dispute_data'', JDict
        [(''dispute_id'', JStr (DisputeRecord.dispute_id dispute_record)),
         (''escrow_id'', JStr (DisputeRecord.escrow_id dispute_record)),
         (''disputing_party'', JStr (disputing_party dispute_record)),
         (''reason'', JStr (reason dispute_record)),
         (''status'', JStr (DisputeRecord.status dispute_record)),
         (''arbiter_address'', JStr (DisputeRecord.arbiter_address dispute_record)),
         (''created_at'', JInt (DisputeRecord.created_at dispute_record)),
         (''resolved_at'', opt_int (resolved_at dispute_record)),
         (''decision'', opt_str (decision dispute_record)),
         (''arbiter_reasoning'', opt_str (arbiter_reasoning dispute_record))])]"

section \<open>Extractors\<close>

text \<open>
  Each extractor is the source's \<^verbatim>\<open>for item in content\<close> loop: the first item whose
  \<^verbatim>\<open>type\<close> entry equals the tag decides the result. \<^verbatim>\<open>extract_text_content\<close>
  collects from every text item instead.
\<close>

fun extract_escrow_data :: "pydict list \<Rightarrow> json" where
  "extract_escrow_data [] = JNone"
| "extract_escrow_data (item # items) =
     (if dict_get item ''type'' = JStr ''escrow_data'' then dict_get item ''escrow_data''
      else extract_escrow_data items)"

fun extract_dispute_data :: "pydict list \<Rightarrow> json" where
  "extract_dispute_data [] = JNone"
| "extract_dispute_data (item # items) =
     (if dict_get item ''type'' = JStr ''dispute_data'' then dict_get item ''dispute_data''
      else extract_dispute_data items)"

fun extract_text_content :: "pydict list \<Rightarrow> json list" where
  "extract_text_content [] = []"
| "extract_text_content (item # items) =
     (if dict_get item ''type'' = JStr ''text''
      then dict_get_or item ''text'' (JStr []) # extract_text_content items
      else extract_text_content items)"

fun extract_metadata :: "pydict list \<Rightarrow> json" where
  "extract_metadata [] = JDict []"
| "extract_metadata (item # items) =
     (if dict_get item ''type'' = JStr ''metadata'' then dict_get_or item ''metadata'' (JDict [])
      else extract_metadata items)"

section \<open>Error, success, status, capabilities, heartbeat\<close>

definition create_error_message_utils :: "string \<Rightarrow> string option \<Rightarrow> pydict" where
  "create_error_message_utils error details =
     (let error_data = [(''type'', JStr ''error''), (''error'', JStr error)]
      in case details of
           None \<Rightarrow> error_data
         | Some d \<Rightarrow> if truthy d then dict_set error_data ''details'' (JStr d) else error_data)"

definition create_success_message_utils :: "string \<Rightarrow> pydict option \<Rightarrow> pydict" where
  "create_success_message_utils message payload =
     (let success_data = [(''type'', JStr ''success''), (''message'', JStr message)]
      in case payload of
           None \<Rightarrow> success_data
         | Some d \<Rightarrow> if truthy d then dict_set success_data ''data'' (JDict d) else success_data)"

definition create_status_update :: "string \<Rightarrow> string \<Rightarrow> string \<Rightarrow> string \<Rightarrow> int \<Rightarrow> pydict" where
  "create_status_update eid old_status new_status why now =
     [(''type'', JStr ''status_update''), (''escrow_id'', JStr eid),
      (''old_status'', JStr old_status), (''new_status'', JStr new_status),
      (''reason'', JStr why), (''timestamp'', JInt now)]"

definition create_agent_capabilities ::
  "string \<Rightarrow> string list \<Rightarrow> string list \<Rightarrow> int \<Rightarrow> pydict" where
  "create_agent_capabilities agent_type supported_chains supported_assets now =
     [(''agent_type'', JStr agent_type),
      (''supported_chains'', JList (map JStr supported_chains)),
      (''supported_assets'', JList (map JStr supported_assets)),
      (''version'', JStr ''1.0.0''),
      (''capabilities'', JList [JStr ''escrow_management'', JStr ''dispute_resolution'',
                                JStr ''transaction_verification'', JStr ''multi_chain_support'']),
      (''last_updated'', JInt now)]"

text \<open>The heartbeat reads the clock twice; \<open>now\<close> and \<open>now'\<close> are the two readings.\<close>

definition create_heartbeat_message_utils :: "string \<Rightarrow> string \<Rightarrow> int \<Rightarrow> int \<Rightarrow> pydict" where
  "create_heartbeat_message_utils agent_type st now now' =
     [(''type'', JStr ''heartbeat''), (''agent_type'', JStr agent_type), (''status'', JStr st),
      (''timestamp'', JInt now), (''uptime'', JInt now')]"

lemmas messages_defs [escrow_defs] =
  create_agent_message_def create_text_content_def create_metadata_content_def
  create_escrow_content_def create_dispute_content_def create_error_message_utils_def
  create_success_message_utils_def create_status_update_def create_agent_capabilities_def
  create_heartbeat_message_utils_def

section \<open>The extractors as searches\<close>

text \<open>The reference reading of a loop with an early return: the first item of a type.\<close>

definition first_of_type :: "string \<Rightarrow> pydict list \<Rightarrow> pydict option" where
  "first_of_type tag items = find (\<lambda>item. dict_get item ''type'' = JStr tag) items"

lemma first_of_type_Nil [simp]: "first_of_type tag [] = None"
  by (simp add: first_of_type_def)

lemma first_of_type_Cons [simp]:
  "first_of_type tag (item # items) =
     (if dict_get item ''type'' = JStr tag then Some item else first_of_type tag items)"
  by (simp add: first_of_type_def)

lemma first_of_type_append:
  "first_of_type tag (xs @ ys) =
     (case first_of_type tag xs of None \<Rightarrow> first_of_type tag ys | Some i \<Rightarrow> Some i)"
  by (induction xs) simp_all

lemma first_of_type_None_iff:
  "first_of_type tag items = None \<longleftrightarrow> (\<forall>i \<in> set items. dict_get i ''type'' \<noteq> JStr tag)"
  by (auto simp: first_of_type_def find_None_iff)

lemma extract_escrow_data_find:
  "extract_escrow_data items =
     (case first_of_type ''escrow_data'' items of
        None \<Rightarrow> JNone | Some item \<Rightarrow> dict_get item ''escrow_data'')"
  by (induction items) simp_all

lemma extract_dispute_data_find:
  "extract_dispute_data items =
     (case first_of_type ''dispute_data'' items of
        None \<Rightarrow> JNone | Some item \<Rightarrow> dict_get item ''dispute_data'')"
  by (induction items) simp_all

lemma extract_metadata_find:
  "extract_metadata items =
     (case first_of_type ''metadata'' items of
        None \<Rightarrow> JDict [] | Some item \<Rightarrow> dict_get_or item ''metadata'' (JDict []))"
  by (induction items) simp_all

lemma extract_text_content_filter:
  "extract_text_content items =
     map (\<lambda>item. dict_get_or item ''text'' (JStr []))
       (filter (\<lambda>item. dict_get item ''type'' = JStr ''text'') items)"
  by (induction items) simp_all

lemma extract_text_content_append:
  "extract_text_content (xs @ ys) = extract_text_content xs @ extract_text_content ys"
  by (simp add: extract_text_content_filter)

lemma content_type [simp]:
  "dict_get (create_text_content t) ''type'' = JStr ''text''"
  "dict_get (create_metadata_content m) ''type'' = JStr ''metadata''"
  "dict_get (create_escrow_content e) ''type'' = JStr ''escrow_data''"
  "dict_get (create_dispute_content r) ''type'' = JStr ''dispute_data''"
  by (simp_all add: messages_defs)

lemma content_wf:
  "wf_dict (create_text_content t)" "wf_dict (create_metadata_content m)"
  "wf_dict (create_escrow_content e)" "wf_dict (create_dispute_content r)"
  "wf_dict (create_status_update eid old new why now)"
  "wf_dict (create_agent_capabilities a cs as now)"
  "wf_dict (create_heartbeat_message_utils a st now now')"
  by (simp_all add: messages_defs wf_dict_def)

lemma dispute_content_payload:
  "dict_get (create_dispute_content r) ''dispute_data'' =
     JDict [(''dispute_id'', JStr (DisputeRecord.dispute_id r)),
            (''escrow_id'', JStr (DisputeRecord.escrow_id r)),
            (''disputing_party'', JStr (disputing_party r)),
            (''reason'', JStr (reason r)),
            (''status'', JStr (DisputeRecord.status r)),
            (''arbiter_address'', JStr (DisputeRecord.arbiter_address r)),
            (''created_at'', JInt (DisputeRecord.created_at r)),
            (''resolved_at'', opt_int (resolved_at r)),
            (''decision'', opt_str (decision r)),
            (''arbiter_reasoning'', opt_str (arbiter_reasoning r))]"
  by (simp add: create_dispute_content_def)

lemma create_error_message_utils_eq:
  "create_error_message_utils err det =
     [(''type'', JStr ''error''), (''error'', JStr err)] @
     (case det of None \<Rightarrow> [] | Some d \<Rightarrow> if truthy d then [(''details'', JStr d)] else [])"
  by (simp add: create_error_message_utils_def dict_set_def split: option.split)

lemma create_success_message_utils_eq:
  "create_success_message_utils msg payload =
     [(''type'', JStr ''success''), (''message'', JStr msg)] @
     (case payload of None \<Rightarrow> [] | Some d \<Rightarrow> if truthy d then [(''data'', JDict d)] else [])"
  by (simp add: create_success_message_utils_def dict_set_def split: option.split)

section \<open>Properties of the message helpers\<close>

text \<open>
  C31. Each extractor returns what the first item of its type holds, and its default
  when the content has no item of the type: the loop with an early return is a search
  for the first match.
\<close>

theorem extractors_first_match:
  "extract_escrow_data items =
     (case find (\<lambda>item. dict_get item ''type'' = JStr ''escrow_data'') items of
        None \<Rightarrow> JNone | Some item \<Rightarrow> dict_get item ''escrow_data'') \<and>
   extract_dispute_data items =
     (case find (\<lambda>item. dict_get item ''type'' = JStr ''dispute_data'') items of
        None \<Rightarrow> JNone | Some item \<Rightarrow> dict_get item ''dispute_data'') \<and>
   extract_metadata items =
     (case find (\<lambda>item. dict_get item ''type'' = JStr ''metadata'') items of
        None \<Rightarrow> JDict [] | Some item \<Rightarrow> dict_get_or item ''metadata'' (JDict []))"
  using extract_escrow_data_find [of items] extract_dispute_data_find [of items]
    extract_metadata_find [of items]
  by (simp add: first_of_type_def)

text \<open>
  Text round trip: the texts extracted from a content list built of text items are
  the texts the items were built from, in order, and items of other types between
  them are skipped.
\<close>

theorem extract_text_roundtrip:
  "extract_text_content (map create_text_content ts) = map JStr ts \<and>
   extract_text_content (create_metadata_content m # map create_text_content ts) = map JStr ts"
proof -
  have "extract_text_content (map create_text_content ts) = map JStr ts"
    by (induction ts) (simp_all add: create_text_content_def)
  then show ?thesis
    by (simp add: create_metadata_content_def)
qed

text \<open>
  C6. Escrow round trip: from a content list whose first escrow item was built from an
  escrow, the extractor returns a dictionary from which the identifier, the state (as
  its number) and the three party addresses of that escrow are read back; two escrows
  in different states give different dictionaries.
\<close>

theorem extract_escrow_roundtrip:
  "\<exists>p. extract_escrow_data (create_text_content t # create_escrow_content e # rest) = JDict p \<and>
       dict_get p ''escrow_id'' = JStr (EscrowData.escrow_id e) \<and>
       dict_get p ''status'' = JInt (EscrowState_value (EscrowData.status e)) \<and>
       dict_get p ''buyer_address'' = JStr (buyer_address e) \<and>
       dict_get p ''seller_address'' = JStr (seller_address e) \<and>
       dict_get p ''arbiter_address'' = JStr (EscrowData.arbiter_address e) \<and>
       map fst p = [''escrow_id'', ''contract_address'', ''status'', ''trade_type'',
                    ''buyer_address'', ''seller_address'', ''arbiter_address'',
                    ''created_at'', ''updated_at'']"
  by (simp add: create_text_content_def create_escrow_content_def)

text \<open>
  The error and success dictionaries carry their optional entry exactly when the
  argument is given and not empty: an empty details string or an empty data dictionary
  is dropped like a missing one.
\<close>

theorem optional_entries:
  "(dict_has (create_error_message_utils err det) ''details'' \<longleftrightarrow> (\<exists>s. det = Some s \<and> s \<noteq> [])) \<and>
   (dict_has (create_success_message_utils msg payload) ''data'' \<longleftrightarrow>
      (\<exists>d. payload = Some d \<and> d \<noteq> [])) \<and>
   dict_get (create_error_message_utils err det) ''error'' = JStr err \<and>
   dict_get (create_success_message_utils msg payload) ''message'' = JStr msg"
  by (cases det; cases payload)
    (simp_all add: create_error_message_utils_eq create_success_message_utils_eq)

section \<open>Parsing an agent message\<close>

text \<open>
  \<^verbatim>\<open>parse_agent_message\<close> builds an \<^verbatim>\<open>AgentMessage\<close> from the entries of a
  dictionary as they are: a dataclass does not check its annotations, so a field
  holds whatever value the dictionary has. \<open>AgentMessage_any\<close> is the message with
  fields of any value; \<open>typed_message\<close> gives the message of the data model when every
  field holds a value of its annotated type.
\<close>

record AgentMessage_any =
  any_timestamp :: json
  any_msg_id :: json
  any_content :: json
  any_sender :: json
  any_recipient :: json

definition parse_agent_message :: "pydict \<Rightarrow> AgentMessage_any option" where
  "parse_agent_message message =
     Some \<lparr>any_timestamp = dict_get_or message ''timestamp'' (JStr []),
           any_msg_id = dict_get_or message ''msg_id'' (JStr []),
           any_content = dict_get_or message ''content'' (JList []),
           any_sender = dict_get message ''sender'',
           any_recipient = dict_get message ''recipient''\<rparr>"

text \<open>The values of the annotated types: \<^verbatim>\<open>Optional[str]\<close> and \<^verbatim>\<open>List[Dict]\<close>.\<close>

fun str_option :: "json \<Rightarrow> string option option" where
  "str_option JNone = Some None"
| "str_option (JStr s) = Some (Some s)"
| "str_option _ = None"

fun dict_of :: "json \<Rightarrow> pydict option" where
  "dict_of (JDict d) = Some d"
| "dict_of _ = None"

fun dicts_of :: "json list \<Rightarrow> pydict list option" where
  "dicts_of [] = Some []"
| "dicts_of (v # vs) =
     (case (dict_of v, dicts_of vs) of (Some d, Some ds) \<Rightarrow> Some (d # ds) | _ \<Rightarrow> None)"

definition typed_message :: "AgentMessage_any \<Rightarrow> AgentMessage option" where
  "typed_message m =
     (case (any_timestamp m, any_msg_id m, any_content m) of
        (JStr ts, JStr mid, JList items) \<Rightarrow>
          (case (dicts_of items, str_option (any_sender m), str_option (any_recipient m)) of
             (Some cont, Some sndr, Some rcpt) \<Rightarrow>
               Some \<lparr>timestamp = ts, msg_id = mid, content = cont, sender = sndr,
                     recipient = rcpt\<rparr>
           | _ \<Rightarrow> None)
      | _ \<Rightarrow> None)"

text \<open>The dictionary of a message, entry by field (\<^verbatim>\<open>dataclasses.asdict\<close>).\<close>

definition message_dict :: "AgentMessage \<Rightarrow> pydict" where
  "message_dict m =
     [(''timestamp'', JStr (timestamp m)), (''msg_id'', JStr (msg_id m)),
      (''content'', JList (map JDict (content m))), (''sender'', opt_str (sender m)),
      (''recipient'', opt_str (recipient m))]"

lemma map_JDict_inj [simp]: "map JDict xs = map JDict ys \<longleftrightarrow> xs = ys"
  by (simp add: inj_map_eq_map inj_def)

lemma opt_str_inj [simp]: "opt_str a = opt_str b \<longleftrightarrow> a = b"
  by (cases a; cases b) simp_all

lemma dicts_of_map [simp]: "dicts_of (map JDict ds) = Some ds"
  by (induction ds) simp_all

lemma dicts_of_Some_iff: "dicts_of vs = Some ds \<longleftrightarrow> vs = map JDict ds"
proof (induction vs arbitrary: ds)
  case Nil
  show ?case by auto
next
  case (Cons v vs)
  show ?case
    by (cases v; cases "dicts_of vs"; cases ds) (auto simp: Cons.IH)
qed

lemma str_option_opt_str [simp]: "str_option (opt_str v) = Some v"
  by (cases v) simp_all

lemma str_option_Some_iff: "str_option v = Some w \<longleftrightarrow> v = opt_str w"
  by (cases v; cases w) auto

text \<open>
  C24. \<^verbatim>\<open>parse_agent_message\<close> returns a message for every dictionary, so its branch
  for a dictionary that cannot be parsed is never taken; a missing time stamp or
  identifier is the empty string, missing content the empty list and a missing sender
  or recipient \<^verbatim>\<open>None\<close>. The message is one of the data model exactly when the
  entries that are present have the annotated types; a dictionary whose content is a
  string parses to a message whose content is that string.
\<close>

theorem parse_agent_message_typed:
  "(\<exists>m. parse_agent_message message = Some m \<and>
        (typed_message m = Some t \<longleftrightarrow>
           dict_get_or message ''timestamp'' (JStr []) = JStr (timestamp t) \<and>
           dict_get_or message ''msg_id'' (JStr []) = JStr (msg_id t) \<and>
           dict_get_or message ''content'' (JList []) = JList (map JDict (content t)) \<and>
           dict_get message ''sender'' = opt_str (sender t) \<and>
           dict_get message ''recipient'' = opt_str (recipient t))) \<and>
   parse_agent_message [] =
     Some \<lparr>any_timestamp = JStr [], any_msg_id = JStr [], any_content = JList [],
           any_sender = JNone, any_recipient = JNone\<rparr> \<and>
   Option.bind (parse_agent_message [(''content'', JStr ''hello'')]) typed_message = None"
proof -
  have "typed_message m = Some t \<longleftrightarrow>
      any_timestamp m = JStr (timestamp t) \<and> any_msg_id m = JStr (msg_id t) \<and>
      any_content m = JList (map JDict (content t)) \<and> any_sender m = opt_str (sender t) \<and>
      any_recipient m = opt_str (recipient t)" for m
    by (cases t)
      (auto simp: typed_message_def dicts_of_Some_iff str_option_Some_iff
        split: json.splits option.splits)
  then show ?thesis
    by (simp add: parse_agent_message_def typed_message_def)
qed

text \<open>
  C25. Round trip: the dictionary of a message parses back to that message, for every
  message of the data model.
\<close>

theorem parse_agent_message_roundtrip:
  "Option.bind (parse_agent_message (message_dict m)) typed_message = Some m"
  by (simp add: parse_agent_message_def message_dict_def typed_message_def)

section \<open>The activity log\<close>

text \<open>
  \<^verbatim>\<open>log_agent_activity\<close> prints one line; the model returns it. The time stamp
  \<open>ts\<close> and the serialiser \<^verbatim>\<open>json.dumps\<close> are arguments. Details that are missing
  or empty are logged as the empty dictionary.
\<close>

definition log_agent_activity ::
  "(json \<Rightarrow> string) \<Rightarrow> string \<Rightarrow> string \<Rightarrow> string \<Rightarrow> pydict option \<Rightarrow> string" where
  "log_agent_activity json_dumps ts agent_type action details =
     (let log_data =
            [(''timestamp'', JStr ts), (''agent_type'', JStr agent_type),
             (''action'', JStr action),
             (''details'', JDict (case details of None \<Rightarrow> [] | Some d \<Rightarrow> if d \<noteq> [] then d else []))]
      in ''AGENT_ACTIVITY: '' @ json_dumps (JDict log_data))"

lemma log_agent_activity_details:
  "log_agent_activity json_dumps ts agent_type action None
     = log_agent_activity json_dumps ts agent_type action (Some [])"
  by (simp add: log_agent_activity_def)

end
