(* ===== verification/Chat_Agent.thy ===== *)
theory Chat_Agent
  imports Py_Values
begin

text \<open>
  What the agents have in common: the chat handler \<^verbatim>\<open>on_chat\<close> that each of
  \<^verbatim>\<open>agents/buyer_agent.py\<close>, \<^verbatim>\<open>seller_agent.py\<close>, \<^verbatim>\<open>arbiter_agent.py\<close>,
  \<^verbatim>\<open>oracle_agent.py\<close> and \<^verbatim>\<open>agent.py\<close> registers. The content items of a chat
  message are those of the chat protocol of the agent framework; the handler tells
  them apart with \<^verbatim>\<open>isinstance\<close>. What a handler does is a sequence of
  \<^verbatim>\<open>ctx.send\<close> calls to the sender of the message, and the model of a handler
  returns that sequence; \<open>Text t\<close> stands for \<^verbatim>\<open>_text(t)\<close> and \<open>Metadata d\<close> for
  \<^verbatim>\<open>_metadata(d)\<close>. The time stamps and identifiers that the outgoing messages draw
  are left out, and so are the lines written to the log.

  The texts that the agents send are constants of the sources. They hold characters
  beyond Latin-1 (bullets and pictographs), so they are given in UTF-8: a character
  of ASCII is itself, any other character is the bytes of its encoding.
\<close>

section \<open>Messages of the chat protocol\<close>

datatype chat_content =
    StartSessionContent
  | TextContent string
  | EndSessionContent
  | MetadataContent pydict
  | ResourceContent

datatype chat_message = ChatMessage (chat_msg_id: string) (chat_content: "chat_content list")

text \<open>What \<^verbatim>\<open>ctx.send\<close> is given: an acknowledgement, metadata, or a text.\<close>

datatype 'r sent = ChatAcknowledgement string | Metadata pydict | Text 'r

fun is_ack :: "'r sent \<Rightarrow> bool" where
  "is_ack (ChatAcknowledgement m) = True"
| "is_ack _ = False"

section \<open>The handler that the agents share\<close>

text \<open>
  The body of the loop over the content of a message: a session start is answered
  with the capabilities and the greeting, a text with what the request router of the
  agent sends, a session end with the farewell, and every other item with nothing.
\<close>

fun on_content :: "pydict \<Rightarrow> 'r \<Rightarrow> 'r \<Rightarrow> (string \<Rightarrow> 'r sent list) \<Rightarrow> chat_content \<Rightarrow> 'r sent list" where
  "on_content caps ready bye router StartSessionContent = [Metadata caps, Text ready]"
| "on_content caps ready bye router (TextContent text) = router text"
| "on_content caps ready bye router EndSessionContent = [Text bye]"
| "on_content caps ready bye router _ = []"

definition chat_agent ::
  "pydict \<Rightarrow> 'r \<Rightarrow> 'r \<Rightarrow> (string \<Rightarrow> 'r sent list) \<Rightarrow> chat_message \<Rightarrow> 'r sent list" where
  "chat_agent caps ready bye router msg =
     ChatAcknowledgement (chat_msg_id msg)
       # concat (map (on_content caps ready bye router) (chat_content msg))"

text \<open>A router answers with texts only: it acknowledges nothing.\<close>

definition texts_only :: "(string \<Rightarrow> 'r sent list) \<Rightarrow> bool" where
  "texts_only router \<longleftrightarrow> (\<forall>req. list_all (\<lambda>s. \<not> is_ack s) (router req))"

text \<open>A router that answers every request with exactly one text.\<close>

definition single_text :: "(string \<Rightarrow> 'r sent list) \<Rightarrow> bool" where
  "single_text router \<longleftrightarrow> (\<forall>req. \<exists>t. router req = [Text t])"

section \<open>Properties of the shared handler\<close>

lemma on_content_no_ack:
  "texts_only router \<Longrightarrow> filter is_ack (on_content caps ready bye router c) = []"
  by (cases c) (auto simp: texts_only_def list_all_iff filter_empty_conv)

lemma chat_agent_hd: "hd (chat_agent caps ready bye router msg) = ChatAcknowledgement (chat_msg_id msg)"
  by (simp add: chat_agent_def)

lemma chat_agent_one_ack:
  assumes "texts_only router"
  shows "filter is_ack (chat_agent caps ready bye router msg)
    = [ChatAcknowledgement (chat_msg_id msg)]"
proof -
  have "filter is_ack (concat (map (on_content caps ready bye router) cs)) = []" for cs
    by (induction cs) (simp_all add: on_content_no_ack [OF assms])
  then show ?thesis
    by (simp add: chat_agent_def)
qed

lemma chat_agent_empty:
  "chat_agent caps ready bye router (ChatMessage m []) = [ChatAcknowledgement m]"
  by (simp add: chat_agent_def)

lemma chat_agent_append:
  "chat_agent caps ready bye router (ChatMessage m (cs @ ds)) =
     chat_agent caps ready bye router (ChatMessage m cs)
       @ tl (chat_agent caps ready bye router (ChatMessage m ds))"
  by (simp add: chat_agent_def)

lemma chat_agent_Cons:
  "chat_agent caps ready bye router (ChatMessage m (c # cs)) =
     ChatAcknowledgement m # on_content caps ready bye router c
       @ tl (chat_agent caps ready bye router (ChatMessage m cs))"
  by (simp add: chat_agent_def)

text \<open>The number of messages sent, for a router that sends one text per request.\<close>

fun replies :: "chat_content \<Rightarrow> nat" where
  "replies StartSessionContent = 2"
| "replies (TextContent text) = 1"
| "replies EndSessionContent = 1"
| "replies _ = 0"

lemma single_text_texts_only: "single_text router \<Longrightarrow> texts_only router"
  unfolding single_text_def texts_only_def
proof
  fix req
  assume "\<forall>req. \<exists>t. router req = [Text t]"
  then obtain t where "router req = [Text t]" by blast
  then show "list_all (\<lambda>s. \<not> is_ack s) (router req)" by simp
qed

lemma single_text_length: "single_text router \<Longrightarrow> length (router req) = 1"
  unfolding single_text_def
proof -
  assume "\<forall>req. \<exists>t. router req = [Text t]"
  then obtain t where "router req = [Text t]" by blast
  then show ?thesis by simp
qed

lemma chat_agent_length:
  assumes "\<And>req. length (router req) = 1"
  shows "length (chat_agent caps ready bye router msg)
    = 1 + sum_list (map replies (chat_content msg))"
proof -
  have "length (on_content caps ready bye router c) = replies c" for c
    by (cases c) (simp_all add: assms)
  then show ?thesis
    by (simp add: chat_agent_def length_concat comp_def)
qed

text \<open>
  What the chat protocol asks of a handler, for an agent whose router sends one text
  per request: the acknowledgement of the message is sent first, it is the only
  acknowledgement, and the number of messages sent is one more than the replies that
  the content items call for.
\<close>

lemma chat_agent_protocol:
  assumes "single_text router"
  shows "hd (chat_agent caps ready bye router msg) = ChatAcknowledgement (chat_msg_id msg)"
    and "filter is_ack (chat_agent caps ready bye router msg)
      = [ChatAcknowledgement (chat_msg_id msg)]"
    and "length (chat_agent caps ready bye router msg)
      = 1 + sum_list (map replies (chat_content msg))"
proof -
  note texts = single_text_texts_only [OF assms]
  show "hd (chat_agent caps ready bye router msg) = ChatAcknowledgement (chat_msg_id msg)"
    by (rule chat_agent_hd)
  show "filter is_ack (chat_agent caps ready bye router msg)
      = [ChatAcknowledgement (chat_msg_id msg)]"
    by (rule chat_agent_one_ack [OF texts])
  show "length (chat_agent caps ready bye router msg)
      = 1 + sum_list (map replies (chat_content msg))"
    by (rule chat_agent_length) (rule single_text_length [OF assms])
qed

section \<open>Keywords that contain other keywords\<close>

lemma dispute_keyword: "py_in ''raise dispute'' s \<Longrightarrow> py_in ''dispute'' s"
  by (rule py_in_trans [of _ "''raise dispute''"])
    (simp_all add: py_in_append [of _ "''raise ''" "[]", simplified])

lemma delivery_keyword: "py_in ''delivery'' s \<Longrightarrow> py_in ''deliver'' s"
  by (rule py_in_trans [of _ "''delivery''"])
    (simp_all add: py_in_append [of _ "[]" "''y''", simplified])

lemma dispute_keyword_or:
  "py_in ''dispute'' s \<or> py_in ''raise dispute'' s \<longleftrightarrow> py_in ''dispute'' s"
  by (auto dest: dispute_keyword)

lemma delivery_keyword_not: "\<not> py_in ''deliver'' s \<Longrightarrow> \<not> py_in ''delivery'' s"
  by (auto dest: delivery_keyword)

end
