(* ===== verification/Buyer_Agent.thy ===== *)
theory Buyer_Agent
  imports Chat_Agent
begin

text \<open>
  The buyer agent, \<^verbatim>\<open>agents/buyer_agent.py\<close>: the capabilities it advertises, the texts
  it sends, its request router \<^verbatim>\<open>handle_buyer_request\<close> with the handlers it
  chooses from, and its chat handler \<^verbatim>\<open>on_chat\<close> (here \<open>on_chat_buyer\<close>). Each
  handler sends one fixed text.
\<close>

section \<open>Capabilities and texts\<close>

definition buyer_capabilities :: pydict where
  "buyer_capabilities =
     [(''capabilities'', JStr ''buyer-operations''),
      (''description'', JStr ''Handles buyer-side escrow operations''),
      (''version'', JStr ''1.0.0''),
      (''supported_actions'',
         JList [JStr ''create_escrow'', JStr ''deposit_assets'', JStr ''confirm_fulfillment'',
                JStr ''raise_dispute'', JStr ''refund_request''])]"

definition buyer_ready :: string where
  "buyer_ready =
     [CHR 0xEF, CHR 0xA3, CHR 0xBF, CHR 0xC3, CHR 0xBC, CHR 0xC3, CHR 0xA8, CHR 0xC2, CHR 0xB6] @
     '' Buyer Agent Ready! I can help you with:\<newline>\<newline>'' @
     [CHR 0xE2, CHR 0x80, CHR 0x9A, CHR 0xC3, CHR 0x84, CHR 0xC2, CHR 0xA2] @
     '' Creating new escrow transactions\<newline>'' @
     [CHR 0xE2, CHR 0x80, CHR 0x9A, CHR 0xC3, CHR 0x84, CHR 0xC2, CHR 0xA2] @
     '' Depositing assets into escrow\<newline>'' @
     [CHR 0xE2, CHR 0x80, CHR 0x9A, CHR 0xC3, CHR 0x84, CHR 0xC2, CHR 0xA2] @
     '' Confirming fulfillment\<newline>'' @
     [CHR 0xE2, CHR 0x80, CHR 0x9A, CHR 0xC3, CHR 0x84, CHR 0xC2, CHR 0xA2] @
     '' Raising disputes\<newline>'' @
     [CHR 0xE2, CHR 0x80, CHR 0x9A, CHR 0xC3, CHR 0x84, CHR 0xC2, CHR 0xA2] @
     '' Requesting refunds\<newline>\<newline>'' @
     ''What would you like to do?''"

definition buyer_goodbye :: string where
  "buyer_goodbye =
     ''Thank you for using the Buyer Agent! Your escrow operations are complete.''"

definition buyer_unknown :: string where
  "buyer_unknown =
     ''I'm not sure what you're asking for. Type 'help' to see available commands.''"

section \<open>Handlers\<close>

definition handle_create_escrow :: "string sent list" where
  "handle_create_escrow = [Text (
       ''To create a new escrow, I need the following information:\<newline>\<newline>'' @
       ''1. Seller address\<newline>'' @
       ''2. Arbiter address\<newline>'' @
       ''3. Asset type and amount\<newline>'' @
       ''4. Counter asset details\<newline>'' @
       ''5. Deadline (in days)\<newline>'' @
       ''6. Description\<newline>\<newline>'' @
       ''Please provide these details in the format:\<newline>'' @
       ''CREATE_ESCROW: {seller_address}, {arbiter_address}, {asset_amount}, {counter_asset}, '' @
       ''{deadline_days}, {description}'')]"

definition handle_deposit_assets :: "string sent list" where
  "handle_deposit_assets = [Text (
       ''To deposit assets into escrow, I need:\<newline>\<newline>'' @
       ''1. Escrow contract address\<newline>'' @
       ''2. Asset amount\<newline>'' @
       ''3. Transaction confirmation\<newline>\<newline>'' @
       ''Please provide the escrow address and amount:\<newline>'' @
       ''DEPOSIT: {escrow_address}, {amount}'')]"

definition handle_confirm_fulfillment :: "string sent list" where
  "handle_confirm_fulfillment = [Text (
       ''To confirm fulfillment, I need:\<newline>\<newline>'' @
       ''1. Escrow contract address\<newline>'' @
       ''2. Confirmation that seller has fulfilled their obligations\<newline>\<newline>'' @
       ''Please provide the escrow address:\<newline>'' @
       ''CONFIRM: {escrow_address}'')]"

definition handle_raise_dispute_buyer :: "string sent list" where
  "handle_raise_dispute_buyer = [Text (
       ''To raise a dispute, I need:\<newline>\<newline>'' @
       ''1. Escrow contract address\<newline>'' @
       ''2. Reason for dispute\<newline>'' @
       ''3. Evidence (if any)\<newline>\<newline>'' @
       ''Please provide the details:\<newline>'' @
       ''DISPUTE: {escrow_address}, {reason}'')]"

definition handle_refund_request :: "string sent list" where
  "handle_refund_request = [Text (
       ''To request a refund, I need:\<newline>\<newline>'' @
       ''1. Escrow contract address\<newline>'' @
       ''2. Reason for refund\<newline>\<newline>'' @
       ''Please provide the details:\<newline>'' @
       ''REFUND: {escrow_address}, {reason}'')]"

definition handle_help_buyer :: "string sent list" where
  "handle_help_buyer = [Text (
       ''Available commands:\<newline>\<newline>'' @
       [CHR 0xE2, CHR 0x80, CHR 0x9A, CHR 0xC3, CHR 0x84, CHR 0xC2, CHR 0xA2] @
       '' CREATE_ESCROW - Create a new escrow transaction\<newline>'' @
       [CHR 0xE2, CHR 0x80, CHR 0x9A, CHR 0xC3, CHR 0x84, CHR 0xC2, CHR 0xA2] @
       '' DEPOSIT - Deposit assets into escrow\<newline>'' @
       [CHR 0xE2, CHR 0x80, CHR 0x9A, CHR 0xC3, CHR 0x84, CHR 0xC2, CHR 0xA2] @
       '' CONFIRM - Confirm seller fulfillment\<newline>'' @
       [CHR 0xE2, CHR 0x80, CHR 0x9A, CHR 0xC3, CHR 0x84, CHR 0xC2, CHR 0xA2] @
       '' DISPUTE - Raise a dispute\<newline>'' @
       [CHR 0xE2, CHR 0x80, CHR 0x9A, CHR 0xC3, CHR 0x84, CHR 0xC2, CHR 0xA2] @
       '' REFUND - Request a refund\<newline>'' @
       [CHR 0xE2, CHR 0x80, CHR 0x9A, CHR 0xC3, CHR 0x84, CHR 0xC2, CHR 0xA2] @
       '' HELP - Show this help message\<newline>\<newline>'' @
       ''Use these commands with the required parameters.'')]"

lemmas buyer_handler_defs =
  handle_create_escrow_def
  handle_deposit_assets_def
  handle_confirm_fulfillment_def
  handle_raise_dispute_buyer_def
  handle_refund_request_def
  handle_help_buyer_def

lemmas buyer_text_defs = buyer_ready_def buyer_goodbye_def buyer_unknown_def

text \<open>
  No two of the texts of the agent are the same, so a reply tells which handler sent it.
\<close>

lemma buyer_replies_distinct:
  "distinct
     [handle_create_escrow,
      handle_deposit_assets,
      handle_confirm_fulfillment,
      handle_raise_dispute_buyer,
      handle_refund_request,
      handle_help_buyer,
      [Text buyer_unknown],
      [Text buyer_ready],
      [Text buyer_goodbye]]"
  by (simp add: buyer_handler_defs buyer_text_defs)

lemma buyer_replies_neq:
  "handle_create_escrow \<noteq> handle_deposit_assets"
  "handle_create_escrow \<noteq> handle_confirm_fulfillment"
  "handle_create_escrow \<noteq> handle_raise_dispute_buyer"
  "handle_create_escrow \<noteq> handle_refund_request"
  "handle_create_escrow \<noteq> handle_help_buyer"
  "handle_create_escrow \<noteq> [Text buyer_unknown]"
  "handle_create_escrow \<noteq> [Text buyer_ready]"
  "handle_create_escrow \<noteq> [Text buyer_goodbye]"
  "handle_deposit_assets \<noteq> handle_confirm_fulfillment"
  "handle_deposit_assets \<noteq> handle_raise_dispute_buyer"
  "handle_deposit_assets \<noteq> handle_refund_request"
  "handle_deposit_assets \<noteq> handle_help_buyer"
  "handle_deposit_assets \<noteq> [Text buyer_unknown]"
  "handle_deposit_assets \<noteq> [Text buyer_ready]"
  "handle_deposit_assets \<noteq> [Text buyer_goodbye]"
  "handle_confirm_fulfillment \<noteq> handle_raise_dispute_buyer"
  "handle_confirm_fulfillment \<noteq> handle_refund_request"
  "handle_confirm_fulfillment \<noteq> handle_help_buyer"
  "handle_confirm_fulfillment \<noteq> [Text buyer_unknown]"
  "handle_confirm_fulfillment \<noteq> [Text buyer_ready]"
  "handle_confirm_fulfillment \<noteq> [Text buyer_goodbye]"
  "handle_raise_dispute_buyer \<noteq> handle_refund_request"
  "handle_raise_dispute_buyer \<noteq> handle_help_buyer"
  "handle_raise_dispute_buyer \<noteq> [Text buyer_unknown]"
  "handle_raise_dispute_buyer \<noteq> [Text buyer_ready]"
  "handle_raise_dispute_buyer \<noteq> [Text buyer_goodbye]"
  "handle_refund_request \<noteq> handle_help_buyer"
  "handle_refund_request \<noteq> [Text buyer_unknown]"
  "handle_refund_request \<noteq> [Text buyer_ready]"
  "handle_refund_request \<noteq> [Text buyer_goodbye]"
  "handle_help_buyer \<noteq> [Text buyer_unknown]"
  "handle_help_buyer \<noteq> [Text buyer_ready]"
  "handle_help_buyer \<noteq> [Text buyer_goodbye]"
  "[Text buyer_unknown] \<noteq> [Text buyer_ready]"
  "[Text buyer_unknown] \<noteq> [Text buyer_goodbye]"
  "[Text buyer_ready] \<noteq> [Text buyer_goodbye]"
  using buyer_replies_distinct by simp_all

lemmas buyer_neq = buyer_replies_neq buyer_replies_neq [symmetric]

section \<open>The request router and the chat handler\<close>

definition handle_buyer_request :: "string \<Rightarrow> string sent list" where
  "handle_buyer_request request =
     (let request_lower = py_lower request
      in if py_in ''create escrow'' request_lower \<or> py_in ''new escrow'' request_lower
         then handle_create_escrow
         else if py_in ''deposit'' request_lower then handle_deposit_assets
         else if py_in ''confirm'' request_lower \<and> py_in ''fulfillment'' request_lower
         then handle_confirm_fulfillment
         else if py_in ''dispute'' request_lower \<or> py_in ''raise dispute'' request_lower
         then handle_raise_dispute_buyer
         else if py_in ''refund'' request_lower then handle_refund_request
         else if py_in ''help'' request_lower then handle_help_buyer
         else [Text buyer_unknown])"

definition on_chat_buyer :: "chat_message \<Rightarrow> string sent list" where
  "on_chat_buyer msg =
     ChatAcknowledgement (chat_msg_id msg)
       # concat (map (\<lambda>content. case content of
                         StartSessionContent \<Rightarrow> [Metadata buyer_capabilities, Text buyer_ready]
                       | TextContent request \<Rightarrow> handle_buyer_request request
                       | EndSessionContent \<Rightarrow> [Text buyer_goodbye]
                       | _ \<Rightarrow> [])
                 (chat_content msg))"

section \<open>The agent as an instance of the shared handler\<close>

lemma on_chat_buyer_agent:
  "on_chat_buyer = chat_agent buyer_capabilities buyer_ready buyer_goodbye handle_buyer_request"
proof -
  have "(\<lambda>content. case content of
           StartSessionContent \<Rightarrow> [Metadata buyer_capabilities, Text buyer_ready]
         | TextContent request \<Rightarrow> handle_buyer_request request
         | EndSessionContent \<Rightarrow> [Text buyer_goodbye]
         | _ \<Rightarrow> [])
      = on_content buyer_capabilities buyer_ready buyer_goodbye handle_buyer_request"
    by (rule ext) (simp split: chat_content.split)
  then show ?thesis
    by (simp add: on_chat_buyer_def chat_agent_def fun_eq_iff)
qed

lemma handle_buyer_request_one: "\<exists>t. handle_buyer_request r = [Text t]"
  by (simp add: handle_buyer_request_def Let_def buyer_handler_defs)

lemma handle_buyer_request_single: "single_text handle_buyer_request"
  unfolding single_text_def using handle_buyer_request_one by blast

lemma handle_buyer_request_lower:
  "handle_buyer_request (py_lower r) = handle_buyer_request r"
  by (simp add: handle_buyer_request_def)

lemmas on_chat_buyer_protocol =
  chat_agent_protocol [OF handle_buyer_request_single, of buyer_capabilities buyer_ready
    buyer_goodbye, folded on_chat_buyer_agent]

section \<open>Properties of the router\<close>

text \<open>
  C23. The router of the buyer by cases. The keywords are tried in a fixed order on the
  request in lower case, so a request that names the deposit is answered with the
  deposit instructions whatever else it asks for, unless it asks to create an escrow;
  the second test of the dispute branch, for \<^verbatim>\<open>raise dispute\<close>, never decides,
  because such a request contains \<^verbatim>\<open>dispute\<close>; and a request with none of the
  keywords is answered with the text for unknown requests.
\<close>

theorem handle_buyer_request_cases:
  defines "has \<equiv> \<lambda>k r. py_in k (py_lower r)"
  shows
  "(handle_buyer_request r = handle_create_escrow \<longleftrightarrow>
      has ''create escrow'' r \<or> has ''new escrow'' r) \<and>
   (handle_buyer_request r = handle_deposit_assets \<longleftrightarrow>
      \<not> has ''create escrow'' r \<and> \<not> has ''new escrow'' r \<and> has ''deposit'' r) \<and>
   (handle_buyer_request r = handle_confirm_fulfillment \<longleftrightarrow>
      \<not> has ''create escrow'' r \<and> \<not> has ''new escrow'' r \<and> \<not> has ''deposit'' r \<and>
      has ''confirm'' r \<and> has ''fulfillment'' r) \<and>
   (handle_buyer_request r = handle_raise_dispute_buyer \<longleftrightarrow>
      \<not> has ''create escrow'' r \<and> \<not> has ''new escrow'' r \<and> \<not> has ''deposit'' r \<and>
      \<not> (has ''confirm'' r \<and> has ''fulfillment'' r) \<and> has ''dispute'' r) \<and>
   (handle_buyer_request r = handle_refund_request \<longleftrightarrow>
      \<not> has ''create escrow'' r \<and> \<not> has ''new escrow'' r \<and> \<not> has ''deposit'' r \<and>
      \<not> (has ''confirm'' r \<and> has ''fulfillment'' r) \<and> \<not> has ''dispute'' r \<and>
      has ''refund'' r) \<and>
   (handle_buyer_request r = [Text buyer_unknown] \<longleftrightarrow>
      \<not> has ''create escrow'' r \<and> \<not> has ''new escrow'' r \<and> \<not> has ''deposit'' r \<and>
      \<not> (has ''confirm'' r \<and> has ''fulfillment'' r) \<and> \<not> has ''dispute'' r \<and>
      \<not> has ''refund'' r \<and> \<not> has ''help'' r)"
  unfolding has_def
  by (intro conjI; simp add: handle_buyer_request_def Let_def buyer_neq
      dispute_keyword_or)

text \<open>A request for a refund of a deposit is answered with the deposit instructions.\<close>

lemma buyer_examples:
  "handle_buyer_request ''I want a REFUND of my deposit'' = handle_deposit_assets"
  "handle_buyer_request ''Help'' = handle_help_buyer"
  "handle_buyer_request ''hello'' = [Text buyer_unknown]"
  by (simp_all add: handle_buyer_request_def Let_def lower_char_eval buyer_neq)

end
