(* ===== verification/Seller_Agent.thy ===== *)
theory Seller_Agent
  imports Chat_Agent
begin

text \<open>
  The seller agent, \<^verbatim>\<open>agents/seller_agent.py\<close>: the capabilities it advertises, the texts
  it sends, its request router \<^verbatim>\<open>handle_seller_request\<close> with the handlers it
  chooses from, and its chat handler \<^verbatim>\<open>on_chat\<close> (here \<open>on_chat_seller\<close>). Each
  handler sends one fixed text.
\<close>

section \<open>Capabilities and texts\<close>

definition seller_capabilities :: pydict where
  "seller_capabilities =
     [(''capabilities'', JStr ''seller-operations''),
      (''description'', JStr ''Handles seller-side escrow operations''),
      (''version'', JStr ''1.0.0''),
      (''supported_actions'',
         JList [JStr ''fulfill_obligation'', JStr ''confirm_delivery'', JStr ''raise_dispute'',
                JStr ''check_status'', JStr ''provide_evidence''])]"

definition seller_ready :: string where
  "seller_ready =
     [CHR 0xF0, CHR 0x9F, CHR 0x9B, CHR 0x8D, CHR 0xEF, CHR 0xB8, CHR 0x8F] @
     '' Seller Agent Ready! I can help you with:\<newline>\<newline>'' @
     [CHR 0xE2, CHR 0x80, CHR 0xA2] @ '' Fulfilling your obligations\<newline>'' @
     [CHR 0xE2, CHR 0x80, CHR 0xA2] @ '' Confirming delivery\<newline>'' @
     [CHR 0xE2, CHR 0x80, CHR 0xA2] @ '' Raising disputes\<newline>'' @
     [CHR 0xE2, CHR 0x80, CHR 0xA2] @ '' Checking transaction status\<newline>'' @
     [CHR 0xE2, CHR 0x80, CHR 0xA2] @ '' Providing evidence\<newline>\<newline>'' @
     ''What would you like to do?''"

definition seller_goodbye :: string where
  "seller_goodbye =
     ''Thank you for using the Seller Agent! Your fulfillment operations are complete.''"

definition seller_unknown :: string where
  "seller_unknown =
     ''I'm not sure what you're asking for. Type 'help' to see available commands.''"

section \<open>Handlers\<close>

definition handle_fulfill_obligation :: "string sent list" where
  "handle_fulfill_obligation = [Text (
       ''To fulfill your obligation, I need:\<newline>\<newline>'' @
       ''1. Escrow contract address\<newline>'' @
       ''2. Fulfillment type (crypto_transfer, fiat_payment, cross_chain_swap)\<newline>'' @
       ''3. Transaction hash or proof\<newline>'' @
       ''4. Additional details\<newline>\<newline>'' @
       ''Please provide the details:\<newline>'' @
       ''FULFILL: {escrow_address}, {fulfillment_type}, {transaction_hash}, {details}'')]"

definition handle_confirm_delivery :: "string sent list" where
  "handle_confirm_delivery = [Text (
       ''To confirm delivery, I need:\<newline>\<newline>'' @
       ''1. Escrow contract address\<newline>'' @
       ''2. Delivery confirmation\<newline>'' @
       ''3. Any additional proof\<newline>\<newline>'' @
       ''Please provide the details:\<newline>'' @
       ''CONFIRM_DELIVERY: {escrow_address}, {confirmation}, {proof}'')]"

definition handle_raise_dispute_seller :: "string sent list" where
  "handle_raise_dispute_seller = [Text (
       ''To raise a dispute, I need:\<newline>\<newline>'' @
       ''1. Escrow contract address\<newline>'' @
       ''2. Reason for dispute\<newline>'' @
       ''3. Evidence (if any)\<newline>\<newline>'' @
       ''Please provide the details:\<newline>'' @
       ''DISPUTE: {escrow_address}, {reason}'')]"

definition handle_check_status_seller :: "string sent list" where
  "handle_check_status_seller = [Text (
       ''To check transaction status, I need:\<newline>\<newline>'' @
       ''1. Escrow contract address\<newline>\<newline>'' @
       ''Please provide the address:\<newline>'' @
       ''STATUS: {escrow_address}'')]"

definition handle_provide_evidence :: "string sent list" where
  "handle_provide_evidence = [Text (
       ''To provide evidence, I need:\<newline>\<newline>'' @
       ''1. Escrow contract address\<newline>'' @
       ''2. Evidence type\<newline>'' @
       ''3. Evidence data\<newline>\<newline>'' @
       ''Please provide the details:\<newline>'' @
       ''EVIDENCE: {escrow_address}, {evidence_type}, {evidence_data}'')]"

definition handle_help_seller :: "string sent list" where
  "handle_help_seller = [Text (
       ''Available commands:\<newline>\<newline>'' @ [CHR 0xE2, CHR 0x80, CHR 0xA2] @
       '' FULFILL - Fulfill your obligations\<newline>'' @ [CHR 0xE2, CHR 0x80, CHR 0xA2] @
       '' CONFIRM_DELIVERY - Confirm delivery\<newline>'' @
       [CHR 0xE2, CHR 0x80, CHR 0xA2] @ '' DISPUTE - Raise a dispute\<newline>'' @
       [CHR 0xE2, CHR 0x80, CHR 0xA2] @ '' STATUS - Check transaction status\<newline>'' @
       [CHR 0xE2, CHR 0x80, CHR 0xA2] @ '' EVIDENCE - Provide evidence\<newline>'' @
       [CHR 0xE2, CHR 0x80, CHR 0xA2] @
       '' HELP - Show this help message\<newline>\<newline>'' @
       ''Use these commands with the required parameters.'')]"

lemmas seller_handler_defs =
  handle_fulfill_obligation_def
  handle_confirm_delivery_def
  handle_raise_dispute_seller_def
  handle_check_status_seller_def
  handle_provide_evidence_def
  handle_help_seller_def

lemmas seller_text_defs = seller_ready_def seller_goodbye_def seller_unknown_def

text \<open>
  No two of the texts of the agent are the same, so a reply tells which handler sent it.
\<close>

lemma seller_replies_distinct:
  "distinct
     [handle_fulfill_obligation,
      handle_confirm_delivery,
      handle_raise_dispute_seller,
      handle_check_status_seller,
      handle_provide_evidence,
      handle_help_seller,
      [Text seller_unknown],
      [Text seller_ready],
      [Text seller_goodbye]]"
  by (simp add: seller_handler_defs seller_text_defs)

lemma seller_replies_neq:
  "handle_fulfill_obligation \<noteq> handle_confirm_delivery"
  "handle_fulfill_obligation \<noteq> handle_raise_dispute_seller"
  "handle_fulfill_obligation \<noteq> handle_check_status_seller"
  "handle_fulfill_obligation \<noteq> handle_provide_evidence"
  "handle_fulfill_obligation \<noteq> handle_help_seller"
  "handle_fulfill_obligation \<noteq> [Text seller_unknown]"
  "handle_fulfill_obligation \<noteq> [Text seller_ready]"
  "handle_fulfill_obligation \<noteq> [Text seller_goodbye]"
  "handle_confirm_delivery \<noteq> handle_raise_dispute_seller"
  "handle_confirm_delivery \<noteq> handle_check_status_seller"
  "handle_confirm_delivery \<noteq> handle_provide_evidence"
  "handle_confirm_delivery \<noteq> handle_help_seller"
  "handle_confirm_delivery \<noteq> [Text seller_unknown]"
  "handle_confirm_delivery \<noteq> [Text seller_ready]"
  "handle_confirm_delivery \<noteq> [Text seller_goodbye]"
  "handle_raise_dispute_seller \<noteq> handle_check_status_seller"
  "handle_raise_dispute_seller \<noteq> handle_provide_evidence"
  "handle_raise_dispute_seller \<noteq> handle_help_seller"
  "handle_raise_dispute_seller \<noteq> [Text seller_unknown]"
  "handle_raise_dispute_seller \<noteq> [Text seller_ready]"
  "handle_raise_dispute_seller \<noteq> [Text seller_goodbye]"
  "handle_check_status_seller \<noteq> handle_provide_evidence"
  "handle_check_status_seller \<noteq> handle_help_seller"
  "handle_check_status_seller \<noteq> [Text seller_unknown]"
  "handle_check_status_seller \<noteq> [Text seller_ready]"
  "handle_check_status_seller \<noteq> [Text seller_goodbye]"
  "handle_provide_evidence \<noteq> handle_help_seller"
  "handle_provide_evidence \<noteq> [Text seller_unknown]"
  "handle_provide_evidence \<noteq> [Text seller_ready]"
  "handle_provide_evidence \<noteq> [Text seller_goodbye]"
  "handle_help_seller \<noteq> [Text seller_unknown]"
  "handle_help_seller \<noteq> [Text seller_ready]"
  "handle_help_seller \<noteq> [Text seller_goodbye]"
  "[Text seller_unknown] \<noteq> [Text seller_ready]"
  "[Text seller_unknown] \<noteq> [Text seller_goodbye]"
  "[Text seller_ready] \<noteq> [Text seller_goodbye]"
  using seller_replies_distinct by simp_all

lemmas seller_neq = seller_replies_neq seller_replies_neq [symmetric]

section \<open>The request router and the chat handler\<close>

definition handle_seller_request :: "string \<Rightarrow> string sent list" where
  "handle_seller_request request =
     (let request_lower = py_lower request
      in if py_in ''fulfill'' request_lower \<or> py_in ''deliver'' request_lower
         then handle_fulfill_obligation
         else if py_in ''confirm'' request_lower \<and> py_in ''delivery'' request_lower
         then handle_confirm_delivery
         else if py_in ''dispute'' request_lower \<or> py_in ''raise dispute'' request_lower
         then handle_raise_dispute_seller
         else if py_in ''status'' request_lower \<or> py_in ''check'' request_lower
         then handle_check_status_seller
         else if py_in ''evidence'' request_lower \<or> py_in ''proof'' request_lower
         then handle_provide_evidence
         else if py_in ''help'' request_lower then handle_help_seller
         else [Text seller_unknown])"

definition on_chat_seller :: "chat_message \<Rightarrow> string sent list" where
  "on_chat_seller msg =
     ChatAcknowledgement (chat_msg_id msg)
       # concat (map (\<lambda>content. case content of
                         StartSessionContent \<Rightarrow> [Metadata seller_capabilities, Text seller_ready]
                       | TextContent request \<Rightarrow> handle_seller_request request
                       | EndSessionContent \<Rightarrow> [Text seller_goodbye]
                       | _ \<Rightarrow> [])
                 (chat_content msg))"

section \<open>The agent as an instance of the shared handler\<close>

lemma on_chat_seller_agent:
  "on_chat_seller = chat_agent seller_capabilities seller_ready seller_goodbye handle_seller_request"
proof -
  have "(\<lambda>content. case content of
           StartSessionContent \<Rightarrow> [Metadata seller_capabilities, Text seller_ready]
         | TextContent request \<Rightarrow> handle_seller_request request
         | EndSessionContent \<Rightarrow> [Text seller_goodbye]
         | _ \<Rightarrow> [])
      = on_content seller_capabilities seller_ready seller_goodbye handle_seller_request"
    by (rule ext) (simp split: chat_content.split)
  then show ?thesis
    by (simp add: on_chat_seller_def chat_agent_def fun_eq_iff)
qed

lemma handle_seller_request_one: "\<exists>t. handle_seller_request r = [Text t]"
  by (simp add: handle_seller_request_def Let_def seller_handler_defs)

lemma handle_seller_request_single: "single_text handle_seller_request"
  unfolding single_text_def using handle_seller_request_one by blast

lemma handle_seller_request_lower:
  "handle_seller_request (py_lower r) = handle_seller_request r"
  by (simp add: handle_seller_request_def)

lemmas on_chat_seller_protocol =
  chat_agent_protocol [OF handle_seller_request_single, of seller_capabilities seller_ready
    seller_goodbye, folded on_chat_seller_agent]

section \<open>Properties of the router\<close>

lemma handle_seller_request_cases:
  defines "has \<equiv> \<lambda>k r. py_in k (py_lower r)"
  shows
  "(handle_seller_request r = handle_fulfill_obligation \<longleftrightarrow>
      has ''fulfill'' r \<or> has ''deliver'' r) \<and>
   (handle_seller_request r = handle_raise_dispute_seller \<longleftrightarrow>
      \<not> has ''fulfill'' r \<and> \<not> has ''deliver'' r \<and> has ''dispute'' r) \<and>
   (handle_seller_request r = handle_check_status_seller \<longleftrightarrow>
      \<not> has ''fulfill'' r \<and> \<not> has ''deliver'' r \<and> \<not> has ''dispute'' r \<and>
      (has ''status'' r \<or> has ''check'' r)) \<and>
   (handle_seller_request r = [Text seller_unknown] \<longleftrightarrow>
      \<not> has ''fulfill'' r \<and> \<not> has ''deliver'' r \<and> \<not> has ''dispute'' r \<and>
      \<not> has ''status'' r \<and> \<not> has ''check'' r \<and> \<not> has ''evidence'' r \<and>
      \<not> has ''proof'' r \<and> \<not> has ''help'' r)"
  unfolding has_def
  by (intro conjI; simp add: handle_seller_request_def Let_def seller_neq
      dispute_keyword_or delivery_keyword_not)

text \<open>
  C15. The seller is never told how to confirm a delivery: the router tests
  \<^verbatim>\<open>deliver\<close> before it tests \<^verbatim>\<open>confirm\<close> and \<^verbatim>\<open>delivery\<close>, and every
  request that contains \<^verbatim>\<open>delivery\<close> contains \<^verbatim>\<open>deliver\<close>. So
  \<^verbatim>\<open>handle_confirm_delivery\<close> is chosen for no request, and no chat message makes the
  agent send its text, although the agent advertises the action
  \<^verbatim>\<open>confirm_delivery\<close>.
\<close>

theorem confirm_delivery_unreachable:
  "handle_seller_request r \<noteq> handle_confirm_delivery \<and>
   set handle_confirm_delivery \<inter> set (on_chat_seller msg) = {} \<and>
   JStr ''confirm_delivery'' \<in> set (case dict_get seller_capabilities ''supported_actions'' of
                                       JList acts \<Rightarrow> acts | _ \<Rightarrow> [])"
proof (intro conjI)
  obtain c where c: "handle_confirm_delivery = [Text c]"
    by (simp add: handle_confirm_delivery_def)
  show r: "handle_seller_request r \<noteq> handle_confirm_delivery" for r
    by (simp add: handle_seller_request_def Let_def seller_neq delivery_keyword_not)
  have "Text c \<notin> set (handle_seller_request req)" for req
    using r [of req] handle_seller_request_one [of req] by (auto simp: c)
  moreover have "c \<noteq> seller_ready" "c \<noteq> seller_goodbye"
    using seller_replies_neq by (simp_all add: c)
  ultimately have "Text c \<notin> set (on_content seller_capabilities seller_ready seller_goodbye
      handle_seller_request x)" for x
    by (cases x) simp_all
  then show "set handle_confirm_delivery \<inter> set (on_chat_seller msg) = {}"
    by (simp add: on_chat_seller_agent chat_agent_def c)
  show "JStr ''confirm_delivery'' \<in> set (case dict_get seller_capabilities ''supported_actions'' of
                                       JList acts \<Rightarrow> acts | _ \<Rightarrow> [])"
    by (simp add: seller_capabilities_def)
qed

lemma seller_examples:
  "handle_seller_request ''Please CONFIRM delivery'' = handle_fulfill_obligation"
  "handle_seller_request ''proof of shipping'' = handle_provide_evidence"
  by (simp_all add: handle_seller_request_def Let_def lower_char_eval seller_neq)

end
