(* ===== verification/Arbiter_Agent.thy ===== *)
theory Arbiter_Agent
  imports Chat_Agent
begin

text \<open>
  The arbiter agent, \<^verbatim>\<open>agents/arbiter_agent.py\<close>: the capabilities it advertises, the texts
  it sends, its request router \<^verbatim>\<open>handle_arbiter_request\<close> with the handlers it
  chooses from, and its chat handler \<^verbatim>\<open>on_chat\<close> (here \<open>on_chat_arbiter\<close>). Each
  handler sends one fixed text.
  The decision procedure \<^verbatim>\<open>analyze_dispute\<close> of the same file is in the theory
  \<open>Arbiter\<close>; no handler of the agent calls it.
\<close>

section \<open>Capabilities and texts\<close>

definition arbiter_capabilities :: pydict where
  "arbiter_capabilities =
     [(''capabilities'', JStr ''dispute-resolution''),
      (''description'', JStr ''Handles dispute resolution and arbitration''),
      (''version'', JStr ''1.0.0''),
      (''supported_actions'',
         JList [JStr ''analyze_dispute'', JStr ''resolve_dispute'', JStr ''request_evidence'',
                JStr ''make_decision'', JStr ''provide_reasoning''])]"

definition arbiter_ready :: string where
  "arbiter_ready =
     [CHR 0xE2, CHR 0x9A, CHR 0x96, CHR 0xEF, CHR 0xB8, CHR 0x8F] @
     '' Arbiter Agent Ready! I can help you with:\<newline>\<newline>'' @
     [CHR 0xE2, CHR 0x80, CHR 0xA2] @ '' Analyzing disputes\<newline>'' @
     [CHR 0xE2, CHR 0x80, CHR 0xA2] @ '' Resolving conflicts\<newline>'' @
     [CHR 0xE2, CHR 0x80, CHR 0xA2] @ '' Requesting evidence\<newline>'' @
     [CHR 0xE2, CHR 0x80, CHR 0xA2] @ '' Making fair decisions\<newline>'' @
     [CHR 0xE2, CHR 0x80, CHR 0xA2] @
     '' Providing detailed reasoning\<newline>\<newline>'' @
     ''What dispute would you like me to review?''"

definition arbiter_goodbye :: string where
  "arbiter_goodbye =
     ''Thank you for using the Arbiter Agent! Dispute resolution complete.''"

definition arbiter_unknown :: string where
  "arbiter_unknown =
     ''I'm not sure what you're asking for. Type 'help' to see available commands.''"

section \<open>Handlers\<close>

definition handle_analyze_dispute :: "string sent list" where
  "handle_analyze_dispute = [Text (
       ''To analyze a dispute, I need:\<newline>\<newline>'' @
       ''1. Dispute ID\<newline>'' @
       ''2. Buyer address\<newline>'' @
       ''3. Seller address\<newline>'' @
       ''4. Evidence (if any)\<newline>'' @
       ''5. Dispute reason\<newline>\<newline>'' @
       ''Please provide the details:\<newline>'' @
       ''ANALYZE: {dispute_id}, {buyer_address}, {seller_address}, {evidence}, {reason}'')]"

definition handle_resolve_dispute :: "string sent list" where
  "handle_resolve_dispute = [Text (
       ''To resolve a dispute, I need:\<newline>\<newline>'' @
       ''1. Dispute ID\<newline>'' @
       ''2. Decision (RELEASE_FUNDS or REFUND_FUNDS)\<newline>'' @
       ''3. Reasoning\<newline>'' @
       ''4. Evidence analysis\<newline>\<newline>'' @
       ''Please provide the details:\<newline>'' @
       ''RESOLVE: {dispute_id}, {decision}, {reasoning}'')]"

definition handle_request_evidence :: "string sent list" where
  "handle_request_evidence = [Text (
       ''To request evidence, I need:\<newline>\<newline>'' @
       ''1. Dispute ID\<newline>'' @
       ''2. Required evidence types\<newline>'' @
       ''3. Deadline\<newline>\<newline>'' @
       ''Please provide the details:\<newline>'' @
       ''EVIDENCE: {dispute_id}, {evidence_types}, {deadline}'')]"

definition handle_help_arbiter :: "string sent list" where
  "handle_help_arbiter = [Text (
       ''Available commands:\<newline>\<newline>'' @ [CHR 0xE2, CHR 0x80, CHR 0xA2] @
       '' ANALYZE - Analyze a dispute\<newline>'' @ [CHR 0xE2, CHR 0x80, CHR 0xA2] @
       '' RESOLVE - Resolve a dispute\<newline>'' @ [CHR 0xE2, CHR 0x80, CHR 0xA2] @
       '' EVIDENCE - Request evidence\<newline>'' @ [CHR 0xE2, CHR 0x80, CHR 0xA2] @
       '' HELP - Show this help message\<newline>\<newline>'' @
       ''Use these commands with the required parameters.'')]"

lemmas arbiter_handler_defs =
  handle_analyze_dispute_def
  handle_resolve_dispute_def
  handle_request_evidence_def
  handle_help_arbiter_def

lemmas arbiter_text_defs = arbiter_ready_def arbiter_goodbye_def arbiter_unknown_def

text \<open>
  No two of the texts of the agent are the same, so a reply tells which handler sent it.
\<close>

lemma arbiter_replies_distinct:
  "distinct
     [handle_analyze_dispute,
      handle_resolve_dispute,
      handle_request_evidence,
      handle_help_arbiter,
      [Text arbiter_unknown],
      [Text arbiter_ready],
      [Text arbiter_goodbye]]"
  by (simp add: arbiter_handler_defs arbiter_text_defs)

lemma arbiter_replies_neq:
  "handle_analyze_dispute \<noteq> handle_resolve_dispute"
  "handle_analyze_dispute \<noteq> handle_request_evidence"
  "handle_analyze_dispute \<noteq> handle_help_arbiter"
  "handle_analyze_dispute \<noteq> [Text arbiter_unknown]"
  "handle_analyze_dispute \<noteq> [Text arbiter_ready]"
  "handle_analyze_dispute \<noteq> [Text arbiter_goodbye]"
  "handle_resolve_dispute \<noteq> handle_request_evidence"
  "handle_resolve_dispute \<noteq> handle_help_arbiter"
  "handle_resolve_dispute \<noteq> [Text arbiter_unknown]"
  "handle_resolve_dispute \<noteq> [Text arbiter_ready]"
  "handle_resolve_dispute \<noteq> [Text arbiter_goodbye]"
  "handle_request_evidence \<noteq> handle_help_arbiter"
  "handle_request_evidence \<noteq> [Text arbiter_unknown]"
  "handle_request_evidence \<noteq> [Text arbiter_ready]"
  "handle_request_evidence \<noteq> [Text arbiter_goodbye]"
  "handle_help_arbiter \<noteq> [Text arbiter_unknown]"
  "handle_help_arbiter \<noteq> [Text arbiter_ready]"
  "handle_help_arbiter \<noteq> [Text arbiter_goodbye]"
  "[Text arbiter_unknown] \<noteq> [Text arbiter_ready]"
  "[Text arbiter_unknown] \<noteq> [Text arbiter_goodbye]"
  "[Text arbiter_ready] \<noteq> [Text arbiter_goodbye]"
  using arbiter_replies_distinct by simp_all

lemmas arbiter_neq = arbiter_replies_neq arbiter_replies_neq [symmetric]

section \<open>The request router and the chat handler\<close>

definition handle_arbiter_request :: "string \<Rightarrow> string sent list" where
  "handle_arbiter_request request =
     (let request_lower = py_lower request
      in if py_in ''analyze'' request_lower \<or> py_in ''review'' request_lower
         then handle_analyze_dispute
         else if py_in ''resolve'' request_lower \<or> py_in ''decision'' request_lower
         then handle_resolve_dispute
         else if py_in ''evidence'' request_lower then handle_request_evidence
         else if py_in ''help'' request_lower then handle_help_arbiter
         else [Text arbiter_unknown])"

definition on_chat_arbiter :: "chat_message \<Rightarrow> string sent list" where
  "on_chat_arbiter msg =
     ChatAcknowledgement (chat_msg_id msg)
       # concat (map (\<lambda>content. case content of
                         StartSessionContent \<Rightarrow> [Metadata arbiter_capabilities, Text arbiter_ready]
                       | TextContent request \<Rightarrow> handle_arbiter_request request
                       | EndSessionContent \<Rightarrow> [Text arbiter_goodbye]
                       | _ \<Rightarrow> [])
                 (chat_content msg))"

section \<open>The agent as an instance of the shared handler\<close>

lemma on_chat_arbiter_agent:
  "on_chat_arbiter = chat_agent arbiter_capabilities arbiter_ready arbiter_goodbye handle_arbiter_request"
proof -
  have "(\<lambda>content. case content of
           StartSessionContent \<Rightarrow> [Metadata arbiter_capabilities, Text arbiter_ready]
         | TextContent request \<Rightarrow> handle_arbiter_request request
         | EndSessionContent \<Rightarrow> [Text arbiter_goodbye]
         | _ \<Rightarrow> [])
      = on_content arbiter_capabilities arbiter_ready arbiter_goodbye handle_arbiter_request"
    by (rule ext) (simp split: chat_content.split)
  then show ?thesis
    by (simp add: on_chat_arbiter_def chat_agent_def fun_eq_iff)
qed

lemma handle_arbiter_request_one: "\<exists>t. handle_arbiter_request r = [Text t]"
  by (simp add: handle_arbiter_request_def Let_def arbiter_handler_defs)

lemma handle_arbiter_request_single: "single_text handle_arbiter_request"
  unfolding single_text_def using handle_arbiter_request_one by blast

lemma handle_arbiter_request_lower:
  "handle_arbiter_request (py_lower r) = handle_arbiter_request r"
  by (simp add: handle_arbiter_request_def)

lemmas on_chat_arbiter_protocol =
  chat_agent_protocol [OF handle_arbiter_request_single, of arbiter_capabilities arbiter_ready
    arbiter_goodbye, folded on_chat_arbiter_agent]

section \<open>Properties of the router\<close>

lemma handle_arbiter_request_cases:
  defines "has \<equiv> \<lambda>k r. py_in k (py_lower r)"
  shows
  "(handle_arbiter_request r = handle_analyze_dispute \<longleftrightarrow>
      has ''analyze'' r \<or> has ''review'' r) \<and>
   (handle_arbiter_request r = handle_resolve_dispute \<longleftrightarrow>
      \<not> has ''analyze'' r \<and> \<not> has ''review'' r \<and> (has ''resolve'' r \<or> has ''decision'' r)) \<and>
   (handle_arbiter_request r = handle_request_evidence \<longleftrightarrow>
      \<not> has ''analyze'' r \<and> \<not> has ''review'' r \<and> \<not> has ''resolve'' r \<and>
      \<not> has ''decision'' r \<and> has ''evidence'' r) \<and>
   (handle_arbiter_request r = [Text arbiter_unknown] \<longleftrightarrow>
      \<not> has ''analyze'' r \<and> \<not> has ''review'' r \<and> \<not> has ''resolve'' r \<and>
      \<not> has ''decision'' r \<and> \<not> has ''evidence'' r \<and> \<not> has ''help'' r)"
  unfolding has_def
  by (intro conjI; simp add: handle_arbiter_request_def Let_def arbiter_neq)

lemma arbiter_examples:
  "handle_arbiter_request ''Please REVIEW dispute d1'' = handle_analyze_dispute"
  "handle_arbiter_request ''what is your decision?'' = handle_resolve_dispute"
  by (simp_all add: handle_arbiter_request_def Let_def lower_char_eval arbiter_neq)

end
