(* ===== verification/Oracle_Agent.thy ===== *)
theory Oracle_Agent
  imports Chat_Agent
begin

text \<open>
  The oracle agent, \<^verbatim>\<open>agents/oracle_agent.py\<close>: the capabilities it advertises, the texts
  it sends, its request router \<^verbatim>\<open>handle_oracle_request\<close> with the handlers it
  chooses from, and its chat handler \<^verbatim>\<open>on_chat\<close> (here \<open>on_chat_oracle\<close>). Each
  handler sends one fixed text.
  The verification procedure \<^verbatim>\<open>verify_transaction_with_ai\<close> of the same file is in
  the theory \<open>Oracle_Verify\<close>; no handler of the agent calls it.
\<close>

section \<open>Capabilities and texts\<close>

definition oracle_capabilities :: pydict where
  "oracle_capabilities =
     [(''capabilities'', JStr ''transaction-verification''),
      (''description'', JStr ''Handles transaction verification and validation''),
      (''version'', JStr ''1.0.0''),
      (''supported_chains'',
         JList [JStr ''ethereum'', JStr ''polygon'', JStr ''arbitrum'', JStr ''optimism'',
                JStr ''bsc'']),
      (''supported_assets'',
         JList [JStr ''ETH'', JStr ''ERC20'', JStr ''ERC721'', JStr ''ERC1155''])]"

definition oracle_ready :: string where
  "oracle_ready =
     [CHR 0xF0, CHR 0x9F, CHR 0x94, CHR 0x8D] @
     '' Oracle Agent Ready! I can help you with:\<newline>\<newline>'' @
     [CHR 0xE2, CHR 0x80, CHR 0xA2] @ '' Verifying blockchain transactions\<newline>'' @
     [CHR 0xE2, CHR 0x80, CHR 0xA2] @ '' Validating token transfers\<newline>'' @
     [CHR 0xE2, CHR 0x80, CHR 0xA2] @ '' Checking transaction confirmations\<newline>'' @
     [CHR 0xE2, CHR 0x80, CHR 0xA2] @ '' Cross-chain verification\<newline>'' @
     [CHR 0xE2, CHR 0x80, CHR 0xA2] @ '' AI-powered analysis\<newline>\<newline>'' @
     ''What would you like to verify?''"

definition oracle_goodbye :: string where
  "oracle_goodbye =
     ''Thank you for using the Oracle Agent! Verification complete.''"

definition oracle_unknown :: string where
  "oracle_unknown =
     ''I'm not sure what you're asking for. Type 'help' to see available commands.''"

section \<open>Handlers\<close>

definition handle_verify_transaction :: "string sent list" where
  "handle_verify_transaction = [Text (
       ''To verify a transaction, I need:\<newline>\<newline>'' @
       ''1. Transaction hash\<newline>'' @
       ''2. Expected amount\<newline>'' @
       ''3. Token address\<newline>'' @
       ''4. Chain ID\<newline>'' @
       ''5. From/To addresses\<newline>\<newline>'' @
       ''Please provide the details:\<newline>'' @
       ''VERIFY: {transaction_hash}, {amount}, {token}, {chain_id}, {from_address}, {to_address}'')]"

definition handle_check_status_oracle :: "string sent list" where
  "handle_check_status_oracle = [Text (
       ''To check verification status, I need:\<newline>\<newline>'' @
       ''1. Escrow contract address\<newline>'' @
       ''2. Transaction hash\<newline>\<newline>'' @
       ''Please provide the details:\<newline>'' @
       ''STATUS: {escrow_address}, {transaction_hash}'')]"

definition handle_help_oracle :: "string sent list" where
  "handle_help_oracle = [Text (
       ''Available commands:\<newline>\<newline>'' @ [CHR 0xE2, CHR 0x80, CHR 0xA2] @
       '' VERIFY - Verify a blockchain transaction\<newline>'' @
       [CHR 0xE2, CHR 0x80, CHR 0xA2] @ '' STATUS - Check verification status\<newline>'' @
       [CHR 0xE2, CHR 0x80, CHR 0xA2] @
       '' HELP - Show this help message\<newline>\<newline>'' @
       ''Use these commands with the required parameters.'')]"

lemmas oracle_handler_defs =
  handle_verify_transaction_def
  handle_check_status_oracle_def
  handle_help_oracle_def

lemmas oracle_text_defs = oracle_ready_def oracle_goodbye_def oracle_unknown_def

text \<open>
  No two of the texts of the agent are the same, so a reply tells which handler sent it.
\<close>

lemma oracle_replies_distinct:
  "distinct
     [handle_verify_transaction,
      handle_check_status_oracle,
      handle_help_oracle,
      [Text oracle_unknown],
      [Text oracle_ready],
      [Text oracle_goodbye]]"
  by (simp add: oracle_handler_defs oracle_text_defs)

lemma oracle_replies_neq:
  "handle_verify_transaction \<noteq> handle_check_status_oracle"
  "handle_verify_transaction \<noteq> handle_help_oracle"
  "handle_verify_transaction \<noteq> [Text oracle_unknown]"
  "handle_verify_transaction \<noteq> [Text oracle_ready]"
  "handle_verify_transaction \<noteq> [Text oracle_goodbye]"
  "handle_check_status_oracle \<noteq> handle_help_oracle"
  "handle_check_status_oracle \<noteq> [Text oracle_unknown]"
  "handle_check_status_oracle \<noteq> [Text oracle_ready]"
  "handle_check_status_oracle \<noteq> [Text oracle_goodbye]"
  "handle_help_oracle \<noteq> [Text oracle_unknown]"
  "handle_help_oracle \<noteq> [Text oracle_ready]"
  "handle_help_oracle \<noteq> [Text oracle_goodbye]"
  "[Text oracle_unknown] \<noteq> [Text oracle_ready]"
  "[Text oracle_unknown] \<noteq> [Text oracle_goodbye]"
  "[Text oracle_ready] \<noteq> [Text oracle_goodbye]"
  using oracle_replies_distinct by simp_all

lemmas oracle_neq = oracle_replies_neq oracle_replies_neq [symmetric]

section \<open>The request router and the chat handler\<close>

definition handle_oracle_request :: "string \<Rightarrow> string sent list" where
  "handle_oracle_request request =
     (let request_lower = py_lower request
      in if py_in ''verify'' request_lower \<or> py_in ''check'' request_lower
         then handle_verify_transaction
         else if py_in ''status'' request_lower then handle_check_status_oracle
         else if py_in ''help'' request_lower then handle_help_oracle
         else [Text oracle_unknown])"

definition on_chat_oracle :: "chat_message \<Rightarrow> string sent list" where
  "on_chat_oracle msg =
     ChatAcknowledgement (chat_msg_id msg)
       # concat (map (\<lambda>content. case content of
                         StartSessionContent \<Rightarrow> [Metadata oracle_capabilities, Text oracle_ready]
                       | TextContent request \<Rightarrow> handle_oracle_request request
                       | EndSessionContent \<Rightarrow> [Text oracle_goodbye]
                       | _ \<Rightarrow> [])
                 (chat_content msg))"

section \<open>The agent as an instance of the shared handler\<close>

lemma on_chat_oracle_agent:
  "on_chat_oracle = chat_agent oracle_capabilities oracle_ready oracle_goodbye handle_oracle_request"
proof -
  have "(\<lambda>content. case content of
           StartSessionContent \<Rightarrow> [Metadata oracle_capabilities, Text oracle_ready]
         | TextContent request \<Rightarrow> handle_oracle_request request
         | EndSessionContent \<Rightarrow> [Text oracle_goodbye]
         | _ \<Rightarrow> [])
      = on_content oracle_capabilities oracle_ready oracle_goodbye handle_oracle_request"
    by (rule ext) (simp split: chat_content.split)
  then show ?thesis
    by (simp add: on_chat_oracle_def chat_agent_def fun_eq_iff)
qed

lemma handle_oracle_request_one: "\<exists>t. handle_oracle_request r = [Text t]"
  by (simp add: handle_oracle_request_def Let_def oracle_handler_defs)

lemma handle_oracle_request_single: "single_text handle_oracle_request"
  unfolding single_text_def using handle_oracle_request_one by blast

lemma handle_oracle_request_lower:
  "handle_oracle_request (py_lower r) = handle_oracle_request r"
  by (simp add: handle_oracle_request_def)

lemmas on_chat_oracle_protocol =
  chat_agent_protocol [OF handle_oracle_request_single, of oracle_capabilities oracle_ready
    oracle_goodbye, folded on_chat_oracle_agent]

section \<open>Properties of the router\<close>

lemma handle_oracle_request_cases:
  defines "has \<equiv> \<lambda>k r. py_in k (py_lower r)"
  shows
  "(handle_oracle_request r = handle_verify_transaction \<longleftrightarrow>
      has ''verify'' r \<or> has ''check'' r) \<and>
   (handle_oracle_request r = handle_check_status_oracle \<longleftrightarrow>
      \<not> has ''verify'' r \<and> \<not> has ''check'' r \<and> has ''status'' r) \<and>
   (handle_oracle_request r = [Text oracle_unknown] \<longleftrightarrow>
      \<not> has ''verify'' r \<and> \<not> has ''check'' r \<and> \<not> has ''status'' r \<and> \<not> has ''help'' r)"
  unfolding has_def
  by (intro conjI; simp add: handle_oracle_request_def Let_def oracle_neq)

text \<open>A request to check the status is answered with the verification instructions.\<close>

lemma oracle_examples:
  "handle_oracle_request ''check status'' = handle_verify_transaction"
  "handle_oracle_request ''STATUS of 0xabc'' = handle_check_status_oracle"
  by (simp_all add: handle_oracle_request_def Let_def lower_char_eval oracle_neq)

end
