(* ===== verification/Agents.thy ===== *)
theory Agents
  imports Buyer_Agent Seller_Agent Arbiter_Agent Oracle_Agent
begin

text \<open>
  The four escrow agents together: each chat handler is the shared handler of the theory
  \<open>Chat_Agent\<close> at the capabilities, the texts and the router of its agent, so what
  the chat protocol asks of a handler holds for all four.
\<close>

section \<open>The handlers refine the shared handler\<close>

text \<open>
  C14. Refinement: the chat handlers of the buyer, the seller, the arbiter and the
  oracle, each written out in its own file, are the one handler \<open>chat_agent\<close> applied
  to the agent's capabilities, greeting, farewell and request router.
\<close>

theorem agents_refine_chat_agent:
  "on_chat_buyer msg =
     chat_agent buyer_capabilities buyer_ready buyer_goodbye handle_buyer_request msg \<and>
   on_chat_seller msg =
     chat_agent seller_capabilities seller_ready seller_goodbye handle_seller_request msg \<and>
   on_chat_arbiter msg =
     chat_agent arbiter_capabilities arbiter_ready arbiter_goodbye handle_arbiter_request msg \<and>
   on_chat_oracle msg =
     chat_agent oracle_capabilities oracle_ready oracle_goodbye handle_oracle_request msg"
  by (simp only: on_chat_buyer_agent on_chat_seller_agent on_chat_arbiter_agent
      on_chat_oracle_agent simp_thms)

section \<open>What the chat protocol asks of a handler\<close>

text \<open>
  C11. Every agent acknowledges a chat message before anything else: the first message
  it sends is the acknowledgement of the identifier of the message received, and it
  sends no other acknowledgement, whatever the content of the message is.
\<close>

theorem agents_acknowledge_first:
  "hd (on_chat_buyer msg) = ChatAcknowledgement (chat_msg_id msg) \<and>
   filter is_ack (on_chat_buyer msg) = [ChatAcknowledgement (chat_msg_id msg)] \<and>
   hd (on_chat_seller msg) = ChatAcknowledgement (chat_msg_id msg) \<and>
   filter is_ack (on_chat_seller msg) = [ChatAcknowledgement (chat_msg_id msg)] \<and>
   hd (on_chat_arbiter msg) = ChatAcknowledgement (chat_msg_id msg) \<and>
   filter is_ack (on_chat_arbiter msg) = [ChatAcknowledgement (chat_msg_id msg)] \<and>
   hd (on_chat_oracle msg) = ChatAcknowledgement (chat_msg_id msg) \<and>
   filter is_ack (on_chat_oracle msg) = [ChatAcknowledgement (chat_msg_id msg)]"
  by (simp only: on_chat_buyer_protocol on_chat_seller_protocol on_chat_arbiter_protocol
      on_chat_oracle_protocol simp_thms)

text \<open>
  The number of messages an agent sends in answer to a chat message is one, the
  acknowledgement, and then two for every session start, one for every text and one
  for every session end in the content; other content items are not answered. So a
  text is always answered, if only with the text for unknown requests.
\<close>

theorem agents_reply_count:
  "length (on_chat_buyer msg) = 1 + sum_list (map replies (chat_content msg)) \<and>
   length (on_chat_seller msg) = 1 + sum_list (map replies (chat_content msg)) \<and>
   length (on_chat_arbiter msg) = 1 + sum_list (map replies (chat_content msg)) \<and>
   length (on_chat_oracle msg) = 1 + sum_list (map replies (chat_content msg))"
  by (simp only: on_chat_buyer_protocol on_chat_seller_protocol on_chat_arbiter_protocol
      on_chat_oracle_protocol simp_thms)

text \<open>
  The routers read a request in lower case only: two requests that differ in the case
  of their letters are answered alike.
\<close>

lemma routers_ignore_case:
  assumes "py_lower r = py_lower r'"
  shows "handle_buyer_request r = handle_buyer_request r'"
    and "handle_seller_request r = handle_seller_request r'"
    and "handle_arbiter_request r = handle_arbiter_request r'"
    and "handle_oracle_request r = handle_oracle_request r'"
  using assms
  by (simp_all add: handle_buyer_request_def handle_seller_request_def
      handle_arbiter_request_def handle_oracle_request_def)

text \<open>
  A whole session with the buyer: start, a request for a deposit, end. Five messages
  are sent, the acknowledgement first.
\<close>

lemma buyer_session:
  "on_chat_buyer (ChatMessage ''m1''
       [StartSessionContent, TextContent ''Deposit 5 ETH'', EndSessionContent]) =
     ChatAcknowledgement ''m1'' # Metadata buyer_capabilities # Text buyer_ready #
     handle_deposit_assets @ [Text buyer_goodbye]"
  by (simp add: on_chat_buyer_def handle_buyer_request_def Let_def lower_char_eval)

section \<open>The texts of the buyer\<close>

text \<open>
  The seller, the arbiter and the oracle list their services after a bullet, the
  character U+2022, in UTF-8 the bytes E2 80 A2. The greeting of the buyer has no
  bullet: where the others have one it has the seven bytes that these three bytes give
  when they are read in the Mac OS Roman encoding and written again in UTF-8.
\<close>

lemma buyer_greeting_garbled:
  "py_in [CHR 0xE2, CHR 0x80, CHR 0xA2] seller_ready"
  "py_in [CHR 0xE2, CHR 0x80, CHR 0xA2] arbiter_ready"
  "py_in [CHR 0xE2, CHR 0x80, CHR 0xA2] oracle_ready"
  "\<not> py_in [CHR 0xE2, CHR 0x80, CHR 0xA2] buyer_ready"
  "py_in [CHR 0xE2, CHR 0x80, CHR 0x9A, CHR 0xC3, CHR 0x84, CHR 0xC2, CHR 0xA2] buyer_ready"
  by (simp_all add: seller_ready_def arbiter_ready_def oracle_ready_def buyer_ready_def)

end
