(* ===== verification/Oracle_Verify.thy ===== *)
theory Oracle_Verify
  imports Py_Values
begin

text \<open>
  The verification procedure of the oracle, \<^verbatim>\<open>verify_transaction_with_ai\<close> of
  \<^verbatim>\<open>agents/oracle_agent.py\<close>. The procedure asks an external completion service
  about a transaction and returns what the service answers. Everything outside the
  repository is an argument of the model:
  \<^item> \<open>api_key\<close>, the environment variable \<^verbatim>\<open>ASI_ONE_API_KEY\<close> (\<open>None\<close> when unset);
  \<^item> \<open>post\<close>, the exchange with the service, that is \<^verbatim>\<open>requests.post\<close> at the address
    \<^verbatim>\<open>ASI_ONE_URL\<close> with a timeout of 30 seconds, \<^verbatim>\<open>raise_for_status\<close> and
    \<^verbatim>\<open>response.json\<close>, for given headers and data: either the text of the exception
    raised (\<open>Inl\<close>) or the decoded body of the response (\<open>Inr\<close>);
  \<^item> \<open>json_loads\<close>, the parser \<^verbatim>\<open>json.loads\<close> on strings, \<open>None\<close> for a
    \<^verbatim>\<open>JSONDecodeError\<close>;
  \<^item> \<open>describe\<close>, the text \<^verbatim>\<open>str(e)\<close> of an exception raised by a subscript or by
    \<^verbatim>\<open>json.loads\<close> on a value that is no string;
  \<^item> \<open>other\<close>, the text of a float, a list or a dictionary among the transaction data
    (see \<open>py_str\<close>).
\<close>

section \<open>The request to the service\<close>

definition oracle_headers :: "string \<Rightarrow> pydict" where
  "oracle_headers key =
     [(''Content-Type'', JStr ''application/json''),
      (''Authorization'', JStr (''Bearer '' @ key))]"

definition oracle_prompt :: "(json \<Rightarrow> string) \<Rightarrow> pydict \<Rightarrow> string" where
  "oracle_prompt other transaction_data =
    (let field = (\<lambda>k. py_str other (dict_get_or transaction_data k (JStr ''N/A''))) in
     ''Analyze this transaction for verification:\<newline>'' @
     ''        \<newline>'' @
     ''        Transaction Hash: '' @
     field ''transaction_hash'' @
     ''\<newline>'' @
     ''        Amount: '' @
     field ''amount'' @
     ''\<newline>'' @
     ''        Token: '' @
     field ''token'' @
     ''\<newline>'' @
     ''        Chain ID: '' @
     field ''chain_id'' @
     ''\<newline>'' @
     ''        From: '' @
     field ''from_address'' @
     ''\<newline>'' @
     ''        To: '' @
     field ''to_address'' @
     ''\<newline>'' @
     ''        \<newline>'' @
     ''        Please verify:\<newline>'' @
     ''        1. Transaction exists on blockchain\<newline>'' @
     ''        2. Amount matches expected value\<newline>'' @
     ''        3. Token address is correct\<newline>'' @
     ''        4. Addresses are valid\<newline>'' @
     ''        5. Transaction is confirmed\<newline>'' @
     ''        \<newline>'' @
     ''        Respond with JSON:\<newline>'' @
     ''        {\<newline>'' @
     ''            '' @ [CHR 0x22] @ ''verified'' @ [CHR 0x22] @
     '': true/false,\<newline>'' @
     ''            '' @ [CHR 0x22] @ ''confidence'' @ [CHR 0x22] @
     '': 0.0-1.0,\<newline>'' @
     ''            '' @ [CHR 0x22] @ ''details'' @ [CHR 0x22] @ '': '' @ [CHR 0x22] @
     ''explanation'' @ [CHR 0x22] @ '',\<newline>'' @
     ''            '' @ [CHR 0x22] @ ''block_number'' @ [CHR 0x22] @
     '': 12345,\<newline>'' @
     ''            '' @ [CHR 0x22] @ ''gas_used'' @ [CHR 0x22] @ '': 21000\<newline>'' @
     ''        }'')"

definition oracle_request :: "(json \<Rightarrow> string) \<Rightarrow> pydict \<Rightarrow> json" where
  "oracle_request other transaction_data =
     JDict
       [(''model'', JStr ''asi1-mini''),
        (''messages'',
           JList
             [JDict [(''role'', JStr ''system''),
                     (''content'',
                        JStr ''You are a blockchain transaction verification expert.'')],
              JDict [(''role'', JStr ''user''),
                     (''content'', JStr (oracle_prompt other transaction_data))]]),
        (''max_tokens'', JInt 500),
        (''temperature'', JFloat float_0_1)]"

section \<open>The procedure\<close>

text \<open>The dictionary returned on every failure.\<close>

definition oracle_failure :: "string \<Rightarrow> json" where
  "oracle_failure msg =
     JDict [(''verified'', JBool False), (''confidence'', JFloat float_0_0),
            (''error'', JStr msg)]"

text \<open>\<^verbatim>\<open>result['choices'][0]['message']['content']\<close>.\<close>

definition reply_content :: "json \<Rightarrow> json result" where
  "reply_content result =
     and_then (py_getitem result ''choices'') (\<lambda>choices.
     and_then (py_getitem0 choices) (\<lambda>choice.
     and_then (py_getitem choice ''message'') (\<lambda>message.
     py_getitem message ''content'')))"

definition verify_transaction_with_ai ::
  "string option \<Rightarrow> (pydict \<Rightarrow> json \<Rightarrow> string + json) \<Rightarrow> (string \<Rightarrow> json option) \<Rightarrow>
   (py_error \<Rightarrow> string) \<Rightarrow> (json \<Rightarrow> string) \<Rightarrow> pydict \<Rightarrow> json" where
  "verify_transaction_with_ai api_key post json_loads describe other transaction_data =
     (case api_key of
        None \<Rightarrow> oracle_failure ''AI service not configured''
      | Some key \<Rightarrow>
          if \<not> truthy key then oracle_failure ''AI service not configured''
          else (case post (oracle_headers key) (oracle_request other transaction_data) of
                  Inl e \<Rightarrow> oracle_failure e
                | Inr result \<Rightarrow>
                    (case reply_content result of
                       Inl err \<Rightarrow> oracle_failure (describe err)
                     | Inr ai_response \<Rightarrow>
                         (case ai_response of
                            JStr s \<Rightarrow>
                              (case json_loads s of
                                 None \<Rightarrow> oracle_failure ''Failed to parse AI response''
                               | Some verification_result \<Rightarrow> verification_result)
                          | _ \<Rightarrow> oracle_failure (describe TypeError)))))"

lemmas oracle_verify_defs [escrow_defs] =
  oracle_failure_def reply_content_def verify_transaction_with_ai_def oracle_headers_def
  oracle_request_def

section \<open>The reply of the service\<close>

text \<open>A body from which the content \<open>c\<close> is read, as the service sends it.\<close>

definition completion :: "json \<Rightarrow> json" where
  "completion c =
     JDict [(''choices'', JList [JDict [(''message'', JDict [(''content'', c)])]])]"

lemma reply_content_completion [simp]: "reply_content (completion c) = Inr c"
  by (simp add: reply_content_def completion_def)

lemma reply_content_ok_iff:
  "reply_content result = Inr c \<longleftrightarrow>
     (\<exists>d rest ch msg.
        result = JDict d \<and> dict_has d ''choices'' \<and>
        dict_get d ''choices'' = JList (JDict ch # rest) \<and>
        dict_has ch ''message'' \<and> dict_get ch ''message'' = JDict msg \<and>
        dict_has msg ''content'' \<and> dict_get msg ''content'' = c)"
  (is "?l \<longleftrightarrow> ?r")
proof
  assume ?l
  then obtain choices choice message where
    1: "py_getitem result ''choices'' = Inr choices" and
    2: "py_getitem0 choices = Inr choice" and
    3: "py_getitem choice ''message'' = Inr message" and
    4: "py_getitem message ''content'' = Inr c"
    by (auto simp: reply_content_def and_then_ok_iff)
  from 1 obtain d where d: "result = JDict d" "dict_has d ''choices''"
    "choices = dict_get d ''choices''"
    by (auto simp: py_getitem_ok_iff)
  from 3 obtain ch where ch: "choice = JDict ch" "dict_has ch ''message''"
    "message = dict_get ch ''message''"
    by (auto simp: py_getitem_ok_iff)
  from 4 obtain msg where msg: "message = JDict msg" "dict_has msg ''content''"
    "c = dict_get msg ''content''"
    by (auto simp: py_getitem_ok_iff)
  from 2 ch(1) obtain rest where "choices = JList (JDict ch # rest)"
    by (cases choices) (auto split: list.splits)
  with d(3) have choices: "dict_get d ''choices'' = JList (JDict ch # rest)"
    by simp
  from ch(3) msg(1) have message: "dict_get ch ''message'' = JDict msg"
    by simp
  show ?r
  proof (intro exI conjI)
    show "result = JDict d" "dict_has d ''choices''" "dict_has ch ''message''"
      "dict_has msg ''content''" "dict_get msg ''content'' = c"
      by (simp_all add: d ch msg)
    show "dict_get d ''choices'' = JList (JDict ch # rest)" by (fact choices)
    show "dict_get ch ''message'' = JDict msg" by (fact message)
  qed
next
  assume ?r
  then show ?l
    by (auto simp: reply_content_def)
qed

section \<open>Properties\<close>

lemma oracle_failure_fields:
  "\<exists>d. oracle_failure msg = JDict d \<and> dict_get d ''verified'' = JBool False \<and>
       dict_get d ''confidence'' = JFloat float_0_0 \<and> dict_get d ''error'' = JStr msg"
  by (simp add: oracle_failure_def)

text \<open>
  C12. The verification never raises, and it fails closed unless the service answers:
  the result is either the failure dictionary, with \<^verbatim>\<open>verified\<close> false and
  confidence 0.0, or it is the value that \<^verbatim>\<open>json.loads\<close> reads from the content
  of a reply that the service gave for a configured key.
\<close>

theorem verify_transaction_cases:
  "(\<exists>msg. verify_transaction_with_ai api_key post json_loads describe other td
       = oracle_failure msg) \<or>
   (\<exists>k result s. api_key = Some k \<and> k \<noteq> [] \<and>
       post (oracle_headers k) (oracle_request other td) = Inr result \<and>
       reply_content result = Inr (JStr s) \<and>
       json_loads s
         = Some (verify_transaction_with_ai api_key post json_loads describe other td))"
  by (auto simp: verify_transaction_with_ai_def
      split: option.splits sum.splits json.splits)

text \<open>
  Without an API key, unset or empty, the service is not asked: the result is the
  failure dictionary with the text \<^verbatim>\<open>AI service not configured\<close>, whatever the
  service would answer.
\<close>

theorem verify_transaction_unconfigured:
  "verify_transaction_with_ai None post json_loads describe other td
     = oracle_failure ''AI service not configured'' \<and>
   verify_transaction_with_ai (Some []) post json_loads describe other td
     = oracle_failure ''AI service not configured''"
  by (simp add: verify_transaction_with_ai_def)

text \<open>
  C17. What the service answers is returned as it is read, without a check: whenever
  the content of the reply parses as a value \<open>v\<close>, the result is \<open>v\<close>, be it a
  dictionary that reports a verified transaction with confidence 0.2, a dictionary
  without the entry \<^verbatim>\<open>verified\<close>, or a value that is no dictionary.
\<close>

theorem verify_transaction_unchecked:
  assumes "k \<noteq> []"
    and "post (oracle_headers k) (oracle_request other td) = Inr (completion (JStr s))"
    and "json_loads s = Some v"
  shows "verify_transaction_with_ai (Some k) post json_loads describe other td = v"
  using assms by (simp add: verify_transaction_with_ai_def)

text \<open>Scenario D of the specification: the service reports confidence 0.2.\<close>

theorem verify_transaction_unchecked_witness:
  "verify_transaction_with_ai (Some ''key'')
     (\<lambda>h d. Inr (completion (JStr ''{}'')))
     (\<lambda>s. Some (JDict [(''verified'', JBool True), (''confidence'', JFloat (Fin 3602879701896397 (-54)))]))
     (\<lambda>e. []) (\<lambda>v. []) []
   = JDict [(''verified'', JBool True), (''confidence'', JFloat (Fin 3602879701896397 (-54)))]"
  using verify_transaction_unchecked [of "''key''" "\<lambda>h d. Inr (completion (JStr ''{}''))"
      "\<lambda>v. []" "[]" "''{}''"
      "\<lambda>s. Some (JDict [(''verified'', JBool True), (''confidence'', JFloat (Fin 3602879701896397 (-54)))])"
      "JDict [(''verified'', JBool True), (''confidence'', JFloat (Fin 3602879701896397 (-54)))]"
      "\<lambda>e. []"]
  by simp

lemma verify_transaction_errors:
  "verify_transaction_with_ai (Some ''key'') (\<lambda>h d. Inl ''timed out'') json_loads describe other td
     = oracle_failure ''timed out''"
  "verify_transaction_with_ai (Some ''key'') (\<lambda>h d. Inr (JDict [])) json_loads describe other td
     = oracle_failure (describe KeyError)"
  "verify_transaction_with_ai (Some ''key'')
     (\<lambda>h d. Inr (JDict [(''choices'', JList [])])) json_loads describe other td
     = oracle_failure (describe IndexError)"
  "verify_transaction_with_ai (Some ''key'') (\<lambda>h d. Inr (completion JNone)) json_loads describe
     other td
     = oracle_failure (describe TypeError)"
  "verify_transaction_with_ai (Some ''key'') (\<lambda>h d. Inr (completion (JStr ''no json'')))
     (\<lambda>s. None) describe other td
     = oracle_failure ''Failed to parse AI response''"
  by (simp_all add: verify_transaction_with_ai_def)
    (simp_all add: reply_content_def)

section \<open>What the service is told\<close>

text \<open>
  The prompt names the six entries of the transaction data; an entry that is missing
  is written \<^verbatim>\<open>N/A\<close>, and an entry that is a string is written as it is, so that
  the transaction data can put any text into the prompt.
\<close>

lemma oracle_prompt_field:
  assumes "dict_get_or td ''transaction_hash'' (JStr ''N/A'') = JStr h"
  shows "py_in (''Transaction Hash: '' @ h @ ''\<newline>'') (oracle_prompt other td)"
  by (simp add: oracle_prompt_def assms)

lemma oracle_prompt_missing:
  "py_in ''Amount: N/A'' (oracle_prompt other [])"
  by (simp add: oracle_prompt_def)

end
