(* ===== verification/Supercar_Agent.thy ===== *)
theory Supercar_Agent
  imports Chat_Agent Oracle_Verify
begin

text \<open>
  The supercar expert agent, \<^verbatim>\<open>agent.py\<close>: a chat agent that passes every text it
  receives to an external completion service and sends back what the service answers.
  What lies outside the repository is an argument of the model:
  \<^item> \<open>api_key\<close>, the environment variable \<^verbatim>\<open>ASI_ONE_API_KEY\<close> (\<open>None\<close> when unset);
  \<^item> \<open>post\<close>, the exchange with the service, that is \<^verbatim>\<open>requests.post\<close> at the address
    \<^verbatim>\<open>ASI_ONE_URL\<close> with a timeout of 30 seconds, \<^verbatim>\<open>raise_for_status\<close> and
    \<^verbatim>\<open>response.json\<close>, for given headers and data: either the exception raised
    (\<open>Inl\<close>) or the decoded body of the response (\<open>Inr\<close>);
  \<^item> \<open>describe\<close>, the text \<^verbatim>\<open>str(e)\<close> of an exception raised by a subscript.

  The chat handler takes the exchanges of one message as a sequence: \<open>post n\<close> is the
  exchange for the text number \<open>n\<close> of the message, so that the service may answer
  the same question differently each time.
\<close>

section \<open>The request to the service\<close>

definition supercar_headers :: "string \<Rightarrow> pydict" where
  "supercar_headers key =
     [(''Content-Type'', JStr ''application/json''),
      (''Authorization'', JStr (''Bearer '' @ key))]"

definition enhanced_prompt :: "string \<Rightarrow> string" where
  "enhanced_prompt user_query =
     ''You are an expert automotive journalist and supercar specialist with deep knowledge '' @
     ''of:\<newline>'' @
     ''- High-performance supercars, hypercars, and exotic vehicles\<newline>'' @
     ''- Technical specifications, performance metrics, and engineering details\<newline>'' @
     ''- Racing heritage, track performance, and lap times\<newline>'' @
     ''- Design philosophy, aerodynamics, and cutting-edge technology\<newline>'' @
     ''- Market values, production numbers, and collector information\<newline>'' @
     ''- Brand history, iconic models, and future concepts\<newline>\<newline>'' @
     ''User question: '' @
     user_query @
     ''\<newline>\<newline>'' @
     ''Provide a comprehensive, expert-level response about supercars. Include specific '' @
     ''details, technical specifications, and interesting facts. If the question isn't '' @
     ''directly about supercars, try to relate it to the supercar world or explain '' @
     ''how it applies to high-performance vehicles.''"

definition supercar_request :: "string \<Rightarrow> json" where
  "supercar_request user_query =
     JDict
       [(''model'', JStr ''asi1-mini''),
        (''messages'',
           JList
             [JDict [(''role'', JStr ''system''),
                     (''content'',
                        JStr (''You are a world-renowned supercar expert and automotive '' @
                              ''journalist with decades of experience covering exotic and '' @
                              ''high-performance vehicles.''))],
              JDict [(''role'', JStr ''user''),
                     (''content'', JStr (enhanced_prompt user_query))]]),
        (''max_tokens'', JInt 1000),
        (''temperature'', JFloat float_0_7)]"

section \<open>The answer to a question\<close>

text \<open>
  The exceptions that the three \<^verbatim>\<open>except\<close> clauses tell apart, each with its text
  \<^verbatim>\<open>str(e)\<close>: a \<^verbatim>\<open>RequestException\<close> of the HTTP library, a \<^verbatim>\<open>KeyError\<close>, and
  any other exception.
\<close>

datatype raised = RequestException string | Key_Error string | Other_Exception string

definition supercar_unconfigured :: string where
  "supercar_unconfigured =
     ''I'm sorry, but I'm not properly configured to access my supercar knowledge base. '' @
     ''Please ensure the ASI_ONE_API_KEY is set.''"

fun explain :: "raised \<Rightarrow> string" where
  "explain (RequestException e) =
     ''I encountered an issue accessing my supercar knowledge base: '' @ e"
| "explain (Key_Error e) =
     ''I received an unexpected response format from my knowledge base: '' @ e"
| "explain (Other_Exception e) =
     ''An unexpected error occurred: '' @ e"

text \<open>The exception of a subscript that fails, as the clauses see it.\<close>

definition subscript_raised :: "(py_error \<Rightarrow> string) \<Rightarrow> py_error \<Rightarrow> raised" where
  "subscript_raised describe err =
     (if err = KeyError then Key_Error (describe err) else Other_Exception (describe err))"

definition get_supercar_expert_response ::
  "string option \<Rightarrow> (pydict \<Rightarrow> json \<Rightarrow> raised + json) \<Rightarrow> (py_error \<Rightarrow> string) \<Rightarrow>
   string \<Rightarrow> json" where
  "get_supercar_expert_response api_key post describe user_query =
     (case api_key of
        None \<Rightarrow> JStr supercar_unconfigured
      | Some key \<Rightarrow>
          if \<not> truthy key then JStr supercar_unconfigured
          else (case post (supercar_headers key) (supercar_request user_query) of
                  Inl e \<Rightarrow> JStr (explain e)
                | Inr result \<Rightarrow>
                    (case reply_content result of
                       Inl err \<Rightarrow> JStr (explain (subscript_raised describe err))
                     | Inr answer \<Rightarrow> answer)))"

section \<open>The chat handler\<close>

definition supercar_capabilities :: pydict where
  "supercar_capabilities =
     [(''capabilities'', JStr ''supercar-expert''),
      (''description'',
         JStr ''Expert assistant specializing in supercars, hypercars, and exotic vehicles''),
      (''version'', JStr ''1.0'')]"

definition supercar_ready :: string where
  "supercar_ready =
     [CHR 0xF0, CHR 0x9F, CHR 0x8F, CHR 0x8E, CHR 0xEF, CHR 0xB8, CHR 0x8F] @
     '' Welcome! I'm your supercar expert assistant. I can help you with:\<newline>\<newline>'' @
     [CHR 0xE2, CHR 0x80, CHR 0xA2] @
     '' Technical specifications and performance data\<newline>'' @
     [CHR 0xE2, CHR 0x80, CHR 0xA2] @ '' Racing heritage and track records\<newline>'' @
     [CHR 0xE2, CHR 0x80, CHR 0xA2] @ '' Design philosophy and aerodynamics\<newline>'' @
     [CHR 0xE2, CHR 0x80, CHR 0xA2] @
     '' Market values and collector information\<newline>'' @
     [CHR 0xE2, CHR 0x80, CHR 0xA2] @ '' Brand history and iconic models\<newline>'' @
     [CHR 0xE2, CHR 0x80, CHR 0xA2] @
     '' Future concepts and cutting-edge technology\<newline>\<newline>'' @
     ''What would you like to know about supercars?''"

definition supercar_goodbye :: string where
  "supercar_goodbye =
     ''Thank you for consulting with the supercar expert! Feel free to return anytime '' @
     ''for more automotive insights. '' @ [CHR 0xF0, CHR 0x9F, CHR 0x8F, CHR 0x81]"

text \<open>
  The loop over the content of a message; \<open>n\<close> counts the texts met so far. The
  answer of the service is passed to \<^verbatim>\<open>_text\<close> as it is, whatever value it is.
\<close>

fun supercar_contents ::
  "string option \<Rightarrow> (nat \<Rightarrow> pydict \<Rightarrow> json \<Rightarrow> raised + json) \<Rightarrow> (py_error \<Rightarrow> string) \<Rightarrow>
   nat \<Rightarrow> chat_content list \<Rightarrow> json sent list" where
  "supercar_contents api_key post describe n [] = []"
| "supercar_contents api_key post describe n (StartSessionContent # rest) =
     Metadata supercar_capabilities # Text (JStr supercar_ready)
       # supercar_contents api_key post describe n rest"
| "supercar_contents api_key post describe n (TextContent question # rest) =
     Text (get_supercar_expert_response api_key (post n) describe question)
       # supercar_contents api_key post describe (Suc n) rest"
| "supercar_contents api_key post describe n (EndSessionContent # rest) =
     Text (JStr supercar_goodbye) # supercar_contents api_key post describe n rest"
| "supercar_contents api_key post describe n (_ # rest) =
     supercar_contents api_key post describe n rest"

definition on_chat_supercar ::
  "string option \<Rightarrow> (nat \<Rightarrow> pydict \<Rightarrow> json \<Rightarrow> raised + json) \<Rightarrow> (py_error \<Rightarrow> string) \<Rightarrow>
   chat_message \<Rightarrow> json sent list" where
  "on_chat_supercar api_key post describe msg =
     ChatAcknowledgement (chat_msg_id msg)
       # supercar_contents api_key post describe 0 (chat_content msg)"

lemmas supercar_defs [escrow_defs] =
  get_supercar_expert_response_def subscript_raised_def on_chat_supercar_def

section \<open>The answers by cases\<close>

lemma unconfigured_iff:
  "(case api_key of None \<Rightarrow> True | Some key \<Rightarrow> \<not> truthy key) \<longleftrightarrow>
     api_key = None \<or> api_key = Some []"
  by (cases api_key) auto

text \<open>
  C26. The answer to a question, on every path. Without a key the agent apologises and
  the service is not asked. With a key, an exception of the exchange or of the
  subscripts is turned into one of three texts, chosen by the class of the exception,
  and a body from which the content is read gives that content.
\<close>

theorem get_supercar_expert_response_cases:
  "get_supercar_expert_response None post describe q = JStr supercar_unconfigured \<and>
   get_supercar_expert_response (Some []) post describe q = JStr supercar_unconfigured \<and>
   (truthy key \<and> post (supercar_headers key) (supercar_request q) = Inl e \<longrightarrow>
      get_supercar_expert_response (Some key) post describe q = JStr (explain e)) \<and>
   (truthy key \<and> post (supercar_headers key) (supercar_request q) = Inr result \<and>
    reply_content result = Inl KeyError \<longrightarrow>
      get_supercar_expert_response (Some key) post describe q =
        JStr (''I received an unexpected response format from my knowledge base: ''
              @ describe KeyError)) \<and>
   (truthy key \<and> post (supercar_headers key) (supercar_request q) = Inr result \<and>
    reply_content result = Inl err \<and> err \<noteq> KeyError \<longrightarrow>
      get_supercar_expert_response (Some key) post describe q =
        JStr (''An unexpected error occurred: '' @ describe err)) \<and>
   (truthy key \<and> post (supercar_headers key) (supercar_request q) = Inr (completion answer) \<longrightarrow>
      get_supercar_expert_response (Some key) post describe q = answer)"
  by (simp add: get_supercar_expert_response_def subscript_raised_def)

theorem get_supercar_expert_response_cases_witness:
  "get_supercar_expert_response (Some ''k'')
     (\<lambda>h d. Inr (JDict [(''choices'', JList [])])) (\<lambda>e. ''list index out of range'') ''Fastest car?''
     = JStr ''An unexpected error occurred: list index out of range'' \<and>
   get_supercar_expert_response (Some ''k'')
     (\<lambda>h d. Inr (JDict [])) (\<lambda>e. [CHR 0x27] @ ''choices'' @ [CHR 0x27]) ''Fastest car?''
     = JStr (''I received an unexpected response format from my knowledge base: ''
             @ [CHR 0x27] @ ''choices'' @ [CHR 0x27]) \<and>
   get_supercar_expert_response (Some ''k'')
     (\<lambda>h d. Inl (RequestException ''timeout'')) (\<lambda>e. []) ''Fastest car?''
     = JStr ''I encountered an issue accessing my supercar knowledge base: timeout''"
  using get_supercar_expert_response_cases
    [of "\<lambda>h d. Inr (JDict [(''choices'', JList [])])" "\<lambda>e. ''list index out of range''"
        "''Fastest car?''" "''k''" _ "JDict [(''choices'', JList [])]" IndexError]
    get_supercar_expert_response_cases
    [of "\<lambda>h d. Inr (JDict [])" "\<lambda>e. [CHR 0x27] @ ''choices'' @ [CHR 0x27]"
        "''Fastest car?''" "''k''" _ "JDict []"]
    get_supercar_expert_response_cases
    [of "\<lambda>h d. Inl (RequestException ''timeout'')" "\<lambda>e. []"
        "''Fastest car?''" "''k''" "RequestException ''timeout''"]
  by (simp add: reply_content_def)

text \<open>
  Every answer but that of the service itself is a text. The content that the
  service sends is passed on unchecked: when it is no string, \<^verbatim>\<open>_text\<close> is given a
  value that is no string.
\<close>

lemma supercar_answer_text_or_content:
  "(\<exists>s. get_supercar_expert_response api_key post describe q = JStr s) \<or>
   (\<exists>key result. api_key = Some key \<and>
      post (supercar_headers key) (supercar_request q) = Inr result \<and>
      reply_content result = Inr (get_supercar_expert_response api_key post describe q))"
  by (simp add: get_supercar_expert_response_def split: option.split sum.split)

lemma supercar_answer_unchecked:
  "get_supercar_expert_response (Some ''k'') (\<lambda>h d. Inr (completion JNone)) describe q = JNone"
  by (simp add: get_supercar_expert_response_def)

section \<open>The handler and the chat protocol\<close>

lemma supercar_contents_no_ack:
  "filter is_ack (supercar_contents api_key post describe n cs) = []"
  by (induction api_key post describe n cs rule: supercar_contents.induct) simp_all

lemma supercar_contents_length:
  "length (supercar_contents api_key post describe n cs) = sum_list (map replies cs)"
  by (induction api_key post describe n cs rule: supercar_contents.induct) simp_all

text \<open>
  When the service answers alike whenever it is asked, the handler is the shared
  handler of the theory \<open>Chat_Agent\<close>, with the question answered by the service as
  its router.
\<close>

lemma supercar_contents_chat_agent:
  "supercar_contents api_key (\<lambda>n. p) describe n cs =
     concat (map (on_content supercar_capabilities (JStr supercar_ready) (JStr supercar_goodbye)
       (\<lambda>q. [Text (get_supercar_expert_response api_key p describe q)])) cs)"
  by (induction api_key "\<lambda>n :: nat. p" describe n cs rule: supercar_contents.induct) simp_all

text \<open>
  C27. The supercar agent keeps the chat protocol whatever the service does: the
  acknowledgement of the message is sent first and is the only one, and every text
  of the message is answered with exactly one message.
\<close>

theorem on_chat_supercar_protocol:
  "hd (on_chat_supercar api_key post describe msg) = ChatAcknowledgement (chat_msg_id msg) \<and>
   filter is_ack (on_chat_supercar api_key post describe msg)
     = [ChatAcknowledgement (chat_msg_id msg)] \<and>
   length (on_chat_supercar api_key post describe msg)
     = 1 + sum_list (map replies (chat_content msg))"
  by (simp add: on_chat_supercar_def supercar_contents_no_ack supercar_contents_length)

text \<open>
  Refinement: for a service that answers alike whenever it is asked, the handler of
  the supercar agent is the shared chat handler.
\<close>

theorem on_chat_supercar_refines:
  "on_chat_supercar api_key (\<lambda>n. p) describe msg =
     chat_agent supercar_capabilities (JStr supercar_ready) (JStr supercar_goodbye)
       (\<lambda>q. [Text (get_supercar_expert_response api_key p describe q)]) msg"
  by (simp add: on_chat_supercar_def chat_agent_def supercar_contents_chat_agent)

text \<open>Without a key, two questions in one message get the same apology.\<close>

lemma supercar_session_unconfigured:
  "on_chat_supercar None post describe
     (ChatMessage ''m7'' [TextContent ''Fastest car?'', TextContent ''And the dearest?'']) =
   [ChatAcknowledgement ''m7'', Text (JStr supercar_unconfigured),
    Text (JStr supercar_unconfigured)]"
  by (simp add: on_chat_supercar_def get_supercar_expert_response_def)

end
