(* ===== verification/Deployer.thy ===== *)
theory Deployer
  imports Py_Values
begin

text \<open>
  The deployment script, \<^verbatim>\<open>deployment/deploy_agents.py\<close>: the class
  \<^verbatim>\<open>AgentDeployer\<close> with its state, the dictionary \<^verbatim>\<open>deployed_agents\<close>, the
  methods that write and read it, and the function \<^verbatim>\<open>main\<close>. The deployment is
  simulated in the source too: an agent is deployed by recording a result for it.

  A method that changes the state returns the new state beside its result. What a
  method prints and writes is a list of effects, given by a function of its own
  beside the method (\<open>deploy_agent_effects\<close> beside \<open>deploy_agent\<close>, and so on);
  \<open>main\<close> puts them in the order of the run. The clock readings are arguments: a
  run reads the clock at the ticks 0, 1, 2 and so on. The agent objects of the
  framework are not modelled, so \<open>agents\<close> holds the names only, in the order of the
  source's dictionary. Output is taken to succeed, so the \<^verbatim>\<open>except\<close> branch of
  \<^verbatim>\<open>deploy_agent\<close> is not entered.
\<close>

section \<open>State and operations\<close>

record AgentDeployer =
  api_token :: string
  agents :: "string list"
  deployed_agents :: "(string \<times> pydict) list"

definition AgentDeployer_init :: "string \<Rightarrow> AgentDeployer" where
  "AgentDeployer_init token =
     \<lparr>api_token = token, agents = [''buyer'', ''seller'', ''oracle'', ''arbiter''],
      deployed_agents = []\<rparr>"

text \<open>The table of \<^verbatim>\<open>get_agent_capabilities\<close>.\<close>

definition capabilities_table :: pydict where
  "capabilities_table =
     [(''buyer'', JDict
        [(''supported_actions'',
            JList [JStr ''create_escrow'', JStr ''deposit_assets'', JStr ''confirm_fulfillment'',
                   JStr ''raise_dispute'', JStr ''refund_request'']),
         (''supported_chains'', JList [JStr ''ethereum'', JStr ''polygon'', JStr ''arbitrum'']),
         (''supported_assets'', JList [JStr ''ETH'', JStr ''ERC20'', JStr ''ERC721''])]),
      (''seller'', JDict
        [(''supported_actions'',
            JList [JStr ''fulfill_obligation'', JStr ''confirm_delivery'', JStr ''raise_dispute'',
                   JStr ''check_status'', JStr ''provide_evidence'']),
         (''supported_chains'', JList [JStr ''ethereum'', JStr ''polygon'', JStr ''arbitrum'']),
         (''supported_assets'', JList [JStr ''ETH'', JStr ''ERC20'', JStr ''ERC721''])]),
      (''oracle'', JDict
        [(''supported_actions'',
            JList [JStr ''verify_transaction'', JStr ''check_status'',
                   JStr ''cross_chain_verification'']),
         (''supported_chains'',
            JList [JStr ''ethereum'', JStr ''polygon'', JStr ''arbitrum'', JStr ''optimism'',
                   JStr ''bsc'']),
         (''supported_assets'',
            JList [JStr ''ETH'', JStr ''ERC20'', JStr ''ERC721'', JStr ''ERC1155''])]),
      (''arbiter'', JDict
        [(''supported_actions'',
            JList [JStr ''analyze_dispute'', JStr ''resolve_dispute'', JStr ''request_evidence'',
                   JStr ''make_decision'', JStr ''provide_reasoning'']),
         (''supported_chains'', JList []),
         (''supported_assets'', JList [])])]"

definition get_agent_capabilities :: "AgentDeployer \<Rightarrow> string \<Rightarrow> json" where
  "get_agent_capabilities self agent_name =
     dict_get_or capabilities_table agent_name (JDict [])"

text \<open>
  \<^verbatim>\<open>deploy_agent\<close> reads the clock twice, for the address (\<open>now\<close>) and for the time
  stamp (\<open>now'\<close>).
\<close>

definition deploy_agent ::
  "AgentDeployer \<Rightarrow> string \<Rightarrow> int \<Rightarrow> int \<Rightarrow> pydict \<times> AgentDeployer" where
  "deploy_agent self agent_name now now' =
     (let agent_address = ''agent_'' @ agent_name @ ''_'' @ show_int now;
          deployment_result =
            [(''agent_name'', JStr agent_name), (''agent_address'', JStr agent_address),
             (''status'', JStr ''deployed''), (''timestamp'', JInt now'),
             (''capabilities'', get_agent_capabilities self agent_name)]
      in (deployment_result,
          self\<lparr>deployed_agents :=
                 AList.update agent_name deployment_result (deployed_agents self)\<rparr>))"

text \<open>
  \<^verbatim>\<open>deploy_all_agents\<close>: the loop over the agents. The agent at position \<open>i\<close> of
  the loop reads the clock at the ticks \<open>2 * i\<close> and \<open>2 * i + 1\<close>.
\<close>

fun deploy_loop ::
  "(nat \<Rightarrow> int) \<Rightarrow> nat \<Rightarrow> string list \<Rightarrow> pydict \<times> AgentDeployer \<Rightarrow> pydict \<times> AgentDeployer" where
  "deploy_loop clock i [] (deployment_results, self) = (deployment_results, self)"
| "deploy_loop clock i (agent_name # names) (deployment_results, self) =
     (let (result, self') = deploy_agent self agent_name (clock (2 * i)) (clock (2 * i + 1))
      in deploy_loop clock (Suc i) names
           (dict_set deployment_results agent_name (JDict result), self'))"

definition deploy_all_agents :: "AgentDeployer \<Rightarrow> (nat \<Rightarrow> int) \<Rightarrow> pydict \<times> AgentDeployer" where
  "deploy_all_agents self clock = deploy_loop clock 0 (agents self) ([], self)"

definition verify_deployment :: "AgentDeployer \<Rightarrow> bool" where
  "verify_deployment self =
     fold (\<lambda>(agent_name, result) all_deployed.
             if dict_get result ''status'' \<noteq> JStr ''deployed'' then False else all_deployed)
       (deployed_agents self) True"

definition get_agent_addresses :: "AgentDeployer \<Rightarrow> pydict" where
  "get_agent_addresses self =
     fold (\<lambda>(agent_name, result) addresses.
             if dict_get result ''status'' = JStr ''deployed''
             then dict_set addresses agent_name (dict_get result ''agent_address'')
             else addresses)
       (deployed_agents self) []"

lemmas deployer_defs [escrow_defs] =
  AgentDeployer_init_def get_agent_capabilities_def deploy_agent_def deploy_all_agents_def
  verify_deployment_def get_agent_addresses_def

section \<open>The deployer as a state machine\<close>

text \<open>
  A step deploys one agent, of any name, at any clock readings; the reachable states
  are those that steps lead to from a new deployer.
\<close>

inductive deployer_step :: "AgentDeployer \<Rightarrow> AgentDeployer \<Rightarrow> bool" where
  deploy: "deployer_step s (snd (deploy_agent s agent_name now now'))"

inductive deployer_reachable :: "AgentDeployer \<Rightarrow> bool" where
  start: "deployer_reachable (AgentDeployer_init token)"
| step: "deployer_reachable s \<Longrightarrow> deployer_step s t \<Longrightarrow> deployer_reachable t"

inductive_cases deployer_stepE: "deployer_step s t"

text \<open>
  What a recorded result looks like, and the invariant: every name is recorded once,
  with a result of its own that says the agent is deployed.
\<close>

definition deployed_result :: "string \<Rightarrow> pydict \<Rightarrow> bool" where
  "deployed_result n r \<longleftrightarrow>
     dict_get r ''agent_name'' = JStr n \<and> dict_get r ''status'' = JStr ''deployed'' \<and>
     (\<exists>now. dict_get r ''agent_address'' = JStr (''agent_'' @ n @ ''_'' @ show_int now))"

definition deployer_inv :: "AgentDeployer \<Rightarrow> bool" where
  "deployer_inv s \<longleftrightarrow>
     distinct (map fst (deployed_agents s)) \<and>
     list_all (\<lambda>(n, r). deployed_result n r) (deployed_agents s)"

section \<open>Lemmas on folds and on updates of association lists\<close>

lemma fold_all_flag:
  "fold (\<lambda>(n, r) flag. if \<not> P n r then False else flag) xs flag
     \<longleftrightarrow> flag \<and> list_all (\<lambda>(n, r). P n r) xs"
proof (induction xs arbitrary: flag)
  case Nil
  show ?case by simp
next
  case (Cons x xs)
  obtain n r where x: "x = (n, r)" by (cases x)
  show ?case
    unfolding x by (simp add: Cons.IH)
qed

lemma list_all_update:
  "list_all P al \<Longrightarrow> P (k, v) \<Longrightarrow> list_all P (AList.update k v al)"
  by (induction al) auto

section \<open>One deployment\<close>

lemma deploy_agent_result:
  "fst (deploy_agent s n now now') =
     [(''agent_name'', JStr n), (''agent_address'', JStr (''agent_'' @ n @ ''_'' @ show_int now)),
      (''status'', JStr ''deployed''), (''timestamp'', JInt now'),
      (''capabilities'', get_agent_capabilities s n)]"
  by (simp add: deploy_agent_def Let_def)

lemma deploy_agent_state:
  "deployed_agents (snd (deploy_agent s n now now')) =
     AList.update n (fst (deploy_agent s n now now')) (deployed_agents s)"
  "agents (snd (deploy_agent s n now now')) = agents s"
  "api_token (snd (deploy_agent s n now now')) = api_token s"
  by (simp_all add: deploy_agent_def Let_def)

lemma deploy_agent_deployed: "deployed_result n (fst (deploy_agent s n now now'))"
  unfolding deployed_result_def deploy_agent_result
  by (intro conjI exI [of _ now]) simp_all

lemma deploy_agent_keys:
  "fst ` set (deployed_agents (snd (deploy_agent s n now now')))
     = insert n (fst ` set (deployed_agents s))"
  by (simp add: deploy_agent_state dom_update)

lemma deploy_agent_inv:
  assumes "deployer_inv s"
  shows "deployer_inv (snd (deploy_agent s n now now'))"
  using assms deploy_agent_deployed [of n s now now']
  by (simp add: deployer_inv_def deploy_agent_state distinct_update list_all_update)

lemma deployer_inv_init: "deployer_inv (AgentDeployer_init token)"
  by (simp add: deployer_inv_def AgentDeployer_init_def)

lemma deployer_step_inv: "deployer_step s t \<Longrightarrow> deployer_inv s \<Longrightarrow> deployer_inv t"
  by (erule deployer_stepE) (simp add: deploy_agent_inv)

lemma reachable_inv: "deployer_reachable s \<Longrightarrow> deployer_inv s"
  by (induction rule: deployer_reachable.induct)
    (simp_all add: deployer_inv_init deployer_step_inv)

lemma reachable_deploy:
  "deployer_reachable s \<Longrightarrow> deployer_reachable (snd (deploy_agent s n now now'))"
  by (erule deployer_reachable.step) (rule deployer_step.deploy)

lemma reachable_agents:
  "deployer_reachable s \<Longrightarrow> agents s = [''buyer'', ''seller'', ''oracle'', ''arbiter'']"
proof (induction rule: deployer_reachable.induct)
  case (start token)
  show ?case by (simp add: AgentDeployer_init_def)
next
  case (step s t)
  from step.hyps(2) have "agents t = agents s"
    by (rule deployer_stepE) (simp add: deploy_agent_state)
  with step.IH show ?case by simp
qed

section \<open>Reading the state\<close>

lemma verify_deployment_all:
  "verify_deployment s \<longleftrightarrow>
     list_all (\<lambda>(n, r). dict_get r ''status'' = JStr ''deployed'') (deployed_agents s)"
  unfolding verify_deployment_def
  using fold_all_flag [of "\<lambda>n r. dict_get r ''status'' = JStr ''deployed''" _ True]
  by simp

lemma inv_verify: "deployer_inv s \<Longrightarrow> verify_deployment s"
  by (simp add: verify_deployment_all deployer_inv_def deployed_result_def list_all_iff
      case_prod_beta)

lemma inv_addresses:
  assumes "deployer_inv s"
  shows "get_agent_addresses s
    = map (\<lambda>(n, r). (n, dict_get r ''agent_address'')) (deployed_agents s)"
proof -
  from assms have all: "list_all (\<lambda>(n, r). dict_get r ''status'' = JStr ''deployed'')
      (deployed_agents s)" and d: "distinct (map fst (deployed_agents s))"
    by (simp_all add: deployer_inv_def deployed_result_def list_all_iff case_prod_beta)
  have eq: "fold (\<lambda>(agent_name, result) addresses.
             if dict_get result ''status'' = JStr ''deployed''
             then dict_set addresses agent_name (dict_get result ''agent_address'')
             else addresses) kvs acc
      = fold (\<lambda>(k, v) d. dict_set d k (dict_get v ''agent_address'')) kvs acc"
    if "list_all (\<lambda>(n, r). dict_get r ''status'' = JStr ''deployed'') kvs" for kvs acc
    using that by (induction kvs arbitrary: acc) (simp_all add: case_prod_beta)
  have "get_agent_addresses s
      = fold (\<lambda>(k, v) d. dict_set d k (dict_get v ''agent_address'')) (deployed_agents s) []"
    unfolding get_agent_addresses_def by (rule eq [OF all])
  also have "\<dots> = [] @ map (\<lambda>(k, v). (k, dict_get v ''agent_address'')) (deployed_agents s)"
    by (rule fold_dict_set_fresh [OF d]) simp
  finally show ?thesis by simp
qed

section \<open>Deploying all agents\<close>

lemma deploy_loop_Cons:
  "deploy_loop clock i (n # names) (res, s) =
     deploy_loop clock (Suc i) names
       (dict_set res n (JDict (fst (deploy_agent s n (clock (2 * i)) (clock (2 * i + 1))))),
        snd (deploy_agent s n (clock (2 * i)) (clock (2 * i + 1))))"
  by (simp add: case_prod_beta)

declare deploy_loop.simps(2) [simp del]

lemma deploy_loop_reachable:
  "deployer_reachable s \<Longrightarrow> deployer_reachable (snd (deploy_loop clock i names (res, s)))"
proof (induction names arbitrary: i res s)
  case Nil
  then show ?case by simp
next
  case (Cons n names)
  from Cons.prems show ?case
    unfolding deploy_loop_Cons by (intro Cons.IH reachable_deploy)
qed

lemma deploy_loop_keys:
  "fst ` set (deployed_agents (snd (deploy_loop clock i names (res, s))))
     = set names \<union> fst ` set (deployed_agents s)"
proof (induction names arbitrary: i res s)
  case Nil
  then show ?case by simp
next
  case (Cons n names)
  show ?case
    unfolding deploy_loop_Cons Cons.IH deploy_agent_keys by auto
qed

text \<open>The results that the loop returns mirror the state that it leaves.\<close>

definition mirrors :: "pydict \<Rightarrow> AgentDeployer \<Rightarrow> bool" where
  "mirrors res s \<longleftrightarrow> res = map (\<lambda>(n, r). (n, JDict r)) (deployed_agents s)"

lemma mirrors_update:
  "dict_set (map (\<lambda>(n, r). (n, JDict r)) al) k (JDict v)
     = map (\<lambda>(n, r). (n, JDict r)) (AList.update k v al)"
  by (induction al) (auto simp: dict_set_def)

lemma deploy_loop_mirrors:
  "mirrors res s \<Longrightarrow>
     mirrors (fst (deploy_loop clock i names (res, s))) (snd (deploy_loop clock i names (res, s)))"
proof (induction names arbitrary: i res s)
  case Nil
  then show ?case by simp
next
  case (Cons n names)
  from Cons.prems show ?case
    unfolding deploy_loop_Cons
    by (intro Cons.IH) (simp add: mirrors_def mirrors_update deploy_agent_state)
qed

lemma deploy_all_fresh_keys:
  "map fst (deployed_agents (snd (deploy_all_agents (AgentDeployer_init token) clock)))
     = [''buyer'', ''seller'', ''oracle'', ''arbiter'']"
  by (simp add: deploy_all_agents_def AgentDeployer_init_def deploy_loop_Cons
      deploy_agent_state update_keys)

section \<open>Properties of the deployer\<close>

text \<open>
  C10. The invariant of the deployer: in every state that deployments lead to from a
  new deployer, each name is recorded at most once, the result recorded under a name
  carries that name, the status \<^verbatim>\<open>deployed\<close> and an address made of the name and a
  clock reading, and the list of agents is the four of the constructor.
\<close>

theorem deployer_invariant:
  assumes "deployer_reachable s"
  shows "deployer_inv s \<and> agents s = [''buyer'', ''seller'', ''oracle'', ''arbiter'']"
  using assms by (simp add: reachable_inv reachable_agents)

theorem deployer_invariant_witness:
  "deployer_reachable (snd (deploy_agent (AgentDeployer_init ''token'') ''buyer'' 1700000000 1700000001)) \<and>
   deployer_inv (snd (deploy_agent (AgentDeployer_init ''token'') ''buyer'' 1700000000 1700000001))"
proof -
  have r: "deployer_reachable
      (snd (deploy_agent (AgentDeployer_init ''token'') ''buyer'' 1700000000 1700000001))"
    by (intro reachable_deploy deployer_reachable.start)
  from deployer_invariant [OF r] r show ?thesis by simp
qed

text \<open>
  C29. \<^verbatim>\<open>verify_deployment\<close> cannot fail: it answers true in every state that
  deployments lead to, and in a new deployer too, where nothing is deployed. So the
  report of a failed deployment in \<^verbatim>\<open>main\<close> is never printed.
\<close>

theorem verify_deployment_always:
  "(deployer_reachable s \<longrightarrow> verify_deployment s) \<and>
   verify_deployment (AgentDeployer_init token) \<and>
   deployed_agents (AgentDeployer_init token) = []"
  by (simp add: inv_verify reachable_inv)
    (simp add: verify_deployment_def AgentDeployer_init_def)

theorem verify_deployment_always_witness:
  "deployer_reachable (AgentDeployer_init ''token'') \<and>
   verify_deployment (AgentDeployer_init ''token'')"
  using verify_deployment_always [of "AgentDeployer_init ''token''" "''token''"]
    deployer_reachable.start [of "''token''"]
  by simp

text \<open>
  C16. \<^verbatim>\<open>deploy_all_agents\<close> deploys every agent: after it, each name of the list
  of agents is recorded, whatever was recorded before and whatever the clock reads, the
  state is one that deployments lead to, and the results returned are the recorded
  ones when they were so at the start. From a new deployer the four agents are
  recorded in the order buyer, seller, oracle, arbiter.
\<close>

theorem deploy_all_agents_complete:
  fixes clock :: "nat \<Rightarrow> int"
  assumes "deployer_reachable s"
  defines "out \<equiv> deploy_all_agents s clock"
  shows "set (agents s) \<subseteq> fst ` set (deployed_agents (snd out)) \<and>
     deployer_reachable (snd out) \<and> verify_deployment (snd out) \<and>
     (deployed_agents s = [] \<longrightarrow> mirrors (fst out) (snd out))"
proof -
  have m: "deployed_agents s = [] \<Longrightarrow> mirrors [] s"
    by (simp add: mirrors_def)
  from assms(1) have r: "deployer_reachable (snd out)"
    unfolding out_def deploy_all_agents_def by (rule deploy_loop_reachable)
  with m show ?thesis
    unfolding out_def deploy_all_agents_def
    by (simp add: deploy_loop_keys deploy_loop_mirrors inv_verify reachable_inv)
qed

theorem deploy_all_agents_complete_witness:
  "deployer_reachable (AgentDeployer_init ''token'') \<and>
   map fst (deployed_agents (snd (deploy_all_agents (AgentDeployer_init ''token'') (\<lambda>i. int i))))
     = [''buyer'', ''seller'', ''oracle'', ''arbiter''] \<and>
   verify_deployment (snd (deploy_all_agents (AgentDeployer_init ''token'') (\<lambda>i. int i)))"
  using deploy_all_agents_complete [OF deployer_reachable.start, of "''token''" "\<lambda>i. int i"]
    deployer_reachable.start [of "''token''"] deploy_all_fresh_keys [of "''token''" "\<lambda>i. int i"]
  by simp

text \<open>
  In every state that deployments lead to, \<^verbatim>\<open>get_agent_addresses\<close> lists an
  address for every recorded agent, in the order of the records, and the address is
  the one recorded.
\<close>

theorem get_agent_addresses_all:
  assumes "deployer_reachable s"
  shows "get_agent_addresses s
      = map (\<lambda>(n, r). (n, dict_get r ''agent_address'')) (deployed_agents s) \<and>
    map fst (get_agent_addresses s) = map fst (deployed_agents s)"
proof -
  from assms have "deployer_inv s" by (rule reachable_inv)
  from inv_addresses [OF this] show ?thesis
    by (simp add: case_prod_beta comp_def)
qed

theorem get_agent_addresses_all_witness:
  "deployer_reachable (snd (deploy_agent (AgentDeployer_init ''token'') ''oracle'' 17 18)) \<and>
   get_agent_addresses (snd (deploy_agent (AgentDeployer_init ''token'') ''oracle'' 17 18))
     = [(''oracle'', JStr ''agent_oracle_17'')]"
proof -
  have r: "deployer_reachable (snd (deploy_agent (AgentDeployer_init ''token'') ''oracle'' 17 18))"
    by (intro reachable_deploy deployer_reachable.start)
  from get_agent_addresses_all [OF r] r show ?thesis
    by (simp add: deploy_agent_state deploy_agent_result AgentDeployer_init_def digit_char_def)
qed

text \<open>
  Deploying an agent again replaces its record where it stands: the later result
  wins and the order of the records is unchanged.
\<close>

lemma deploy_agent_again:
  "deployed_agents (snd (deploy_agent (snd (deploy_agent s n t1 t1')) n t2 t2'))
     = deployed_agents (snd (deploy_agent s n t2 t2'))"
  by (simp add: deploy_agent_state deploy_agent_result get_agent_capabilities_def)

lemma get_agent_capabilities_unknown:
  "agent_name \<notin> {''buyer'', ''seller'', ''oracle'', ''arbiter''} \<Longrightarrow>
     get_agent_capabilities s agent_name = JDict []"
  by (simp add: get_agent_capabilities_def capabilities_table_def)

section \<open>What the script prints and writes\<close>

text \<open>
  The effects of a run: a line printed (without its line end, in UTF-8), a pause of
  so many seconds, a dictionary written to a file as JSON with an indentation of two
  (\<^verbatim>\<open>json.dump\<close>), and a text written to a file. The names of the two files depend
  on where the script lies; they are arguments, \<open>output_file\<close> and \<open>env_file\<close>.
\<close>

text \<open>
  The pictographs of the printed lines, in UTF-8: the characters U+2705, U+274C,
  U+1F4C1, U+1F680, U+1F50D, U+1F4CB and U+1F389.
\<close>

definition check_mark :: string where
  "check_mark = [CHR 0xE2, CHR 0x9C, CHR 0x85]"

definition cross_mark :: string where
  "cross_mark = [CHR 0xE2, CHR 0x9D, CHR 0x8C]"

definition file_folder :: string where
  "file_folder = [CHR 0xF0, CHR 0x9F, CHR 0x93, CHR 0x81]"

definition rocket :: string where
  "rocket = [CHR 0xF0, CHR 0x9F, CHR 0x9A, CHR 0x80]"

definition magnifier :: string where
  "magnifier = [CHR 0xF0, CHR 0x9F, CHR 0x94, CHR 0x8D]"

definition clipboard :: string where
  "clipboard = [CHR 0xF0, CHR 0x9F, CHR 0x93, CHR 0x8B]"

definition party_popper :: string where
  "party_popper = [CHR 0xF0, CHR 0x9F, CHR 0x8E, CHR 0x89]"

lemmas pictograph_defs =
  check_mark_def cross_mark_def file_folder_def rocket_def magnifier_def clipboard_def
  party_popper_def

datatype effect = Print string | Sleep nat | Dump string pydict | Write string string

fun is_file :: "effect \<Rightarrow> bool" where
  "is_file (Dump f d) = True"
| "is_file (Write f t) = True"
| "is_file _ = False"

definition deploy_agent_effects :: "string \<Rightarrow> int \<Rightarrow> effect list" where
  "deploy_agent_effects agent_name now =
     (let agent_address = ''agent_'' @ agent_name @ ''_'' @ show_int now
      in [Print (''Deploying '' @ utf8 agent_name @ '' agent...''),
          Print (check_mark @ '' '' @ utf8 agent_name @
                 '' agent deployed successfully: '' @ utf8 agent_address)])"

fun deploy_loop_effects :: "(nat \<Rightarrow> int) \<Rightarrow> nat \<Rightarrow> string list \<Rightarrow> effect list" where
  "deploy_loop_effects clock i [] = []"
| "deploy_loop_effects clock i (agent_name # names) =
     deploy_agent_effects agent_name (clock (2 * i)) @ Sleep 1
       # deploy_loop_effects clock (Suc i) names"

definition save_deployment_results :: "string \<Rightarrow> pydict \<Rightarrow> effect list" where
  "save_deployment_results output_file results =
     [Dump output_file results,
      Print (file_folder @ '' Deployment results saved to: '' @
             utf8 output_file)]"

definition deploy_all_agents_effects ::
  "AgentDeployer \<Rightarrow> (nat \<Rightarrow> int) \<Rightarrow> string \<Rightarrow> effect list" where
  "deploy_all_agents_effects self clock output_file =
     Print (rocket @ '' Starting deployment of all agents...'')
       # deploy_loop_effects clock 0 (agents self)
       @ save_deployment_results output_file (fst (deploy_all_agents self clock))
       @ [Print (check_mark @ '' All agents deployed successfully!'')]"

definition verify_deployment_effects :: "AgentDeployer \<Rightarrow> effect list" where
  "verify_deployment_effects self =
     Print (magnifier @ '' Verifying agent deployment...'')
       # map (\<lambda>(agent_name, result).
                if dict_get result ''status'' \<noteq> JStr ''deployed''
                then Print (cross_mark @ '' '' @ utf8 agent_name @
                            '' agent is not deployed'')
                else Print (check_mark @ '' '' @ utf8 agent_name @
                            '' agent is deployed and running''))
           (deployed_agents self)"

text \<open>
  The text of the environment file. An address is written as \<^verbatim>\<open>str\<close> writes it;
  \<open>other\<close> is the text of an address that is a float, a list or a dictionary (see
  \<open>py_str\<close>).
\<close>

definition env_content :: "(json \<Rightarrow> string) \<Rightarrow> pydict \<Rightarrow> int \<Rightarrow> string" where
  "env_content other addresses now =
    (let field = (\<lambda>k. py_str other (dict_get_or addresses k (JStr []))) in
     ''# Agent Addresses (Generated by deployment script)\<newline>'' @
     ''REACT_APP_BUYER_AGENT_ADDRESS='' @ field ''buyer'' @ ''\<newline>'' @
     ''REACT_APP_SELLER_AGENT_ADDRESS='' @ field ''seller'' @ ''\<newline>'' @
     ''REACT_APP_ORACLE_AGENT_ADDRESS='' @ field ''oracle'' @ ''\<newline>'' @
     ''REACT_APP_ARBITER_AGENT_ADDRESS='' @ field ''arbiter'' @ ''\<newline>\<newline>'' @
     ''# Deployment Information\<newline>'' @
     ''DEPLOYMENT_TIMESTAMP='' @ show_int now @ ''\<newline>'' @
     ''DEPLOYMENT_STATUS=completed\<newline>'')"

definition create_environment_file ::
  "AgentDeployer \<Rightarrow> (json \<Rightarrow> string) \<Rightarrow> string \<Rightarrow> int \<Rightarrow> effect list" where
  "create_environment_file self other env_file now =
     (let addresses = get_agent_addresses self
      in [Write env_file (utf8 (env_content other addresses now)),
          Print (file_folder @ '' Agent addresses saved to: '' @
                 utf8 env_file)])"

text \<open>
  \<^verbatim>\<open>main\<close>. The argument \<open>token\<close> is the environment variable \<^verbatim>\<open>AGENTVERSE_API_TOKEN\<close>,
  \<open>None\<close> when it is unset. The deployment of the \<open>n\<close> agents reads the clock
  \<open>2 * n\<close> times, so the environment file is stamped at the tick \<open>2 * n\<close>.
\<close>

definition no_token :: "effect list" where
  "no_token =
     [Print (cross_mark @
             '' AGENTVERSE_API_TOKEN environment variable not set''),
      Print ''Please set your Agentverse API token:'',
      Print ''export AGENTVERSE_API_TOKEN=your_token_here'']"

definition deployment_failed :: effect where
  "deployment_failed =
     Print (cross_mark @
            '' Some agents failed to deploy. Please check the logs above.'')"

definition main ::
  "string option \<Rightarrow> (nat \<Rightarrow> int) \<Rightarrow> (json \<Rightarrow> string) \<Rightarrow> string \<Rightarrow> string \<Rightarrow> effect list" where
  "main token clock other output_file env_file =
     (case token of
        None \<Rightarrow> no_token
      | Some api_token' \<Rightarrow>
          if \<not> truthy api_token' then no_token
          else
            (let deployer = AgentDeployer_init api_token';
                 (results, deployer') = deploy_all_agents deployer clock
             in deploy_all_agents_effects deployer clock output_file
                @ verify_deployment_effects deployer'
                @ (if verify_deployment deployer'
                   then Print (check_mark @
                               '' All agents deployed and verified successfully!'')
                     # create_environment_file deployer' other env_file
                         (clock (2 * length (agents deployer)))
                     @ Print (''\<newline>'' @ clipboard @
                              '' Deployed Agent Addresses:'')
                     # map (\<lambda>(agent_name, address).
                              Print (''  '' @ utf8 agent_name @ '': '' @
                                     utf8 (py_str other address)))
                         (get_agent_addresses deployer')
                     @ [Print (''\<newline>'' @ party_popper @
                               '' Deployment complete! You can now use the agents in your '' @
                               ''application.'')]
                   else [deployment_failed])))"

lemmas deployer_effect_defs [escrow_defs] =
  deploy_agent_effects_def save_deployment_results_def deploy_all_agents_effects_def
  verify_deployment_effects_def create_environment_file_def no_token_def

section \<open>A run of the script\<close>

text \<open>The record that \<^verbatim>\<open>deploy_agent\<close> makes for an agent.\<close>

definition deployment_record :: "string \<Rightarrow> int \<Rightarrow> int \<Rightarrow> pydict" where
  "deployment_record n now now' =
     [(''agent_name'', JStr n), (''agent_address'', JStr (''agent_'' @ n @ ''_'' @ show_int now)),
      (''status'', JStr ''deployed''), (''timestamp'', JInt now'),
      (''capabilities'', dict_get_or capabilities_table n (JDict []))]"

lemma deploy_agent_record:
  "fst (deploy_agent s n now now') = deployment_record n now now'"
  by (simp add: deploy_agent_result deployment_record_def get_agent_capabilities_def)

lemma deploy_all_new:
  fixes clock :: "nat \<Rightarrow> int" and token :: string
  defines "out \<equiv> deploy_all_agents (AgentDeployer_init token) clock"
  defines "records \<equiv>
     [(''buyer'', deployment_record ''buyer'' (clock 0) (clock 1)),
      (''seller'', deployment_record ''seller'' (clock 2) (clock 3)),
      (''oracle'', deployment_record ''oracle'' (clock 4) (clock 5)),
      (''arbiter'', deployment_record ''arbiter'' (clock 6) (clock 7))]"
  shows "deployed_agents (snd out) = records"
    and "fst out = map (\<lambda>(n, r). (n, JDict r)) records"
    and "agents (snd out) = [''buyer'', ''seller'', ''oracle'', ''arbiter'']"
  unfolding out_def records_def
  by (simp_all add: deploy_all_agents_def AgentDeployer_init_def deploy_loop_Cons
      deploy_agent_state deploy_agent_record dict_set_def)

lemma deploy_all_new_addresses:
  "get_agent_addresses (snd (deploy_all_agents (AgentDeployer_init token) clock)) =
     [(''buyer'', JStr (''agent_buyer_'' @ show_int (clock 0))),
      (''seller'', JStr (''agent_seller_'' @ show_int (clock 2))),
      (''oracle'', JStr (''agent_oracle_'' @ show_int (clock 4))),
      (''arbiter'', JStr (''agent_arbiter_'' @ show_int (clock 6)))]"
  by (simp add: get_agent_addresses_def deploy_all_new deployment_record_def dict_set_def)

lemma deploy_all_new_verified:
  "verify_deployment (snd (deploy_all_agents (AgentDeployer_init token) clock))"
  by (simp add: verify_deployment_def deploy_all_new deployment_record_def)

lemma main_run_trace:
  assumes "t \<noteq> []"
  shows "main (Some t) clock other output_file env_file =
    [Print (rocket @ '' Starting deployment of all agents...''),
     Print ''Deploying buyer agent...'',
     Print (check_mark @ '' buyer agent deployed successfully: agent_buyer_''
            @ show_int (clock 0)),
     Sleep 1,
     Print ''Deploying seller agent...'',
     Print (check_mark @ '' seller agent deployed successfully: agent_seller_''
            @ show_int (clock 2)),
     Sleep 1,
     Print ''Deploying oracle agent...'',
     Print (check_mark @ '' oracle agent deployed successfully: agent_oracle_''
            @ show_int (clock 4)),
     Sleep 1,
     Print ''Deploying arbiter agent...'',
     Print (check_mark @ '' arbiter agent deployed successfully: agent_arbiter_''
            @ show_int (clock 6)),
     Sleep 1,
     Dump output_file
       [(''buyer'', JDict (deployment_record ''buyer'' (clock 0) (clock 1))),
        (''seller'', JDict (deployment_record ''seller'' (clock 2) (clock 3))),
        (''oracle'', JDict (deployment_record ''oracle'' (clock 4) (clock 5))),
        (''arbiter'', JDict (deployment_record ''arbiter'' (clock 6) (clock 7)))],
     Print (file_folder @ '' Deployment results saved to: '' @ utf8 output_file),
     Print (check_mark @ '' All agents deployed successfully!''),
     Print (magnifier @ '' Verifying agent deployment...''),
     Print (check_mark @ '' buyer agent is deployed and running''),
     Print (check_mark @ '' seller agent is deployed and running''),
     Print (check_mark @ '' oracle agent is deployed and running''),
     Print (check_mark @ '' arbiter agent is deployed and running''),
     Print (check_mark @ '' All agents deployed and verified successfully!''),
     Write env_file
       (''# Agent Addresses (Generated by deployment script)\<newline>'' @
        ''REACT_APP_BUYER_AGENT_ADDRESS=agent_buyer_'' @ show_int (clock 0) @ ''\<newline>'' @
        ''REACT_APP_SELLER_AGENT_ADDRESS=agent_seller_'' @ show_int (clock 2) @ ''\<newline>'' @
        ''REACT_APP_ORACLE_AGENT_ADDRESS=agent_oracle_'' @ show_int (clock 4) @ ''\<newline>'' @
        ''REACT_APP_ARBITER_AGENT_ADDRESS=agent_arbiter_'' @ show_int (clock 6) @
        ''\<newline>\<newline># Deployment Information\<newline>'' @
        ''DEPLOYMENT_TIMESTAMP='' @ show_int (clock 8) @ ''\<newline>'' @
        ''DEPLOYMENT_STATUS=completed\<newline>''),
     Print (file_folder @ '' Agent addresses saved to: '' @ utf8 env_file),
     Print (''\<newline>'' @ clipboard @ '' Deployed Agent Addresses:''),
     Print (''  buyer: agent_buyer_'' @ show_int (clock 0)),
     Print (''  seller: agent_seller_'' @ show_int (clock 2)),
     Print (''  oracle: agent_oracle_'' @ show_int (clock 4)),
     Print (''  arbiter: agent_arbiter_'' @ show_int (clock 6)),
     Print (''\<newline>'' @ party_popper @
            '' Deployment complete! You can now use the agents in your application.'')]"
proof -
  let ?out = "deploy_all_agents (AgentDeployer_init t) clock"
  have effects: "deploy_all_agents_effects (AgentDeployer_init t) clock output_file @
      verify_deployment_effects (snd ?out) =
    [Print (rocket @ '' Starting deployment of all agents...''),
     Print ''Deploying buyer agent...'',
     Print (check_mark @ '' buyer agent deployed successfully: agent_buyer_''
            @ show_int (clock 0)),
     Sleep 1,
     Print ''Deploying seller agent...'',
     Print (check_mark @ '' seller agent deployed successfully: agent_seller_''
            @ show_int (clock 2)),
     Sleep 1,
     Print ''Deploying oracle agent...'',
     Print (check_mark @ '' oracle agent deployed successfully: agent_oracle_''
            @ show_int (clock 4)),
     Sleep 1,
     Print ''Deploying arbiter agent...'',
     Print (check_mark @ '' arbiter agent deployed successfully: agent_arbiter_''
            @ show_int (clock 6)),
     Sleep 1,
     Dump output_file
       [(''buyer'', JDict (deployment_record ''buyer'' (clock 0) (clock 1))),
        (''seller'', JDict (deployment_record ''seller'' (clock 2) (clock 3))),
        (''oracle'', JDict (deployment_record ''oracle'' (clock 4) (clock 5))),
        (''arbiter'', JDict (deployment_record ''arbiter'' (clock 6) (clock 7)))],
     Print (file_folder @ '' Deployment results saved to: '' @ utf8 output_file),
     Print (check_mark @ '' All agents deployed successfully!''),
     Print (magnifier @ '' Verifying agent deployment...''),
     Print (check_mark @ '' buyer agent is deployed and running''),
     Print (check_mark @ '' seller agent is deployed and running''),
     Print (check_mark @ '' oracle agent is deployed and running''),
     Print (check_mark @ '' arbiter agent is deployed and running'')]"
    by (simp add: deployer_effect_defs deploy_all_new Let_def)
      (simp add: AgentDeployer_init_def deployment_record_def deploy_agent_effects_def)
  have n: "2 * length (agents (AgentDeployer_init t)) = 8"
    by (simp add: AgentDeployer_init_def)
  from assms show ?thesis
    by (simp add: main_def Let_def case_prod_beta n effects [simplified] env_content_def
        deploy_all_new_verified deploy_all_new_addresses create_environment_file_def)
qed

text \<open>
  C13. A run of the script with a token, from the first line to the last. The four
  agents are deployed in the order buyer, seller, oracle, arbiter, each at its own
  clock reading and with a pause after it; the results are written to the results
  file; the verification finds every agent deployed; the environment file is written
  with the four addresses and the clock reading after the deployments; the addresses
  are listed. The line that reports a failed deployment is not among them.
\<close>

theorem main_run:
  assumes "t \<noteq> []"
  shows "main (Some t) clock other output_file env_file =
    [Print (rocket @ '' Starting deployment of all agents...''),
     Print ''Deploying buyer agent...'',
     Print (check_mark @ '' buyer agent deployed successfully: agent_buyer_''
            @ show_int (clock 0)),
     Sleep 1,
     Print ''Deploying seller agent...'',
     Print (check_mark @ '' seller agent deployed successfully: agent_seller_''
            @ show_int (clock 2)),
     Sleep 1,
     Print ''Deploying oracle agent...'',
     Print (check_mark @ '' oracle agent deployed successfully: agent_oracle_''
            @ show_int (clock 4)),
     Sleep 1,
     Print ''Deploying arbiter agent...'',
     Print (check_mark @ '' arbiter agent deployed successfully: agent_arbiter_''
            @ show_int (clock 6)),
     Sleep 1,
     Dump output_file
       [(''buyer'', JDict (deployment_record ''buyer'' (clock 0) (clock 1))),
        (''seller'', JDict (deployment_record ''seller'' (clock 2) (clock 3))),
        (''oracle'', JDict (deployment_record ''oracle'' (clock 4) (clock 5))),
        (''arbiter'', JDict (deployment_record ''arbiter'' (clock 6) (clock 7)))],
     Print (file_folder @ '' Deployment results saved to: '' @ utf8 output_file),
     Print (check_mark @ '' All agents deployed successfully!''),
     Print (magnifier @ '' Verifying agent deployment...''),
     Print (check_mark @ '' buyer agent is deployed and running''),
     Print (check_mark @ '' seller agent is deployed and running''),
     Print (check_mark @ '' oracle agent is deployed and running''),
     Print (check_mark @ '' arbiter agent is deployed and running''),
     Print (check_mark @ '' All agents deployed and verified successfully!''),
     Write env_file
       (''# Agent Addresses (Generated by deployment script)\<newline>'' @
        ''REACT_APP_BUYER_AGENT_ADDRESS=agent_buyer_'' @ show_int (clock 0) @ ''\<newline>'' @
        ''REACT_APP_SELLER_AGENT_ADDRESS=agent_seller_'' @ show_int (clock 2) @ ''\<newline>'' @
        ''REACT_APP_ORACLE_AGENT_ADDRESS=agent_oracle_'' @ show_int (clock 4) @ ''\<newline>'' @
        ''REACT_APP_ARBITER_AGENT_ADDRESS=agent_arbiter_'' @ show_int (clock 6) @
        ''\<newline>\<newline># Deployment Information\<newline>'' @
        ''DEPLOYMENT_TIMESTAMP='' @ show_int (clock 8) @ ''\<newline>'' @
        ''DEPLOYMENT_STATUS=completed\<newline>''),
     Print (file_folder @ '' Agent addresses saved to: '' @ utf8 env_file),
     Print (''\<newline>'' @ clipboard @ '' Deployed Agent Addresses:''),
     Print (''  buyer: agent_buyer_'' @ show_int (clock 0)),
     Print (''  seller: agent_seller_'' @ show_int (clock 2)),
     Print (''  oracle: agent_oracle_'' @ show_int (clock 4)),
     Print (''  arbiter: agent_arbiter_'' @ show_int (clock 6)),
     Print (''\<newline>'' @ party_popper @
            '' Deployment complete! You can now use the agents in your application.'')]"
  using assms by (rule main_run_trace)

theorem main_run_witness:
  "filter is_file (main (Some ''token'') (\<lambda>i. 1700000000 + int i) (\<lambda>v. [])
       ''deployment_results.json'' ''.env.agents'') =
     [Dump ''deployment_results.json''
        [(''buyer'', JDict (deployment_record ''buyer'' 1700000000 1700000001)),
         (''seller'', JDict (deployment_record ''seller'' 1700000002 1700000003)),
         (''oracle'', JDict (deployment_record ''oracle'' 1700000004 1700000005)),
         (''arbiter'', JDict (deployment_record ''arbiter'' 1700000006 1700000007))],
      Write ''.env.agents''
        (''# Agent Addresses (Generated by deployment script)\<newline>'' @
         ''REACT_APP_BUYER_AGENT_ADDRESS=agent_buyer_1700000000\<newline>'' @
         ''REACT_APP_SELLER_AGENT_ADDRESS=agent_seller_1700000002\<newline>'' @
         ''REACT_APP_ORACLE_AGENT_ADDRESS=agent_oracle_1700000004\<newline>'' @
         ''REACT_APP_ARBITER_AGENT_ADDRESS=agent_arbiter_1700000006\<newline>\<newline>'' @
         ''# Deployment Information\<newline>'' @
         ''DEPLOYMENT_TIMESTAMP=1700000008\<newline>'' @
         ''DEPLOYMENT_STATUS=completed\<newline>'')]"
  using main_run [of "''token''" "\<lambda>i. 1700000000 + int i" "\<lambda>v. []"
      "''deployment_results.json''" "''.env.agents''"]
  by (simp add: digit_char_def)

text \<open>
  Without a token the script prints how to set one and does nothing else; and
  whatever the token is, the line that reports a failed deployment is not printed.
\<close>

lemma main_no_token:
  "main None clock other output_file env_file = no_token"
  "main (Some []) clock other output_file env_file = no_token"
  by (simp_all add: main_def)

lemma main_never_fails:
  "deployment_failed \<notin> set (main token clock other output_file env_file)"
proof (cases "token = None \<or> token = Some []")
  case True
  then show ?thesis
    by (auto simp: main_no_token no_token_def deployment_failed_def)
next
  case False
  then obtain t where "token = Some t" "t \<noteq> []" by (cases token) auto
  with main_run_trace [of t clock other output_file env_file] show ?thesis
    by (simp add: deployment_failed_def pictograph_defs)
qed

end
