(* ===== verification/Models_Requests.thy ===== *)
theory Models_Requests
  imports Models
begin

text \<open>
  The remaining dataclasses of \<^verbatim>\<open>shared/models.py\<close>: the capabilities, metrics and
  session records and the requests, responses and notifications that the agents are
  to exchange. As in the theory \<open>Models\<close>, a dataclass is a record with the source's
  fields in the source's order, \<open>C_defaults\<close> is the constructor that the decorator
  generates (its arguments are the fields without a default, primed), and a class with
  a \<^verbatim>\<open>__post_init__\<close> has \<open>C_post_init\<close> and \<open>C_new\<close>, the two in sequence. No
  function of the repository builds or reads these records yet. Their fields share
  names with each other and with the records of \<open>Models\<close>; a field is written with
  the record's name first.
\<close>

section \<open>Dataclasses\<close>

text \<open>\<^verbatim>\<open>AgentCapabilities\<close>: agent capabilities and information.\<close>

record AgentCapabilities =
  agent_address :: string
  agent_type :: string
  supported_chains :: "ChainType list"
  supported_assets :: "AssetType list"
  supported_escrow_types :: "TradeType list"
  max_escrow_value :: "string option"
  fee_structure :: "((string \<times> pyfloat) list) option"
  is_active :: bool
  last_heartbeat :: int

definition AgentCapabilities_defaults ::
  "string \<Rightarrow> string \<Rightarrow> (ChainType list) \<Rightarrow> (AssetType list) \<Rightarrow> (TradeType list) \<Rightarrow> AgentCapabilities" where
  "AgentCapabilities_defaults agent_address' agent_type'
      supported_chains' supported_assets' supported_escrow_types' =
     \<lparr>agent_address = agent_address', agent_type = agent_type',
      supported_chains = supported_chains', supported_assets = supported_assets',
      supported_escrow_types = supported_escrow_types', max_escrow_value = None,
      fee_structure = None, is_active = True, last_heartbeat = 0\<rparr>"

definition AgentCapabilities_post_init :: "AgentCapabilities \<Rightarrow> AgentCapabilities" where
  "AgentCapabilities_post_init self =
     (if AgentCapabilities.fee_structure self = None
      then self\<lparr>AgentCapabilities.fee_structure := Some []\<rparr> else self)"

definition AgentCapabilities_new ::
  "string \<Rightarrow> string \<Rightarrow> (ChainType list) \<Rightarrow> (AssetType list) \<Rightarrow> (TradeType list) \<Rightarrow> AgentCapabilities" where
  "AgentCapabilities_new agent_address' agent_type'
      supported_chains' supported_assets' supported_escrow_types' =
     AgentCapabilities_post_init
       (AgentCapabilities_defaults agent_address' agent_type'
          supported_chains' supported_assets' supported_escrow_types')"

text \<open>\<^verbatim>\<open>EscrowMetrics\<close>: system metrics.\<close>

record EscrowMetrics =
  total_escrows :: int
  active_escrows :: int
  completed_escrows :: int
  disputed_escrows :: int
  total_volume :: string
  success_rate :: pyfloat
  average_settlement_time_hours :: pyfloat

definition EscrowMetrics_defaults :: "EscrowMetrics" where
  "EscrowMetrics_defaults =
     \<lparr>total_escrows = 0, active_escrows = 0, completed_escrows = 0,
      disputed_escrows = 0, total_volume = ''0'', success_rate = float_0_0,
      average_settlement_time_hours = float_0_0\<rparr>"

text \<open>\<^verbatim>\<open>FrontendSession\<close>: frontend session information.\<close>

record FrontendSession =
  session_id :: string
  user_address :: string
  role :: UserRole
  escrow_id :: "string option"
  created_at :: int
  last_activity :: int
  metadata :: "pydict option"

definition FrontendSession_defaults ::
  "string \<Rightarrow> string \<Rightarrow> UserRole \<Rightarrow> FrontendSession" where
  "FrontendSession_defaults session_id' user_address' role' =
     \<lparr>session_id = session_id', user_address = user_address', role = role',
      escrow_id = None, created_at = 0, last_activity = 0, metadata = None\<rparr>"

definition FrontendSession_post_init :: "FrontendSession \<Rightarrow> FrontendSession" where
  "FrontendSession_post_init self =
     (if FrontendSession.metadata self = None
      then self\<lparr>FrontendSession.metadata := Some []\<rparr> else self)"

definition FrontendSession_new ::
  "string \<Rightarrow> string \<Rightarrow> UserRole \<Rightarrow> FrontendSession" where
  "FrontendSession_new session_id' user_address' role' =
     FrontendSession_post_init (FrontendSession_defaults session_id' user_address' role')"

text \<open>\<^verbatim>\<open>CreateEscrowRequest\<close>: request to create a new escrow.\<close>

record CreateEscrowRequest =
  escrow_id :: string
  trade_type :: TradeType
  buyer_address :: string
  seller_address :: string
  arbiter_address :: string
  asset_a :: Asset
  asset_b :: Asset
  terms :: EscrowTerms
  frontend_callback_url :: "string option"

definition CreateEscrowRequest_defaults ::
  "string \<Rightarrow> TradeType \<Rightarrow> string \<Rightarrow> string \<Rightarrow> string \<Rightarrow> Asset \<Rightarrow> Asset \<Rightarrow> EscrowTerms \<Rightarrow> CreateEscrowRequest" where
  "CreateEscrowRequest_defaults escrow_id' trade_type' buyer_address' seller_address'
      arbiter_address' asset_a' asset_b' terms' =
     \<lparr>escrow_id = escrow_id', trade_type = trade_type',
      buyer_address = buyer_address', seller_address = seller_address',
      arbiter_address = arbiter_address', asset_a = asset_a', asset_b = asset_b',
      terms = terms', frontend_callback_url = None\<rparr>"

text \<open>\<^verbatim>\<open>CreateEscrowResponse\<close>: response from escrow creation.\<close>

record CreateEscrowResponse =
  success :: bool
  escrow_id :: string
  contract_address :: "string option"
  error_message :: "string option"

definition CreateEscrowResponse_defaults ::
  "bool \<Rightarrow> string \<Rightarrow> CreateEscrowResponse" where
  "CreateEscrowResponse_defaults success' escrow_id' =
     \<lparr>success = success', escrow_id = escrow_id', contract_address = None,
      error_message = None\<rparr>"

text \<open>\<^verbatim>\<open>DepositRequest\<close>: request to deposit assets.\<close>

record DepositRequest =
  escrow_id :: string
  asset :: Asset
  transaction_hash :: "string option"
  confirmation_blocks :: int

definition DepositRequest_defaults ::
  "string \<Rightarrow> Asset \<Rightarrow> DepositRequest" where
  "DepositRequest_defaults escrow_id' asset' =
     \<lparr>escrow_id = escrow_id', asset = asset', transaction_hash = None,
      confirmation_blocks = 1\<rparr>"

text \<open>\<^verbatim>\<open>DepositConfirmation\<close>: confirmation of asset deposit.\<close>

record DepositConfirmation =
  success :: bool
  escrow_id :: string
  transaction_hash :: "string option"
  block_number :: "int option"
  error_message :: "string option"

definition DepositConfirmation_defaults ::
  "bool \<Rightarrow> string \<Rightarrow> DepositConfirmation" where
  "DepositConfirmation_defaults success' escrow_id' =
     \<lparr>success = success', escrow_id = escrow_id', transaction_hash = None,
      block_number = None, error_message = None\<rparr>"

text \<open>\<^verbatim>\<open>FulfillmentRequest\<close>: request to fulfill obligations.\<close>

record FulfillmentRequest =
  escrow_id :: string
  fulfillment_type :: string
  transaction_hash :: "string option"
  fiat_payment_proof :: "string option"
  cross_chain_proof :: "string option"

definition FulfillmentRequest_defaults ::
  "string \<Rightarrow> string \<Rightarrow> FulfillmentRequest" where
  "FulfillmentRequest_defaults escrow_id' fulfillment_type' =
     \<lparr>escrow_id = escrow_id', fulfillment_type = fulfillment_type',
      transaction_hash = None, fiat_payment_proof = None, cross_chain_proof = None\<rparr>"

text \<open>\<^verbatim>\<open>FulfillmentConfirmation\<close>: confirmation of fulfillment.\<close>

record FulfillmentConfirmation =
  success :: bool
  escrow_id :: string
  verification_data :: "pydict option"
  error_message :: "string option"

definition FulfillmentConfirmation_defaults ::
  "bool \<Rightarrow> string \<Rightarrow> FulfillmentConfirmation" where
  "FulfillmentConfirmation_defaults success' escrow_id' =
     \<lparr>success = success', escrow_id = escrow_id', verification_data = None,
      error_message = None\<rparr>"

text \<open>\<^verbatim>\<open>ReleaseRequest\<close>: request to release funds.\<close>

record ReleaseRequest =
  escrow_id :: string
  reason :: string
  arbiter_signature :: "string option"

definition ReleaseRequest_defaults ::
  "string \<Rightarrow> string \<Rightarrow> ReleaseRequest" where
  "ReleaseRequest_defaults escrow_id' reason' =
     \<lparr>escrow_id = escrow_id', reason = reason', arbiter_signature = None\<rparr>"

text \<open>\<^verbatim>\<open>RefundRequest\<close>: request to refund funds.\<close>

record RefundRequest =
  escrow_id :: string
  reason :: string
  arbiter_signature :: "string option"

definition RefundRequest_defaults ::
  "string \<Rightarrow> string \<Rightarrow> RefundRequest" where
  "RefundRequest_defaults escrow_id' reason' =
     \<lparr>escrow_id = escrow_id', reason = reason', arbiter_signature = None\<rparr>"

text \<open>\<^verbatim>\<open>ReleaseConfirmation\<close>: confirmation of fund release.\<close>

record ReleaseConfirmation =
  success :: bool
  escrow_id :: string
  transaction_hash :: "string option"
  error_message :: "string option"

definition ReleaseConfirmation_defaults ::
  "bool \<Rightarrow> string \<Rightarrow> ReleaseConfirmation" where
  "ReleaseConfirmation_defaults success' escrow_id' =
     \<lparr>success = success', escrow_id = escrow_id', transaction_hash = None,
      error_message = None\<rparr>"

text \<open>\<^verbatim>\<open>DisputeRequest\<close>: request to raise a dispute.\<close>

record DisputeRequest =
  escrow_id :: string
  dispute_reason :: string
  evidence :: "DisputeEvidence list"
  requesting_party :: string

definition DisputeRequest_defaults ::
  "string \<Rightarrow> string \<Rightarrow> (DisputeEvidence list) \<Rightarrow> string \<Rightarrow> DisputeRequest" where
  "DisputeRequest_defaults escrow_id' dispute_reason' evidence' requesting_party' =
     \<lparr>escrow_id = escrow_id', dispute_reason = dispute_reason', evidence = evidence',
      requesting_party = requesting_party'\<rparr>"

text \<open>\<^verbatim>\<open>DisputeResponse\<close>: response to dispute request.\<close>

record DisputeResponse =
  success :: bool
  escrow_id :: string
  dispute_id :: string
  arbiter_assigned :: string
  status :: string
  error_message :: "string option"

definition DisputeResponse_defaults ::
  "bool \<Rightarrow> string \<Rightarrow> string \<Rightarrow> string \<Rightarrow> string \<Rightarrow> DisputeResponse" where
  "DisputeResponse_defaults success' escrow_id' dispute_id' arbiter_assigned' status' =
     \<lparr>success = success', escrow_id = escrow_id', dispute_id = dispute_id',
      arbiter_assigned = arbiter_assigned', status = status', error_message = None\<rparr>"

text \<open>\<^verbatim>\<open>ArbiterDecision\<close>: arbiter's decision on a dispute.\<close>

record ArbiterDecision =
  escrow_id :: string
  dispute_id :: string
  decision :: string
  reasoning :: string
  evidence_required :: "(string list) option"

definition ArbiterDecision_defaults ::
  "string \<Rightarrow> string \<Rightarrow> string \<Rightarrow> string \<Rightarrow> ArbiterDecision" where
  "ArbiterDecision_defaults escrow_id' dispute_id' decision' reasoning' =
     \<lparr>escrow_id = escrow_id', dispute_id = dispute_id', decision = decision',
      reasoning = reasoning', evidence_required = None\<rparr>"

text \<open>\<^verbatim>\<open>OracleVerificationRequest\<close>: request for oracle verification.\<close>

record OracleVerificationRequest =
  escrow_id :: string
  transaction_hash :: string
  expected_amount :: string
  expected_token :: string
  chain_id :: int

definition OracleVerificationRequest_defaults ::
  "string \<Rightarrow> string \<Rightarrow> string \<Rightarrow> string \<Rightarrow> int \<Rightarrow> OracleVerificationRequest" where
  "OracleVerificationRequest_defaults escrow_id' transaction_hash'
      expected_amount' expected_token' chain_id' =
     \<lparr>escrow_id = escrow_id', transaction_hash = transaction_hash',
      expected_amount = expected_amount', expected_token = expected_token',
      chain_id = chain_id'\<rparr>"

text \<open>\<^verbatim>\<open>OracleVerificationResponse\<close>: response from oracle verification.\<close>

record OracleVerificationResponse =
  verified :: bool
  escrow_id :: string
  actual_amount :: "string option"
  block_number :: "int option"
  confidence_score :: "pyfloat option"
  error_message :: "string option"

definition OracleVerificationResponse_defaults ::
  "bool \<Rightarrow> string \<Rightarrow> OracleVerificationResponse" where
  "OracleVerificationResponse_defaults verified' escrow_id' =
     \<lparr>verified = verified', escrow_id = escrow_id', actual_amount = None,
      block_number = None, confidence_score = None, error_message = None\<rparr>"

text \<open>\<^verbatim>\<open>FrontendNotification\<close>: notification to frontend.\<close>

record FrontendNotification =
  escrow_id :: string
  status :: string
  message :: string
  action_required :: "string option"
  frontend_callback_url :: string

definition FrontendNotification_defaults ::
  "string \<Rightarrow> string \<Rightarrow> string \<Rightarrow> FrontendNotification" where
  "FrontendNotification_defaults escrow_id' status' message' =
     \<lparr>escrow_id = escrow_id', status = status', message = message',
      action_required = None, frontend_callback_url = []\<rparr>"

text \<open>\<^verbatim>\<open>FrontendCallback\<close>: callback from frontend.\<close>

record FrontendCallback =
  action :: string
  escrow_id :: string
  user_data :: pydict
  frontend_session_id :: string

definition FrontendCallback_defaults ::
  "string \<Rightarrow> string \<Rightarrow> pydict \<Rightarrow> string \<Rightarrow> FrontendCallback" where
  "FrontendCallback_defaults action' escrow_id' user_data' frontend_session_id' =
     \<lparr>action = action', escrow_id = escrow_id', user_data = user_data',
      frontend_session_id = frontend_session_id'\<rparr>"

text \<open>\<^verbatim>\<open>EscrowStatusUpdate\<close>: status update for escrow.\<close>

record EscrowStatusUpdate =
  escrow_id :: string
  new_status :: EscrowState
  previous_status :: EscrowState
  update_reason :: string
  metadata :: "pydict option"

definition EscrowStatusUpdate_defaults ::
  "string \<Rightarrow> EscrowState \<Rightarrow> EscrowState \<Rightarrow> string \<Rightarrow> EscrowStatusUpdate" where
  "EscrowStatusUpdate_defaults escrow_id' new_status' previous_status' update_reason' =
     \<lparr>escrow_id = escrow_id', new_status = new_status',
      previous_status = previous_status', update_reason = update_reason', metadata = None\<rparr>"

definition EscrowStatusUpdate_post_init :: "EscrowStatusUpdate \<Rightarrow> EscrowStatusUpdate" where
  "EscrowStatusUpdate_post_init self =
     (if EscrowStatusUpdate.metadata self = None
      then self\<lparr>EscrowStatusUpdate.metadata := Some []\<rparr> else self)"

definition EscrowStatusUpdate_new ::
  "string \<Rightarrow> EscrowState \<Rightarrow> EscrowState \<Rightarrow> string \<Rightarrow> EscrowStatusUpdate" where
  "EscrowStatusUpdate_new escrow_id' new_status' previous_status' update_reason' =
     EscrowStatusUpdate_post_init
       (EscrowStatusUpdate_defaults escrow_id' new_status'
          previous_status' update_reason')"

section \<open>Properties\<close>

lemmas requests_post_init_defs [escrow_defs] =
  AgentCapabilities_post_init_def AgentCapabilities_new_def FrontendSession_post_init_def FrontendSession_new_def EscrowStatusUpdate_post_init_def EscrowStatusUpdate_new_def

lemma AgentCapabilities_post_init_present: "AgentCapabilities.fee_structure (AgentCapabilities_post_init self) \<noteq> None"
  by (simp add: AgentCapabilities_post_init_def)

lemma AgentCapabilities_post_init_idem:
  "AgentCapabilities_post_init (AgentCapabilities_post_init self) = AgentCapabilities_post_init self"
  by (simp add: AgentCapabilities_post_init_def)

lemma AgentCapabilities_post_init_given:
  "AgentCapabilities.fee_structure self = Some v \<Longrightarrow> AgentCapabilities_post_init self = self"
  by (simp add: AgentCapabilities_post_init_def)

lemma FrontendSession_post_init_present: "FrontendSession.metadata (FrontendSession_post_init self) \<noteq> None"
  by (simp add: FrontendSession_post_init_def)

lemma FrontendSession_post_init_idem:
  "FrontendSession_post_init (FrontendSession_post_init self) = FrontendSession_post_init self"
  by (simp add: FrontendSession_post_init_def)

lemma FrontendSession_post_init_given:
  "FrontendSession.metadata self = Some v \<Longrightarrow> FrontendSession_post_init self = self"
  by (simp add: FrontendSession_post_init_def)

lemma EscrowStatusUpdate_post_init_present: "EscrowStatusUpdate.metadata (EscrowStatusUpdate_post_init self) \<noteq> None"
  by (simp add: EscrowStatusUpdate_post_init_def)

lemma EscrowStatusUpdate_post_init_idem:
  "EscrowStatusUpdate_post_init (EscrowStatusUpdate_post_init self) = EscrowStatusUpdate_post_init self"
  by (simp add: EscrowStatusUpdate_post_init_def)

lemma EscrowStatusUpdate_post_init_given:
  "EscrowStatusUpdate.metadata self = Some v \<Longrightarrow> EscrowStatusUpdate_post_init self = self"
  by (simp add: EscrowStatusUpdate_post_init_def)

end
