(* ===== verification/Identifiers.thy ===== *)
theory Identifiers
  imports Escrow_Prelude
begin

text \<open>
  The identifier generators of \<^verbatim>\<open>shared/utils.py\<close>: \<^verbatim>\<open>generate_escrow_id\<close>,
  \<^verbatim>\<open>generate_dispute_id\<close> and \<^verbatim>\<open>generate_session_id\<close>. An identifier is a
  prefix, the clock reading in whole seconds, and the first characters of the MD5
  digest of a text made of that reading and a second clock reading. What the
  generators take from outside is an argument of the model:
  \<^item> \<open>md5_hex\<close>, the hexadecimal MD5 digest of a text
    (\<^verbatim>\<open>hashlib.md5(text.encode()).hexdigest()\<close>);
  \<^item> \<open>now\<close>, the first clock reading in whole seconds (\<^verbatim>\<open>int(time.time())\<close>);
  \<^item> \<open>now_text\<close>, the second clock reading as the f-string writes it
    (\<^verbatim>\<open>str(time.time())\<close>, the text of a float).
\<close>

section \<open>The generators\<close>

definition generate_escrow_id :: "(string \<Rightarrow> string) \<Rightarrow> int \<Rightarrow> string \<Rightarrow> string" where
  "generate_escrow_id md5_hex now now_text =
     (let timestamp = now;
          random_part = take 8 (md5_hex (show_int timestamp @ now_text))
      in ''escrow_'' @ show_int timestamp @ ''_'' @ random_part)"

definition generate_dispute_id :: "(string \<Rightarrow> string) \<Rightarrow> int \<Rightarrow> string \<Rightarrow> string" where
  "generate_dispute_id md5_hex now now_text =
     (let timestamp = now;
          random_part = take 8 (md5_hex (''dispute_'' @ show_int timestamp @ now_text))
      in ''dispute_'' @ show_int timestamp @ ''_'' @ random_part)"

definition generate_session_id :: "(string \<Rightarrow> string) \<Rightarrow> int \<Rightarrow> string \<Rightarrow> string" where
  "generate_session_id md5_hex now now_text =
     (let timestamp = now;
          random_part = take 12 (md5_hex (''session_'' @ show_int timestamp @ now_text))
      in ''session_'' @ show_int timestamp @ ''_'' @ random_part)"

lemmas generate_id_defs [escrow_defs] =
  generate_escrow_id_def generate_dispute_id_def generate_session_id_def

text \<open>A digest function: every digest has 32 characters, as a hexadecimal MD5 digest has.\<close>

definition digest32 :: "(string \<Rightarrow> string) \<Rightarrow> bool" where
  "digest32 md5_hex \<longleftrightarrow> (\<forall>x. length (md5_hex x) = 32)"

section \<open>Shape of an identifier\<close>

lemma generate_id_lengths:
  assumes "digest32 md5_hex"
  shows "length (generate_escrow_id md5_hex now now_text) = 16 + length (show_int now)"
    and "length (generate_dispute_id md5_hex now now_text) = 17 + length (show_int now)"
    and "length (generate_session_id md5_hex now now_text) = 21 + length (show_int now)"
  using assms by (simp_all add: generate_id_defs digest32_def)

lemma generate_id_prefix:
  "startswith (generate_escrow_id md5_hex now now_text) ''escrow_''"
  "startswith (generate_dispute_id md5_hex now now_text) ''dispute_''"
  "startswith (generate_session_id md5_hex now now_text) ''session_''"
  by (simp_all add: generate_id_defs)

text \<open>
  Two identifiers that end in random parts of the same length are equal only if they
  were made at the same second.
\<close>

lemma stamped_inj:
  assumes "pre @ show_int i @ ''_'' @ r = pre @ show_int j @ ''_'' @ r'"
    and "length r = length r'"
  shows "i = j"
proof -
  from assms(1) have eq: "show_int i @ (''_'' @ r) = show_int j @ (''_'' @ r')"
    by simp
  from arg_cong [OF eq, of length] assms(2) have "length (show_int i) = length (show_int j)"
    by simp
  from eq [unfolded append_eq_append_conv [OF disjI1 [OF this]]] show ?thesis
    by simp
qed

text \<open>
  C28. The identifiers of the three generators carry their prefix and are long enough
  for the rule on escrow identifiers (at least 10 characters), and identifiers made at
  different seconds differ. Nothing makes two identifiers of the same second differ
  but the digest of the second clock reading.
\<close>

theorem generated_ids:
  assumes "digest32 md5_hex"
  shows "startswith (generate_escrow_id md5_hex now now_text) ''escrow_'' \<and>
     17 \<le> length (generate_escrow_id md5_hex now now_text) \<and>
     (generate_escrow_id md5_hex now now_text = generate_escrow_id md5_hex now' now_text'
        \<longrightarrow> now = now') \<and>
     (generate_dispute_id md5_hex now now_text = generate_dispute_id md5_hex now' now_text'
        \<longrightarrow> now = now') \<and>
     (generate_session_id md5_hex now now_text = generate_session_id md5_hex now' now_text'
        \<longrightarrow> now = now')"
proof -
  from assms have len: "length (take k (md5_hex x)) = length (take k (md5_hex y))" for k x y
    by (simp add: digest32_def)
  have "now = now'"
    if "generate_escrow_id md5_hex now now_text = generate_escrow_id md5_hex now' now_text'"
    using that unfolding generate_escrow_id_def Let_def by (rule stamped_inj) (rule len)
  moreover have "now = now'"
    if "generate_dispute_id md5_hex now now_text = generate_dispute_id md5_hex now' now_text'"
    using that unfolding generate_dispute_id_def Let_def by (rule stamped_inj) (rule len)
  moreover have "now = now'"
    if "generate_session_id md5_hex now now_text = generate_session_id md5_hex now' now_text'"
    using that unfolding generate_session_id_def Let_def by (rule stamped_inj) (rule len)
  moreover have "Suc 0 \<le> length (show_int now)"
    by (simp add: Suc_le_eq)
  ultimately show ?thesis
    using generate_id_lengths(1) [OF assms, of now now_text]
    by (simp add: generate_id_prefix)
qed

theorem generated_ids_witness:
  "digest32 (\<lambda>x. ''0123456789abcdef0123456789abcdef'') \<and>
   generate_escrow_id (\<lambda>x. ''0123456789abcdef0123456789abcdef'') 1700000000 ''1700000000.25''
     = ''escrow_1700000000_01234567'' \<and>
   17 \<le> length (generate_escrow_id (\<lambda>x. ''0123456789abcdef0123456789abcdef'') 1700000000
             ''1700000000.25'')"
  using generated_ids [of "\<lambda>x. ''0123456789abcdef0123456789abcdef''" 1700000000
      "''1700000000.25''"]
  by (simp add: digest32_def generate_escrow_id_def digit_char_def)

text \<open>
  Within one second the identifier is the digest's: when the digests of two texts
  begin alike, the identifiers are the same.
\<close>

lemma generate_escrow_id_collision:
  assumes "take 8 (md5_hex (show_int now @ t1)) = take 8 (md5_hex (show_int now @ t2))"
  shows "generate_escrow_id md5_hex now t1 = generate_escrow_id md5_hex now t2"
  using assms by (simp add: generate_escrow_id_def)

end
