(* ===== verification/Spec2Isabelle.thy ===== *)
theory Spec2Isabelle
  imports Validation Arbiter Protocol Messages Agents Supercar_Agent Oracle_Verify Deployer
    Models_Requests Identifiers
begin

text \<open>
  \<^bold>\<open>A verification development for the decentralized escrow system\<close>
  (the Python sources under \<^verbatim>\<open>src/escrow-system/\<close>).

  \<^bold>\<open>The program.\<close> Four chat agents (buyer, seller, arbiter, oracle) exchange messages
  about escrows. The domain logic they share is in three modules:
  \<^verbatim>\<open>shared/models.py\<close> (the enumerations and dataclasses of escrows, assets, terms,
  disputes and requests), \<^verbatim>\<open>shared/utils.py\<close> (identifiers; validation of
  addresses, transaction hashes and escrow data; display of addresses and of the time
  left; builders, extractors and the parser of message content) and
  \<^verbatim>\<open>protocols/escrow_protocol.py\<close> (the catalogue of message types, the message
  envelopes, their parsing and validation). Each agent is a module of
  \<^verbatim>\<open>agents/\<close> with a chat handler that acknowledges a message and answers its
  content through a keyword router; \<^verbatim>\<open>agents/arbiter_agent.py\<close> also holds the
  arbiter's decision procedure \<^verbatim>\<open>analyze_dispute\<close> and
  \<^verbatim>\<open>agents/oracle_agent.py\<close> the oracle's \<^verbatim>\<open>verify_transaction_with_ai\<close>, which
  asks an external service. \<^verbatim>\<open>agent.py\<close> is a fifth chat agent, which forwards
  questions to the same service, and \<^verbatim>\<open>deployment/deploy_agents.py\<close> is the script
  that deploys the four agents and writes their addresses to files.

  \<^bold>\<open>The theories\<close>, in the order of their dependencies:

  \<^item> \<open>Escrow_Prelude\<close>: the error type \<open>py_error\<close> and the result type
    \<open>'a result = py_error + 'a\<close> (\<open>Inl\<close> is a raised exception) with its bind
    \<open>and_then\<close>; the string operations of Python that the sources use
    (\<open>startswith\<close>, \<open>py_in\<close> for \<^verbatim>\<open>in\<close>, \<open>py_lower\<close>, slices, \<open>py_join\<close>,
    \<open>show_int\<close> for \<^verbatim>\<open>str\<close> of an integer, with \<open>read_nat\<close> that reads the digits
    back); \<open>utf8\<close>, the encoding of a string in a printed text; and \<open>collect\<close>, the
    reading of a sequence of \<^verbatim>\<open>if violated: errors.append(message)\<close> statements as
    a table of rules, with the lemmas that let the component theories reason about such
    tables.
  \<^item> \<open>Py_Int\<close>: \<open>py_int16\<close>, the parser behind \<^verbatim>\<open>int(s, 16)\<close>, as a scanner
    written after the interpreter's, and \<open>int16_literal\<close>, the grammar of the accepted
    strings; the theorem \<open>py_int16_ok_iff\<close> shows that the scanner accepts exactly
    the grammar.
  \<^item> \<open>Py_Float\<close>: the values of Python's \<^verbatim>\<open>float\<close> as a datatype (an odd mantissa
    and a binary exponent, the zeros, the infinities and NaN) and the float literals of
    the sources as binary64 values.
  \<^item> \<open>Py_Values\<close>: the dynamically typed values (\<open>json\<close>) and dictionaries as
    association lists in insertion order (\<open>dict_get\<close>, \<open>dict_get_or\<close>, \<open>dict_has\<close>,
    \<open>dict_set\<close>, the subscripts \<open>py_getitem\<close> and \<open>py_getitem0\<close>, \<open>py_len\<close>,
    \<open>py_truthy\<close>, \<open>py_str\<close>), with \<open>wf_dict\<close>, distinctness of the keys.
  \<^item> \<open>Models\<close> and \<open>Models_Requests\<close> (\<^verbatim>\<open>shared/models.py\<close>): the enumerations
    \<open>EscrowState\<close>, \<open>TradeType\<close>, \<open>AssetType\<close>, \<open>ChainType\<close>, \<open>UserRole\<close> with
    their values, and every dataclass as a record with its default constructor
    (\<open>C_defaults\<close>, the required fields as arguments) and, where the class has one, its
    \<^verbatim>\<open>__post_init__\<close> (\<open>C_post_init\<close>, and \<open>C_new\<close> for the two in sequence). The
    lemmas show that the values of each enumeration identify its members and that
    \<^verbatim>\<open>__post_init__\<close> replaces exactly the missing collections, once.
  \<^item> \<open>Identifiers\<close> (\<^verbatim>\<open>shared/utils.py\<close>): \<open>generate_escrow_id\<close>,
    \<open>generate_dispute_id\<close>, \<open>generate_session_id\<close>, with the shape of an identifier
    and the sense in which identifiers differ.
  \<^item> \<open>Validation\<close> (\<^verbatim>\<open>shared/utils.py\<close>): \<open>validate_address\<close>,
    \<open>validate_transaction_hash\<close>, \<open>validate_escrow_data\<close>, \<open>format_address\<close>,
    \<open>calculate_time_remaining\<close>, \<open>format_time_remaining\<close>. The theorems
    characterise the accepted addresses and hashes exactly (and show where they exceed
    the specification: a sign, white space, a second prefix and underscores pass),
    show that escrow validation reports all violated rules in the order of a table of
    eight and characterise the valid escrows, and show that the time left is split
    into days, hours, minutes and seconds that add up, with the texts
    \<^verbatim>\<open>Expired\<close> exactly after the deadline and never the fallback \<^verbatim>\<open>0s\<close>.
  \<^item> \<open>Arbiter\<close> (\<^verbatim>\<open>agents/arbiter_agent.py\<close>): \<open>analyze_dispute\<close>, with the
    decision table of the specification (\<open>recommendation_for\<close>, \<open>confidence_for\<close>,
    \<open>reasoning_for\<close>), the exact condition under which the analysis raises, and the
    shape of every analysis.
  \<^item> \<open>Protocol\<close> (\<^verbatim>\<open>protocols/escrow_protocol.py\<close>): the sixteen message types,
    the eleven envelope constructors, \<open>parse_message_type\<close>, \<open>parse_message_data\<close>,
    \<open>validate_message\<close>, the protocol constants and the list of types with a
    registered handler. The theorems show that every constructed message is valid and
    gives back its type and its payload, that validation tests the presence of four
    keys and nothing else, and what the catalogue holds.
  \<^item> \<open>Messages\<close> (\<^verbatim>\<open>shared/utils.py\<close>): the content builders, the extractors,
    the error, success, status, capability and heartbeat dictionaries,
    \<open>parse_agent_message\<close> and \<open>log_agent_activity\<close>. The theorems show that each
    extractor is a search for the first item of its type, that content round-trips
    through builder and extractor, and when a parsed message is well typed.
  \<^item> \<open>Chat_Agent\<close>: the messages of the chat protocol (\<open>chat_message\<close>,
    \<open>chat_content\<close>), what a handler sends (\<open>sent\<close>), and the generic handler
    \<open>chat_agent\<close> with what the protocol asks of it: the acknowledgement first and
    only once, and one answer for each text.
  \<^item> \<open>Buyer_Agent\<close>, \<open>Seller_Agent\<close>, \<open>Arbiter_Agent\<close>, \<open>Oracle_Agent\<close>
    (\<^verbatim>\<open>agents/*.py\<close>): for each agent its capabilities, its texts, its handlers, its
    router (\<open>handle_buyer_request\<close> and so on) and its chat handler
    (\<open>on_chat_buyer\<close> and so on), with
    the lemma that the chat handler is an instance of \<open>chat_agent\<close> and the exact
    conditions under which the router chooses each handler. \<open>Agents\<close> states what
    holds of all four.
  \<^item> \<open>Oracle_Verify\<close> (\<^verbatim>\<open>agents/oracle_agent.py\<close>): \<open>verify_transaction_with_ai\<close>
    with the request it builds; the theorems give its result on every path.
  \<^item> \<open>Supercar_Agent\<close> (\<^verbatim>\<open>agent.py\<close>): \<open>get_supercar_expert_response\<close> and
    the chat handler \<open>on_chat_supercar\<close>.
  \<^item> \<open>Deployer\<close> (\<^verbatim>\<open>deployment/deploy_agents.py\<close>): the class
    \<open>AgentDeployer\<close> as a record, its methods, the effects of each method, and
    \<open>main\<close>; the deployer as a state machine (\<open>deployer_step\<close>,
    \<open>deployer_reachable\<close>) with its invariant \<open>deployer_inv\<close>, proved by induction
    over the reachable states; and the whole run of the script as a list of effects.
  \<^item> this theory: the properties that span components.

  \<^bold>\<open>Correspondence with the code.\<close> Every function of the sources that is modelled is
  one definition with the source's name and the source's arguments in their order; a
  name that two modules use is suffixed for the second (\<open>_utils\<close>, \<open>_buyer\<close>,
  \<open>_seller\<close>, and so on), a name that clashes with a constructor of the data model
  likewise (\<open>DISPUTE_RAISED_MSG\<close>), and an argument whose name is a record field is
  shortened. A \<^verbatim>\<open>try\<close> with an \<^verbatim>\<open>except\<close> clause is a case distinction on the
  result of the guarded call; an exception that leaves the function is an \<open>Inl\<close>
  result. A method of a class takes the object as its first argument and returns the
  changed object beside its result. What a handler sends and what the script prints
  and writes is returned as a list, in the order of the calls. What the code reads from
  its environment is an argument: the clock (\<open>now\<close>, \<open>ts\<close>, \<open>clock\<close>), the
  generated identifiers (\<open>mid\<close>, \<open>sid\<close>), the MD5 digest, the environment variables
  (\<open>api_key\<close>, \<open>token\<close>), the exchange with the completion service (\<open>post\<close>),
  \<^verbatim>\<open>json.loads\<close> and \<^verbatim>\<open>json.dumps\<close>, and the texts of exceptions and of values
  whose text is that of \<^verbatim>\<open>repr\<close> (\<open>describe\<close>, \<open>other\<close>).

  \<^bold>\<open>Bounds and fuel.\<close> The code has no loop that could fail to end: its loops run over
  a content list, over the entries of a dictionary, over the characters of a literal
  and over the digits of a number, and are structural recursions or recursions on a
  number that decreases, so no fuel is used anywhere and every function of the model
  is total. A character of the model is one byte. A string that the program reads and
  tests is a Python string whose code points are below 256; the white space and the
  digits that \<^verbatim>\<open>int\<close> accepts beyond that range, and the letters that \<^verbatim>\<open>lower\<close>
  changes beyond it, are outside the model. A text that the program only sends or
  prints is given in UTF-8. Integers are unbounded, as in Python. Floats occur as
  literals only.

  \<^bold>\<open>Not modelled.\<close> \<^verbatim>\<open>format_amount\<close> and \<^verbatim>\<open>calculate_fees\<close> of
  \<^verbatim>\<open>shared/utils.py\<close>: they parse a float from a string, multiply and subtract in
  binary64 and format with 18 decimals, and no float arithmetic is modelled. The
  \<^verbatim>\<open>except\<close> branch of \<^verbatim>\<open>deploy_agent\<close>, which is entered only when printing
  fails. The handlers \<^verbatim>\<open>on_ack\<close> of the agents and the handlers registered in
  \<^verbatim>\<open>escrow_protocol.py\<close>, which write a log line and nothing else, and the log
  lines of the chat handlers. The agent framework itself: the time stamps and
  identifiers of outgoing chat messages, the delivery of messages, and what the
  framework does with a text that is no string. The escrow registry and its state
  machine, which the specification describes, have no code in the repository: no
  function creates, stores or advances an escrow.
\<close>

section \<open>From a dispute record to the arbiter\<close>

lemma analyze_without_evidence:
  assumes "\<not> dict_has d ''evidence''"
  shows "analyze_dispute d =
     Inr [(''dispute_id'', dict_get d ''dispute_id''),
          (''parties'', JDict [(''buyer'', dict_get d ''buyer_address''),
                               (''seller'', dict_get d ''seller_address'')]),
          (''evidence'', JList []),
          (''recommendation'', JStr ''REQUIRES_MORE_EVIDENCE''),
          (''confidence'', JFloat float_0_5),
          (''reasoning'', JStr ''Insufficient evidence to make a decision''),
          (''required_evidence'',
             JList [JStr ''Transaction proof'', JStr ''Communication logs'',
                    JStr ''Delivery confirmation''])]"
proof -
  from assms have e: "dict_get_or d ''evidence'' (JList []) = JList []"
    by (rule dict_get_or_absent)
  then have "py_len (dict_get_or d ''evidence'' (JList [])) = Inr 0"
    by simp
  from analyze_dispute_counted [OF this] e show ?thesis
    by (simp add: recommendation_for_def confidence_for_def reasoning_for_def)
qed

text \<open>
  C18. The dictionary that \<^verbatim>\<open>create_dispute_content\<close> builds from a dispute record
  has no evidence entry and no party addresses. So the arbiter's analysis of the
  dispute data extracted from such content asks for more evidence and names no party,
  however many evidence items the record holds.
\<close>

theorem dispute_content_loses_evidence:
  "\<exists>p a. extract_dispute_data [create_dispute_content r] = JDict p \<and>
         analyze_dispute p = Inr a \<and>
         dict_get a ''dispute_id'' = JStr (DisputeRecord.dispute_id r) \<and>
         dict_get a ''recommendation'' = JStr ''REQUIRES_MORE_EVIDENCE'' \<and>
         dict_get a ''evidence'' = JList [] \<and>
         dict_get a ''parties'' = JDict [(''buyer'', JNone), (''seller'', JNone)]"
proof -
  let ?p = "[(''dispute_id'', JStr (DisputeRecord.dispute_id r)),
             (''escrow_id'', JStr (DisputeRecord.escrow_id r)),
             (''disputing_party'', JStr (DisputeRecord.disputing_party r)),
             (''reason'', JStr (DisputeRecord.reason r)),
             (''status'', JStr (DisputeRecord.status r)),
             (''arbiter_address'', JStr (DisputeRecord.arbiter_address r)),
             (''created_at'', JInt (DisputeRecord.created_at r)),
             (''resolved_at'', opt_int (DisputeRecord.resolved_at r)),
             (''decision'', opt_str (DisputeRecord.decision r)),
             (''arbiter_reasoning'', opt_str (DisputeRecord.arbiter_reasoning r))]"
  have x: "extract_dispute_data [create_dispute_content r] = JDict ?p"
    by (simp add: dispute_content_payload)
  have "\<not> dict_has ?p ''evidence''"
    by simp
  from analyze_without_evidence [OF this] x show ?thesis
    by simp
qed



section \<open>The two families of message builders\<close>

text \<open>
  C35. The dictionaries that the builders of \<^verbatim>\<open>shared/utils.py\<close> make for errors,
  successes, status updates and heartbeats carry the message types of the protocol
  but are not messages of the protocol: \<^verbatim>\<open>validate_message\<close> rejects each of them,
  while it accepts what the builders of the same names in the protocol module make.
\<close>

theorem utils_messages_not_envelopes:
  "\<not> validate_message (create_error_message_utils err det) \<and>
   \<not> validate_message (create_success_message_utils msg payload) \<and>
   \<not> validate_message (create_status_update eid old new why now) \<and>
   \<not> validate_message (create_heartbeat_message_utils ag st now now') \<and>
   parse_message_type (create_error_message_utils err det) = JStr ERROR \<and>
   parse_message_type (create_success_message_utils msg payload) = JStr SUCCESS \<and>
   parse_message_type (create_status_update eid old new why now) = JStr STATUS_UPDATE \<and>
   parse_message_type (create_heartbeat_message_utils ag st now now') = JStr HEARTBEAT \<and>
   validate_message (create_error_message err det ts mid) \<and>
   validate_message (create_heartbeat_message ag st up ts mid)"
proof -
  have "validate_message (create_error_message err det ts mid)"
    "validate_message (create_heartbeat_message ag st up ts mid)"
    by (simp_all add: constructor_envelope)
  moreover have "\<not> validate_message (create_error_message_utils err det)"
    "parse_message_type (create_error_message_utils err det) = JStr ERROR"
    by (cases det; simp add: create_error_message_utils_eq validate_message_keys
        parse_message_type_def ERROR_def)+
  moreover have "\<not> validate_message (create_success_message_utils msg payload)"
    "parse_message_type (create_success_message_utils msg payload) = JStr SUCCESS"
    by (cases payload; simp add: create_success_message_utils_eq validate_message_keys
        parse_message_type_def SUCCESS_def)+
  ultimately show ?thesis
    by (simp add: create_status_update_def create_heartbeat_message_utils_def
        validate_message_keys parse_message_type_def STATUS_UPDATE_def HEARTBEAT_def)
qed

section \<open>A valid escrow as message content\<close>

lemma valid_escrow_addresses:
  assumes "validate_escrow_data now e = []"
  shows "validate_address (EscrowData.buyer_address e)"
    "validate_address (EscrowData.seller_address e)"
    "validate_address (EscrowData.arbiter_address e)"
  using assms
  unfolding validate_escrow_data_collect collect_empty_iff escrow_rules_def
  by simp_all

text \<open>
  C36. The content item built from an escrow that passes \<^verbatim>\<open>validate_escrow_data\<close>
  gives back, through \<^verbatim>\<open>extract_escrow_data\<close>, three party addresses that
  \<^verbatim>\<open>validate_address\<close> accepts, and the number of the state of the escrow.
\<close>

theorem valid_escrow_content:
  assumes "validate_escrow_data now e = []"
  shows "\<exists>p b s a. extract_escrow_data [create_escrow_content e] = JDict p \<and>
     dict_get p ''buyer_address'' = JStr b \<and> validate_address b \<and>
     dict_get p ''seller_address'' = JStr s \<and> validate_address s \<and>
     dict_get p ''arbiter_address'' = JStr a \<and> validate_address a \<and>
     dict_get p ''status'' = JInt (EscrowState_value (EscrowData.status e))"
  using valid_escrow_addresses [OF assms]
  by (simp add: create_escrow_content_def)

theorem valid_escrow_content_witness:
  "validate_escrow_data 1000 sample_escrow = [] \<and>
   (\<exists>p. extract_escrow_data [create_escrow_content sample_escrow] = JDict p \<and>
        dict_get p ''buyer_address'' = JStr zero_address \<and>
        dict_get p ''status'' = JInt 0)"
  using valid_escrow_content [OF sample_escrow_valid] sample_escrow_valid
  by (auto simp: sample_escrow_fields create_escrow_content_def)

section \<open>The deployer and the agents\<close>


section \<open>Generated identifiers and the escrow validation\<close>

text \<open>
  C39. An escrow whose identifier comes from \<^verbatim>\<open>generate_escrow_id\<close> is never reported
  for its identifier by \<^verbatim>\<open>validate_escrow_data\<close>, whatever the clock reads, as long
  as the digest has the 32 characters of an MD5 digest.
\<close>

theorem generated_id_valid:
  assumes "digest32 md5_hex"
  shows "''Invalid escrow ID'' \<notin> set (validate_escrow_data now
      (e\<lparr>EscrowData.escrow_id := generate_escrow_id md5_hex t t_text\<rparr>))"
proof -
  from generate_id_lengths(1) [OF assms, of t t_text]
  have "\<not> length (generate_escrow_id md5_hex t t_text) < 10"
    by simp
  then show ?thesis
    by (simp add: validate_escrow_data_collect collect_member_iff escrow_rules_def)
qed

theorem generated_id_valid_witness:
  "validate_escrow_data 1000
     (sample_escrow\<lparr>EscrowData.escrow_id :=
        generate_escrow_id (\<lambda>x. ''0123456789abcdef0123456789abcdef'') 999 ''999.5''\<rparr>) = []"
proof -
  have d: "digest32 (\<lambda>x. ''0123456789abcdef0123456789abcdef'')"
    by (simp add: digest32_def)
  from generated_id_valid [OF d, where now = 1000 and e = sample_escrow and t = 999
      and t_text = "''999.5''"] sample_escrow_rules
  show ?thesis
    by (simp add: validate_escrow_data_collect collect_empty_iff collect_member_iff
        escrow_rules_def sample_escrow_fields generate_escrow_id_def)
qed

end
